(* ===== verification/Prelude.thy ===== *)
theory Prelude
  imports Main "HOL-Library.Word" "HOL-Library.Sublist"
begin

text \<open>
  Shared vocabulary of the development: the machine types of the Rust source
  (\<open>u8\<close>, \<open>usize\<close>), the simp collections the component theories fill, the
  string splitting every reader of a rendered value uses, and the generic facts
  on words, lists and bounded quantifiers that several components share.
\<close>

section \<open>Machine types\<close>

type_synonym u8 = "8 word"
type_synonym usize = "64 word"

section \<open>Simp collections\<close>

text \<open>
  \<open>fmt_simps\<close> collects the evaluation facts of the formatting helpers,
  \<open>world_simps\<close> those of the host-world primitives; component proofs add them
  with \<open>simp add:\<close>.
\<close>

named_theorems fmt_simps
named_theorems world_simps

section \<open>Splitting strings\<close>

text \<open>Splitting a string at every occurrence of a separator (Rust's \<open>str::split\<close>
  with a \<open>char\<close> pattern): used to read addresses, MACs and paths back.\<close>

fun split_on :: "char \<Rightarrow> string \<Rightarrow> string list" where
  "split_on d [] = [[]]"
| "split_on d (c # cs) =
     (if c = d then [] # split_on d cs
      else (case split_on d cs of w # ws \<Rightarrow> (c # w) # ws | [] \<Rightarrow> [[c]]))"

section \<open>Words\<close>

lemma unat_u8_lt [simp]: "unat (b::u8) < 256"
  using unsigned_less [of b] by simp

lemma unat_u8_ne_max: "(b::u8) \<noteq> 255 \<Longrightarrow> unat b < 255"
proof -
  assume ne: "b \<noteq> 255"
  have "unat b \<noteq> 255"
  proof
    assume "unat b = 255"
    then have "b = 255" by (simp add: word_unat_eq_iff)
    with ne show False ..
  qed
  with unat_u8_lt [of b] show ?thesis by linarith
qed

lemma unat_u8_suc: "(b::u8) \<noteq> 255 \<Longrightarrow> unat (b + 1) = unat b + 1"
  using unat_u8_ne_max [of b] by (simp add: unat_word_ariths)

section \<open>Bounded quantifiers and lists\<close>

lemma all_less_6:
  "(\<forall>k<(6::nat). P k) \<longleftrightarrow> P 0 \<and> P 1 \<and> P 2 \<and> P 3 \<and> P 4 \<and> P 5"
proof -
  have "\<And>k::nat. k < 6 \<longleftrightarrow> k = 0 \<or> k = 1 \<or> k = 2 \<or> k = 3 \<or> k = 4 \<or> k = 5" by arith
  then show ?thesis by metis
qed

text \<open>A Rust array \<open>[T; 6]\<close> is a list of length 6; indexing it at 0..5 gives it back.\<close>

lemma list6_eq:
  assumes "length m = 6"
  shows "[m ! 0, m ! 1, m ! 2, m ! 3, m ! 4, m ! 5] = m"
proof -
  from assms obtain a b c d e f where "m = [a, b, c, d, e, f]"
    by (auto simp: length_Suc_conv numeral_eq_Suc)
  then show ?thesis by simp
qed

text \<open>Path-like lists: a list is never a prefix of a proper extension of it,
  and lists with different last elements differ.\<close>

lemma not_prefix_snoc_self [simp]: "\<not> prefix (xs @ y # ys) xs"
  using prefix_length_le [of "xs @ y # ys" xs] by auto

lemma append_last_neq:
  "ys \<noteq> [] \<Longrightarrow> zs \<noteq> [] \<Longrightarrow> last ys \<noteq> last zs \<Longrightarrow> (xs @ ys = xs' @ zs) = False"
  by (metis last_appendR)

lemma split_on_ne [simp]: "split_on d s \<noteq> []"
  by (induction s) (auto split: list.split)

lemma split_on_append_sep:
  "d \<notin> set xs \<Longrightarrow> split_on d (xs @ d # ys) = xs # split_on d ys"
  by (induction xs) auto

lemma split_on_no_sep:
  "d \<notin> set xs \<Longrightarrow> split_on d xs = [xs]"
  by (induction xs) auto

end
