(* ===== verification/Replace.thy ===== *)
theory Replace
  imports Prelude
begin

text \<open>
  Rust's \<open>str::replace(from, to)\<close>, which both seeders call three times on a
  template: the matches of \<open>from\<close> are found left to right and do not overlap
  (\<open>match_indices\<close>); each is replaced by \<open>to\<close>; an empty \<open>from\<close> matches at
  every character boundary. The theory proves that a replacement is a no-op on a
  text without the needle, and that it splits at any character the needle does
  not contain, the two facts the template round trip of the seeders rests on.
\<close>

section \<open>The operation\<close>

function str_replace :: "string \<Rightarrow> string \<Rightarrow> string \<Rightarrow> string" where
  "str_replace s p r =
     (if p = [] then r @ concat (map (\<lambda>c. c # r) s)
      else case s of
        [] \<Rightarrow> []
      | c # cs \<Rightarrow>
          if prefix p s then r @ str_replace (drop (length p) s) p r
          else c # str_replace cs p r)"
  by pat_completeness auto
termination
  by (relation "measure (\<lambda>(s, p, r). length s)") auto

declare str_replace.simps [simp del]

text \<open>A crossing-free split point: no occurrence of \<open>p\<close> can start in \<open>a\<close>
  and end in \<open>b\<close>.\<close>

definition no_cross :: "string \<Rightarrow> string \<Rightarrow> string \<Rightarrow> bool" where
  "no_cross p a b \<longleftrightarrow> a = [] \<or> b = [] \<or> last a \<notin> set p \<or> hd b \<notin> set p"

section \<open>Evaluation lemmas\<close>

lemma str_replace_Nil [simp]: "str_replace [] p r = (if p = [] then r else [])"
  by (simp add: str_replace.simps [of "[]"])

lemma str_replace_Cons:
  "p \<noteq> [] \<Longrightarrow> str_replace (c # cs) p r =
     (if prefix p (c # cs) then r @ str_replace (drop (length p) (c # cs)) p r
      else c # str_replace cs p r)"
  by (simp add: str_replace.simps [of "c # cs"])

lemma str_replace_needle_prefix:
  "p \<noteq> [] \<Longrightarrow> str_replace (p @ s) p r = r @ str_replace s p r"
  by (cases p) (simp_all add: str_replace_Cons)

lemma str_replace_self [simp]: "p \<noteq> [] \<Longrightarrow> str_replace p p r = r"
  using str_replace_needle_prefix [of p "[]" r] by simp

section \<open>No match, no change\<close>

lemma str_replace_no_match:
  assumes "p \<noteq> []" and "\<not> sublist p s"
  shows "str_replace s p r = s"
  using assms(2)
proof (induction s)
  case Nil
  with assms(1) show ?case by simp
next
  case (Cons c cs)
  then have "\<not> prefix p (c # cs)" and "\<not> sublist p cs"
    by (auto simp: sublist_Cons_right)
  with Cons.IH assms(1) show ?case by (simp add: str_replace_Cons)
qed

section \<open>Splitting at a crossing-free point\<close>

lemma prefix_append_cross:
  assumes "prefix p (a @ b)" and "\<not> prefix p a" and "a \<noteq> []"
  shows "b \<noteq> [] \<and> last a \<in> set p \<and> hd b \<in> set p"
proof -
  from assms(1) obtain z where z: "a @ b = p @ z" by (auto simp: prefix_def)
  have "length a < length p"
  proof (rule ccontr)
    assume "\<not> length a < length p"
    then have "take (length p) (a @ b) = take (length p) a" by simp
    with z have "prefix p a" by (metis append_eq_conv_conj prefix_def take_all_iff order_refl
          append_take_drop_id take_append)
    with assms(2) show False ..
  qed
  with z obtain q where p: "p = a @ q" and q: "q \<noteq> []" and b: "b = q @ z"
    by (metis append_eq_append_conv_if append_eq_conv_conj le_less_linear not_less
        append_take_drop_id drop_eq_Nil take_all_iff)
  from p assms(3) have "last a \<in> set p" by simp
  moreover from p q have "hd q \<in> set p" by simp
  ultimately show ?thesis using b q by simp
qed

lemma str_replace_append:
  assumes "p \<noteq> []" and "no_cross p a b"
  shows "str_replace (a @ b) p r = str_replace a p r @ str_replace b p r"
  using assms(2)
proof (induction "length a" arbitrary: a rule: less_induct)
  case less
  show ?case
  proof (cases a)
    case Nil
    with assms(1) show ?thesis by simp
  next
    case (Cons c cs)
    show ?thesis
    proof (cases "prefix p a")
      case True
      then obtain z where z: "a = p @ z" by (auto simp: prefix_def)
      have "no_cross p z b"
        using less.prems z by (auto simp: no_cross_def)
      moreover have "length z < length a" using z assms(1) by simp
      ultimately have "str_replace (z @ b) p r = str_replace z p r @ str_replace b p r"
        using less.hyps by blast
      with z assms(1) show ?thesis by (simp add: str_replace_needle_prefix)
    next
      case False
      have "\<not> prefix p (a @ b)"
        using prefix_append_cross [of p a b] False less.prems Cons by (auto simp: no_cross_def)
      moreover have "no_cross p cs b"
        using less.prems Cons by (auto simp: no_cross_def)
      then have "str_replace (cs @ b) p r = str_replace cs p r @ str_replace b p r"
        using less.hyps Cons by simp
      ultimately show ?thesis
        using False Cons assms(1) by (simp add: str_replace_Cons)
    qed
  qed
qed

end
