(* ===== verification/ReplaceStd.thy ===== *)
theory ReplaceStd
  imports Replace
begin

text \<open>
  The standard library's own implementation of \<open>str::replace\<close>
  (\<open>alloc::str\<close>): it collects the start of every match from
  \<open>match_indices(from)\<close> and copies the text between matches, writing \<open>to\<close>
  in place of each match:
  \<^verbatim>\<open>
    let mut result = String::new();
    let mut last_end = 0;
    for (start, part) in self.match_indices(from) {
        result.push_str(&self[last_end..start]);
        result.push_str(to);
        last_end = start + part.len();
    }
    result.push_str(&self[last_end..]);
  \<close>
  A non-empty needle is searched left to right, resuming after each match
  (\<open>match_from\<close>); the empty needle matches at every boundary. The theorem of
  this theory is that this loop computes \<open>str_replace\<close>, the recursive
  definition the rest of the development reasons about.
\<close>

section \<open>The loop of the standard library\<close>

function match_from :: "string \<Rightarrow> string \<Rightarrow> nat \<Rightarrow> nat list" where
  "match_from s p i =
     (if p = [] \<or> length s < i + length p then []
      else if take (length p) (drop i s) = p then i # match_from s p (i + length p)
      else match_from s p (Suc i))"
  by pat_completeness auto
termination
  by (relation "measure (\<lambda>(s, p, i). Suc (length s) - i)") (auto simp flip: length_greater_0_conv)

declare match_from.simps [simp del]

definition match_indices :: "string \<Rightarrow> string \<Rightarrow> nat list" where
  "match_indices s p = (if p = [] then [0..<Suc (length s)] else match_from s p 0)"

fun replace_loop :: "string \<Rightarrow> nat \<Rightarrow> string \<Rightarrow> nat \<Rightarrow> nat list \<Rightarrow> string" where
  "replace_loop s plen r last_end [] = drop last_end s"
| "replace_loop s plen r last_end (start # starts) =
     take (start - last_end) (drop last_end s) @ r @ replace_loop s plen r (start + plen) starts"

definition replace_std :: "string \<Rightarrow> string \<Rightarrow> string \<Rightarrow> string" where
  "replace_std s p r = replace_loop s (length p) r 0 (match_indices s p)"

section \<open>The loop computes \<open>str_replace\<close>\<close>

lemma match_from_ge: "j \<in> set (match_from s p i) \<Longrightarrow> i \<le> j"
proof (induction s p i rule: match_from.induct)
  case (1 s p i)
  then show ?case by (subst (asm) match_from.simps) (auto split: if_splits)
qed

lemma replace_loop_skip:
  assumes "i < length s" and "\<forall>st \<in> set (take 1 L). Suc i \<le> st"
  shows "replace_loop s k r i L = s ! i # replace_loop s k r (Suc i) L"
proof (cases L)
  case Nil
  with assms(1) show ?thesis by (simp add: Cons_nth_drop_Suc)
next
  case (Cons st sts)
  with assms have "take (st - i) (drop i s) = s ! i # take (st - Suc i) (drop (Suc i) s)"
    by (simp add: Cons_nth_drop_Suc [symmetric] take_Cons' Suc_diff_Suc)
  with Cons show ?thesis by simp
qed

lemma replace_loop_match_from:
  "p \<noteq> [] \<Longrightarrow> replace_loop s (length p) r i (match_from s p i) = str_replace (drop i s) p r"
proof (induction s p i rule: match_from.induct)
  case (1 s p i)
  show ?case
  proof (cases "length s < i + length p")
    case True
    then have "\<not> sublist p (drop i s)"
      using sublist_length_le [of p "drop i s"] "1.prems" by auto
    with True "1.prems" show ?thesis
      by (simp add: match_from.simps [of s p i] str_replace_no_match)
  next
    case short: False
    show ?thesis
    proof (cases "take (length p) (drop i s) = p")
      case True
      then have "drop i s = p @ drop (i + length p) s"
        by (metis add.commute append_take_drop_id drop_drop)
      with True short "1.prems" "1.IH"(1) show ?thesis
        by (simp add: match_from.simps [of s p i] str_replace_needle_prefix)
    next
      case False
      from short "1.prems" have i: "i < length s"
        by (cases p) auto
      have "\<forall>st \<in> set (take 1 (match_from s p (Suc i))). Suc i \<le> st"
        using match_from_ge by (auto dest: in_set_takeD)
      with i have skip: "replace_loop s (length p) r i (match_from s p (Suc i)) =
          s ! i # replace_loop s (length p) r (Suc i) (match_from s p (Suc i))"
        by (rule replace_loop_skip)
      from False have "\<not> prefix p (drop i s)"
        by (simp add: prefix_def) (metis append_eq_conv_conj)
      with i "1.prems" have "str_replace (drop i s) p r = s ! i # str_replace (drop (Suc i) s) p r"
        by (simp add: Cons_nth_drop_Suc [symmetric] str_replace_Cons)
      with False short "1.prems" "1.IH"(2) skip show ?thesis
        by (simp add: match_from.simps [of s p i])
    qed
  qed
qed

lemma replace_loop_empty:
  "i \<le> length s \<Longrightarrow>
   replace_loop s 0 r i [Suc i..<Suc (length s)] = concat (map (\<lambda>c. c # r) (drop i s))"
proof (induction "length s - i" arbitrary: i)
  case 0
  then show ?case by simp
next
  case (Suc k)
  then have i: "i < length s" by simp
  have "[Suc i..<Suc (length s)] = Suc i # [Suc (Suc i)..<Suc (length s)]"
    using i by (simp add: upt_rec)
  moreover have "take (Suc i - i) (drop i s) = [s ! i]"
    using i by (simp add: Cons_nth_drop_Suc [symmetric])
  moreover have "replace_loop s 0 r (Suc i) [Suc (Suc i)..<Suc (length s)] =
      concat (map (\<lambda>c. c # r) (drop (Suc i) s))"
    using Suc by simp
  ultimately show ?case
    using i by (simp add: Cons_nth_drop_Suc [symmetric])
qed

text \<open>C12: the standard library's loop over \<open>match_indices\<close> computes
  \<open>str_replace\<close>: on every text, needle and replacement, empty needle included,
  the model the template lemmas use is the replacement the harness runs.\<close>

theorem replace_std_eq:
  "replace_std s p r = str_replace s p r"
proof (cases "p = []")
  case True
  have "[0..<Suc (length s)] = 0 # [Suc 0..<Suc (length s)]" by (simp add: upt_rec)
  with True replace_loop_empty [of 0 s r] show ?thesis
    by (simp add: replace_std_def match_indices_def str_replace.simps [of s])
next
  case False
  with replace_loop_match_from [of p s r 0] show ?thesis
    by (simp add: replace_std_def match_indices_def)
qed

end
