(* ===== verification/Fmt.thy ===== *)
theory Fmt
  imports Prelude
begin

text \<open>
  The two integer renderings the source uses through \<open>format!\<close>:
  \<open>{}\<close> on a \<open>u8\<close> (decimal, no padding) for the counter in the addresses and
  the interface name, and \<open>{:02x}\<close> on a \<open>u8\<close> (lower-case hexadecimal,
  zero-padded to width 2) for the MAC octets. Each rendering comes with a
  parser and the round trip that makes the rendering injective.
\<close>

section \<open>Decimal: Rust's \<open>{}\<close>\<close>

definition dec_digit :: "nat \<Rightarrow> char" where
  "dec_digit d = char_of (48 + d)"

fun dec_string :: "nat \<Rightarrow> string" where
  "dec_string n = (if n < 10 then [dec_digit n] else dec_string (n div 10) @ [dec_digit (n mod 10)])"

declare dec_string.simps [simp del]

definition fmt_u8 :: "u8 \<Rightarrow> string" where
  "fmt_u8 b = dec_string (unat b)"

definition is_dec_char :: "char \<Rightarrow> bool" where
  "is_dec_char c \<longleftrightarrow> (48::nat) \<le> of_char c \<and> of_char c \<le> (57::nat)"

definition digit_val :: "char \<Rightarrow> nat" where
  "digit_val c = of_char c - 48"

definition parse_dec :: "string \<Rightarrow> nat" where
  "parse_dec s = foldl (\<lambda>acc c. 10 * acc + digit_val c) 0 s"

section \<open>Hexadecimal: Rust's \<open>{:02x}\<close>\<close>

definition hex_digit :: "nat \<Rightarrow> char" where
  "hex_digit d = (if d < 10 then char_of (48 + d) else char_of (87 + d))"

fun hex_string :: "nat \<Rightarrow> string" where
  "hex_string n = (if n < 16 then [hex_digit n] else hex_string (n div 16) @ [hex_digit (n mod 16)])"

declare hex_string.simps [simp del]

definition pad_zero :: "nat \<Rightarrow> string \<Rightarrow> string" where
  "pad_zero w s = replicate (w - length s) CHR ''0'' @ s"

definition fmt_02x :: "u8 \<Rightarrow> string" where
  "fmt_02x b = pad_zero 2 (hex_string (unat b))"

definition hex_val :: "char \<Rightarrow> nat" where
  "hex_val c = (if of_char c \<le> (57::nat) then of_char c - 48 else of_char c - 87)"

definition parse_hex :: "string \<Rightarrow> nat" where
  "parse_hex s = foldl (\<lambda>acc c. 16 * acc + hex_val c) 0 s"

section \<open>Decimal lemmas\<close>

lemma digit_val_dec_digit [simp]: "d < 10 \<Longrightarrow> digit_val (dec_digit d) = d"
  by (simp add: digit_val_def dec_digit_def)

lemma is_dec_char_dec_digit [simp]: "d < 10 \<Longrightarrow> is_dec_char (dec_digit d)"
  by (simp add: is_dec_char_def dec_digit_def)

lemma parse_dec_snoc [simp]: "parse_dec (xs @ [c]) = 10 * parse_dec xs + digit_val c"
  by (simp add: parse_dec_def)

lemma parse_dec_dec_string [fmt_simps]: "parse_dec (dec_string n) = n"
proof (induction n rule: dec_string.induct)
  case (1 n)
  show ?case
  proof (cases "n < 10")
    case True
    then show ?thesis by (simp add: dec_string.simps [of n] parse_dec_def)
  next
    case False
    with "1.IH" show ?thesis by (simp add: dec_string.simps [of n])
  qed
qed

lemma dec_string_inj: "dec_string m = dec_string n \<longleftrightarrow> m = n"
  by (metis parse_dec_dec_string)

lemma dec_string_digits: "\<forall>c \<in> set (dec_string n). is_dec_char c"
proof (induction n rule: dec_string.induct)
  case (1 n)
  then show ?case by (subst dec_string.simps) simp
qed

lemma dec_string_nonempty [simp]: "dec_string n \<noteq> []"
  by (subst dec_string.simps) simp

text \<open>Evaluation of small renderings: a one-digit number is its digit character.\<close>

lemma dec_string_small [fmt_simps]: "n < 10 \<Longrightarrow> dec_string n = [dec_digit n]"
  by (subst dec_string.simps) simp

lemma dec_digit_lit: "of_char c = 48 + d \<Longrightarrow> dec_digit d = c"
  unfolding dec_digit_def by (metis char_of_char)

lemma dec_digit_lits [fmt_simps]:
  "dec_digit 0 = CHR ''0''" "dec_digit 1 = CHR ''1''" "dec_digit 2 = CHR ''2''" "dec_digit 3 = CHR ''3''"
  "dec_digit 4 = CHR ''4''" "dec_digit 5 = CHR ''5''" "dec_digit 6 = CHR ''6''" "dec_digit 7 = CHR ''7''"
  "dec_digit 8 = CHR ''8''" "dec_digit 9 = CHR ''9''" "dec_digit (Suc 0) = CHR ''1''"
  by (rule dec_digit_lit, simp)+

lemma length_dec_string_le: "n < 10 ^ k \<Longrightarrow> 0 < k \<Longrightarrow> length (dec_string n) \<le> k"
proof (induction n arbitrary: k rule: dec_string.induct)
  case (1 n)
  show ?case
  proof (cases "n < 10")
    case True
    with "1.prems" show ?thesis by (simp add: dec_string.simps [of n])
  next
    case False
    with "1.prems" obtain j where k: "k = Suc j" and j: "0 < j"
      by (cases k; cases "k - 1") auto
    with "1.prems" have "n div 10 < 10 ^ j" by (simp add: div_less_iff_less_mult mult.commute)
    with "1.IH" False j have "length (dec_string (n div 10)) \<le> j" by simp
    with False k show ?thesis by (simp add: dec_string.simps [of n])
  qed
qed

section \<open>Hexadecimal lemmas\<close>

lemma hex_val_hex_digit [simp]: "d < 16 \<Longrightarrow> hex_val (hex_digit d) = d"
  by (simp add: hex_val_def hex_digit_def)

lemma parse_hex_snoc [simp]: "parse_hex (xs @ [c]) = 16 * parse_hex xs + hex_val c"
  by (simp add: parse_hex_def)

lemma parse_hex_hex_string: "parse_hex (hex_string n) = n"
proof (induction n rule: hex_string.induct)
  case (1 n)
  show ?case
  proof (cases "n < 16")
    case True
    then show ?thesis by (simp add: hex_string.simps [of n] parse_hex_def)
  next
    case False
    with "1.IH" show ?thesis by (simp add: hex_string.simps [of n])
  qed
qed

lemma hex_val_zero [simp]: "hex_val CHR ''0'' = 0"
  by (simp add: hex_val_def)

lemma parse_hex_zeros: "parse_hex (replicate k CHR ''0'' @ s) = parse_hex s"
proof -
  have "foldl (\<lambda>acc c. 16 * acc + hex_val c) 0 (replicate k CHR ''0'') = 0"
    by (induction k) simp_all
  then show ?thesis by (simp add: parse_hex_def)
qed

lemma length_hex_string_small: "n < 16 \<Longrightarrow> length (hex_string n) = 1"
  by (simp add: hex_string.simps [of n])

lemma length_hex_string_byte: "16 \<le> n \<Longrightarrow> n < 256 \<Longrightarrow> length (hex_string n) = 2"
  by (simp add: hex_string.simps [of n] hex_string.simps [of "n div 16"] less_mult_imp_div_less)

lemma length_fmt_02x [simp, fmt_simps]: "length (fmt_02x b) = 2"
proof -
  have "unat b < 256" by simp
  then show ?thesis
    by (cases "unat b < 16")
      (simp_all add: fmt_02x_def pad_zero_def length_hex_string_small length_hex_string_byte)
qed

lemma parse_hex_fmt_02x [fmt_simps]: "parse_hex (fmt_02x b) = unat b"
  by (simp add: fmt_02x_def pad_zero_def parse_hex_zeros parse_hex_hex_string)

text \<open>Hexadecimal digits are digits or lower-case letters: no separator
  character below \<open>0\<close> (such as a comma) occurs in a rendering.\<close>

lemma of_char_hex_digit: "d < 16 \<Longrightarrow> (of_char (hex_digit d) :: nat) = (if d < 10 then 48 + d else 87 + d)"
  by (simp add: hex_digit_def of_char_of)

lemma hex_digit_neq: "d < 16 \<Longrightarrow> of_char c < (48::nat) \<Longrightarrow> hex_digit d \<noteq> c \<and> c \<noteq> hex_digit d"
  using of_char_hex_digit [of d] by (auto split: if_splits)

lemma hex_string_no_comma: "CHR '','' \<notin> set (hex_string n)"
proof (induction n rule: hex_string.induct)
  case (1 n)
  have "CHR '','' \<noteq> hex_digit d" if "d < 16" for d
    using hex_digit_neq [OF that, of "CHR '',''"] by simp
  with 1 show ?case by (subst hex_string.simps) auto
qed

end
