(* ===== verification/NetConfig.thy ===== *)
theory NetConfig
  imports Fmt
begin

text \<open>
  The network identity generator: \<open>GuestNetworkConfig\<close> and
  \<open>GuestNetworkConfig::new\<close> (integration.rs lines 33--60), and the
  process-wide \<open>COUNTER\<close> from which \<open>test_boot\<close> draws the counter (lines 31
  and 345). The random MAC bytes of \<open>rand::thread_rng().gen::<[u8; 6]>()\<close> are a
  parameter: the properties hold for every value the generator may return.
\<close>

section \<open>The identity record and its constructor\<close>

record guest_network_config =
  guest_ip :: string
  host_ip :: string
  guest_mac :: string
  tap_name :: string

definition format_mac :: "u8 list \<Rightarrow> string" where
  "format_mac m =
     fmt_02x (m ! 0) @ '':'' @ fmt_02x (m ! 1) @ '':'' @ fmt_02x (m ! 2) @ '':'' @
     fmt_02x (m ! 3) @ '':'' @ fmt_02x (m ! 4) @ '':'' @ fmt_02x (m ! 5)"

definition guest_network_config_new :: "u8 \<Rightarrow> u8 list \<Rightarrow> guest_network_config" where
  "guest_network_config_new counter rnd =
     (let m = rnd[0 := 0x2e]
      in \<lparr>guest_ip = ''192.168.'' @ fmt_u8 counter @ ''.2'',
          host_ip = ''192.168.'' @ fmt_u8 counter @ ''.1'',
          guest_mac = format_mac m,
          tap_name = ''fwtap'' @ fmt_u8 counter\<rparr>)"

section \<open>The counter\<close>

text \<open>
  \<open>static COUNTER: AtomicUsize = AtomicUsize::new(6)\<close>; \<open>fetch_add(1, SeqCst)\<close>
  returns the old value and stores the wrapped successor; \<open>as u8\<close> keeps the
  low eight bits.
\<close>

definition counter_init :: usize where
  "counter_init = 6"

definition counter_fetch_add :: "usize \<Rightarrow> usize \<times> usize" where
  "counter_fetch_add c = (c, c + 1)"

definition counter_as_u8 :: "usize \<Rightarrow> u8" where
  "counter_as_u8 c = ucast c"

text \<open>The value the \<open>k\<close>-th call of \<open>test_boot\<close> in a process passes to
  \<open>GuestNetworkConfig::new\<close>, counting from 0.\<close>

fun counter_after :: "nat \<Rightarrow> usize" where
  "counter_after 0 = counter_init"
| "counter_after (Suc k) = snd (counter_fetch_add (counter_after k))"

definition test_counter :: "nat \<Rightarrow> u8" where
  "test_counter k = counter_as_u8 (fst (counter_fetch_add (counter_after k)))"

section \<open>Reading an identity back\<close>

text \<open>Parsers for the rendered strings: a dotted quad and a colon-separated MAC.\<close>

definition parse_ipv4 :: "string \<Rightarrow> nat list" where
  "parse_ipv4 s = map parse_dec (split_on CHR ''.'' s)"

definition subnet24 :: "string \<Rightarrow> nat list" where
  "subnet24 s = take 3 (parse_ipv4 s)"

definition parse_mac :: "string \<Rightarrow> u8 list" where
  "parse_mac s = map (\<lambda>w. of_nat (parse_hex w)) (split_on CHR '':'' s)"

section \<open>Lemmas\<close>

lemma dec_no_dot [simp]: "CHR ''.'' \<notin> set (dec_string n)"
  using dec_string_digits [of n] by (auto simp: is_dec_char_def)

lemma hex_digit_not_colon [simp]:
  assumes "d < 16"
  shows "hex_digit d \<noteq> CHR '':''" and "CHR '':'' \<noteq> hex_digit d"
proof -
  show "hex_digit d \<noteq> CHR '':''"
  proof
    assume "hex_digit d = CHR '':''"
    then have "of_char (hex_digit d) = (of_char CHR '':'' :: nat)" by simp
    with assms show False by (simp add: hex_digit_def split: if_splits)
  qed
  then show "CHR '':'' \<noteq> hex_digit d" by simp
qed

lemma hex_string_no_colon: "CHR '':'' \<notin> set (hex_string n)"
proof (induction n rule: hex_string.induct)
  case (1 n)
  then show ?case by (subst hex_string.simps) simp
qed

lemma fmt_02x_no_colon [simp]: "CHR '':'' \<notin> set (fmt_02x b)"
  by (simp add: fmt_02x_def pad_zero_def hex_string_no_colon)

lemma parse_ipv4_addr:
  "parse_ipv4 (''192.168.'' @ fmt_u8 c @ [CHR ''.'', x]) = [192, 168, unat c, parse_dec [x]]"
  if "x \<noteq> CHR ''.''"
proof -
  have "split_on CHR ''.'' (''192.168.'' @ fmt_u8 c @ [CHR ''.'', x]) =
          [''192'', ''168'', fmt_u8 c, [x]]"
    using that by (simp add: fmt_u8_def split_on_append_sep)
  then show ?thesis
    by (simp add: parse_ipv4_def fmt_u8_def parse_dec_dec_string, simp add: parse_dec_def digit_val_def)
qed

lemma split_format_mac:
  "split_on CHR '':'' (format_mac m) =
     [fmt_02x (m ! 0), fmt_02x (m ! 1), fmt_02x (m ! 2), fmt_02x (m ! 3), fmt_02x (m ! 4), fmt_02x (m ! 5)]"
  by (simp add: format_mac_def split_on_append_sep split_on_no_sep)

lemma parse_mac_format_mac:
  assumes "length m = 6"
  shows "parse_mac (format_mac m) = m"
proof -
  have "parse_mac (format_mac m) = [m ! 0, m ! 1, m ! 2, m ! 3, m ! 4, m ! 5]"
    by (simp add: parse_mac_def split_format_mac parse_hex_fmt_02x)
  also have "\<dots> = m" by (rule list6_eq [OF assms])
  finally show ?thesis .
qed

lemma parse_ipv4_host: "parse_ipv4 (host_ip (guest_network_config_new c rnd)) = [192, 168, unat c, 1]"
  using parse_ipv4_addr [of "CHR ''1''" c]
  by (simp add: guest_network_config_new_def parse_dec_def digit_val_def)

lemma parse_ipv4_guest: "parse_ipv4 (guest_ip (guest_network_config_new c rnd)) = [192, 168, unat c, 2]"
  using parse_ipv4_addr [of "CHR ''2''" c]
  by (simp add: guest_network_config_new_def parse_dec_def digit_val_def)

lemma tap_name_new: "tap_name (guest_network_config_new c rnd) = ''fwtap'' @ dec_string (unat c)"
  by (simp add: guest_network_config_new_def fmt_u8_def)

lemma counter_after_eq: "counter_after k = 6 + of_nat k"
  by (induction k) (simp_all add: counter_init_def counter_fetch_add_def)

lemma unat_test_counter: "unat (test_counter k) = (6 + k) mod 256"
proof -
  have "unat (test_counter k) = unat (6 + of_nat k :: usize) mod 256"
    by (simp add: test_counter_def counter_as_u8_def counter_fetch_add_def counter_after_eq
        unsigned_ucast_eq take_bit_eq_mod)
  also have "(6 + of_nat k :: usize) = of_nat (6 + k)" by simp
  also have "unat (of_nat (6 + k) :: usize) mod 256 = (6 + k) mod 2 ^ 64 mod 256"
    by (simp only: unat_of_nat) simp
  also have "\<dots> = (6 + k) mod 256"
    by (rule mod_mod_cancel) simp
  finally show ?thesis .
qed

section \<open>Properties of the identity\<close>

text \<open>C29: the MAC string renders the six bytes of the random array with the
  first byte forced to 0x2e, and parses back to exactly them.\<close>

theorem guest_mac_roundtrip:
  "length rnd = 6 \<Longrightarrow> parse_mac (guest_mac (guest_network_config_new c rnd)) = rnd[0 := 0x2e]"
  by (simp add: guest_network_config_new_def parse_mac_format_mac)

theorem guest_mac_roundtrip_witness:
  "parse_mac (guest_mac (guest_network_config_new 6 [1, 2, 3, 4, 5, 6])) = [0x2e, 2, 3, 4, 5, 6]"
  using guest_mac_roundtrip [of "[1, 2, 3, 4, 5, 6]" 6] by simp

text \<open>C1: the first octet of every generated MAC has the locally administered bit
  (bit 1) set and the multicast bit (bit 0) clear.\<close>

theorem guest_mac_local_unicast:
  assumes "length rnd = 6"
  shows "bit (hd (parse_mac (guest_mac (guest_network_config_new c rnd)))) 1 \<and>
         \<not> bit (hd (parse_mac (guest_mac (guest_network_config_new c rnd)))) 0"
proof -
  from assms obtain r rs where "rnd = r # rs" by (cases rnd) auto
  with assms show ?thesis by (simp add: guest_network_config_new_def parse_mac_format_mac)
qed

theorem guest_mac_local_unicast_witness:
  "bit (hd (parse_mac (guest_mac (guest_network_config_new 7 [255, 255, 255, 255, 255, 255])))) 1 \<and>
   \<not> bit (hd (parse_mac (guest_mac (guest_network_config_new 7 [255, 255, 255, 255, 255, 255])))) 0"
  using guest_mac_local_unicast [of "[255, 255, 255, 255, 255, 255]" 7] by simp

text \<open>C30: host and guest address of one identity lie on the same /24
  \<open>192.168.c\<close>, are distinct, and read back as the counter.\<close>

theorem identity_addresses:
  "parse_ipv4 (host_ip (guest_network_config_new c rnd)) = [192, 168, unat c, 1] \<and>
   parse_ipv4 (guest_ip (guest_network_config_new c rnd)) = [192, 168, unat c, 2] \<and>
   subnet24 (host_ip (guest_network_config_new c rnd)) = subnet24 (guest_ip (guest_network_config_new c rnd)) \<and>
   host_ip (guest_network_config_new c rnd) \<noteq> guest_ip (guest_network_config_new c rnd)"
  by (simp add: parse_ipv4_host parse_ipv4_guest subnet24_def)
     (simp add: guest_network_config_new_def)

text \<open>C2: two distinct counters give disjoint subnets and distinct interface names,
  whatever the random MAC bytes.\<close>

theorem identity_distinct:
  assumes "c1 \<noteq> c2"
  shows "subnet24 (host_ip (guest_network_config_new c1 r1)) \<noteq> subnet24 (host_ip (guest_network_config_new c2 r2)) \<and>
         tap_name (guest_network_config_new c1 r1) \<noteq> tap_name (guest_network_config_new c2 r2)"
proof -
  from assms have "unat c1 \<noteq> unat c2" by (simp add: word_unat_eq_iff)
  then show ?thesis
    by (simp add: subnet24_def parse_ipv4_host tap_name_new dec_string_inj)
qed

theorem identity_distinct_witness:
  "subnet24 (host_ip (guest_network_config_new 6 [0, 0, 0, 0, 0, 0])) \<noteq> subnet24 (host_ip (guest_network_config_new 7 [0, 0, 0, 0, 0, 0])) \<and>
   tap_name (guest_network_config_new 6 [0, 0, 0, 0, 0, 0]) \<noteq> tap_name (guest_network_config_new 7 [0, 0, 0, 0, 0, 0])"
  using identity_distinct [of 6 7] by simp

text \<open>C23: the counters handed to 256 consecutive test cases of one process are
  pairwise distinct, so their interfaces and subnets do not collide.\<close>

theorem test_counter_distinct:
  assumes "i < j" and "j < i + 256"
  shows "tap_name (guest_network_config_new (test_counter i) r1) \<noteq> tap_name (guest_network_config_new (test_counter j) r2) \<and>
         subnet24 (host_ip (guest_network_config_new (test_counter i) r1)) \<noteq> subnet24 (host_ip (guest_network_config_new (test_counter j) r2))"
proof -
  have "(6 + i) mod 256 \<noteq> (6 + j) mod (256::nat)"
  proof
    assume "(6 + i) mod 256 = (6 + j) mod (256::nat)"
    then have "(6 + j) mod 256 = (6 + i) mod (256::nat)" by simp
    then have "(256::nat) dvd (6 + j) - (6 + i)"
      using assms(1) mod_eq_dvd_iff_nat [of "6 + i" "6 + j" 256] by simp
    moreover have "0 < (6 + j) - (6 + i)" and "(6 + j) - (6 + i) < (256::nat)"
      using assms by simp_all
    ultimately show False using nat_dvd_not_less by blast
  qed
  then have "unat (test_counter i) \<noteq> unat (test_counter j)" by (simp add: unat_test_counter)
  then show ?thesis
    by (simp add: subnet24_def parse_ipv4_host tap_name_new dec_string_inj)
qed

theorem test_counter_distinct_witness:
  "tap_name (guest_network_config_new (test_counter 0) []) \<noteq> tap_name (guest_network_config_new (test_counter 255) []) \<and>
   subnet24 (host_ip (guest_network_config_new (test_counter 0) [])) \<noteq> subnet24 (host_ip (guest_network_config_new (test_counter 255) []))"
  using test_counter_distinct [of 0 255] by simp

text \<open>C24: the \<open>as u8\<close> cast wraps: the test case 256 places after another gets
  the same interface name and subnet although the \<open>usize\<close> counter was not
  reused, and the 251st test case of a process gets counter 0, below the
  first value \<open>COUNTER\<close> hands out.\<close>

theorem test_counter_wraps:
  "tap_name (guest_network_config_new (test_counter (k + 256)) r2) = tap_name (guest_network_config_new (test_counter k) r1) \<and>
   host_ip (guest_network_config_new (test_counter (k + 256)) r2) = host_ip (guest_network_config_new (test_counter k) r1) \<and>
   counter_after (k + 256) \<noteq> counter_after k \<and>
   unat (test_counter 250) = 0"
proof -
  have "(6 + (k + 256)) mod 256 = (6 + k) mod (256::nat)"
    by (simp only: add.assoc [symmetric] mod_add_self2)
  then have "unat (test_counter (k + 256)) = unat (test_counter k)" by (simp only: unat_test_counter)
  then have "test_counter (k + 256) = test_counter k" by (simp add: word_unat_eq_iff)
  moreover have "counter_after (k + 256) \<noteq> counter_after k"
    by (simp add: counter_after_eq)
  ultimately show ?thesis by (simp add: guest_network_config_new_def unat_test_counter)
qed

end
