(* ===== verification/NetWf.thy ===== *)
theory NetWf
  imports NetConfig
begin

text \<open>
  The shape of a guest identity, as its consumers read it: \<open>ip addr add\<close>
  and the cloud-init network configuration take the two addresses as dotted
  quads of canonical decimal octets; \<open>cloud-hypervisor --net mac=\<close> and QEMU's
  \<open>-device virtio-net-pci,mac=\<close> take six colon-separated pairs of
  lower-case hexadecimal digits; the kernel takes an interface name of at most
  15 characters without a slash, blank or colon (\<open>IFNAMSIZ\<close> and
  \<open>dev_valid_name\<close>). \<open>net_config_wf\<close> is that well-formedness of the type
  \<open>GuestNetworkConfig\<close>, and the theorem of this theory is that
  \<open>GuestNetworkConfig::new\<close> only builds well-formed values, for every counter
  and every random array.
\<close>

section \<open>Well-formed fields\<close>

definition is_hex_char :: "char \<Rightarrow> bool" where
  "is_hex_char c \<longleftrightarrow> is_dec_char c \<or> ((97::nat) \<le> of_char c \<and> of_char c \<le> (102::nat))"

definition dec_octet :: "string \<Rightarrow> bool" where
  "dec_octet f \<longleftrightarrow> f \<noteq> [] \<and> list_all is_dec_char f \<and> parse_dec f < 256 \<and>
     (f = ''0'' \<or> hd f \<noteq> CHR ''0'')"

definition ipv4_wf :: "string \<Rightarrow> bool" where
  "ipv4_wf s \<longleftrightarrow> length (split_on CHR ''.'' s) = 4 \<and> list_all dec_octet (split_on CHR ''.'' s)"

definition mac_wf :: "string \<Rightarrow> bool" where
  "mac_wf s \<longleftrightarrow> length (split_on CHR '':'' s) = 6 \<and>
     list_all (\<lambda>f. length f = 2 \<and> list_all is_hex_char f) (split_on CHR '':'' s)"

definition ifname_wf :: "string \<Rightarrow> bool" where
  "ifname_wf s \<longleftrightarrow> s \<noteq> [] \<and> length s < 16 \<and> list_all (\<lambda>c. c \<notin> {CHR ''/'', CHR '' '', CHR '':''}) s"

definition net_config_wf :: "guest_network_config \<Rightarrow> bool" where
  "net_config_wf n \<longleftrightarrow> ipv4_wf (host_ip n) \<and> ipv4_wf (guest_ip n) \<and> mac_wf (guest_mac n) \<and>
     ifname_wf (tap_name n)"

section \<open>The renderings are well formed\<close>

lemma dec_string_hd: "0 < n \<Longrightarrow> hd (dec_string n) \<noteq> CHR ''0''"
proof (induction n rule: dec_string.induct)
  case (1 n)
  show ?case
  proof (cases "n < 10")
    case True
    have "dec_digit n \<noteq> dec_digit 0"
    proof
      assume "dec_digit n = dec_digit 0"
      then have "digit_val (dec_digit n) = digit_val (dec_digit 0)" by simp
      with True "1.prems" show False by simp
    qed
    with True show ?thesis by (simp add: dec_string.simps [of n] dec_digit_lits)
  next
    case False
    with "1.IH" show ?thesis by (simp add: dec_string.simps [of n])
  qed
qed

lemma dec_octet_fmt_u8: "dec_octet (fmt_u8 c)"
proof -
  have "fmt_u8 c = ''0'' \<or> hd (fmt_u8 c) \<noteq> CHR ''0''"
    by (cases "unat c = 0") (simp_all add: fmt_u8_def dec_string_small dec_digit_lits dec_string_hd)
  then show ?thesis
    using dec_string_digits [of "unat c"]
    by (simp add: dec_octet_def fmt_u8_def parse_dec_dec_string list_all_iff)
qed

lemma ipv4_wf_addr:
  assumes "dec_octet [x]" "x \<noteq> CHR ''.''"
  shows "ipv4_wf (''192.168.'' @ fmt_u8 c @ [CHR ''.'', x])"
proof -
  have "split_on CHR ''.'' (''192.168.'' @ fmt_u8 c @ [CHR ''.'', x]) = [''192'', ''168'', fmt_u8 c, [x]]"
    using assms(2) by (simp add: fmt_u8_def split_on_append_sep)
  moreover have "dec_octet ''192'' \<and> dec_octet ''168''"
    by (simp add: dec_octet_def is_dec_char_def parse_dec_def digit_val_def)
  ultimately show ?thesis
    using assms(1) dec_octet_fmt_u8 [of c] by (simp add: ipv4_wf_def)
qed

lemma is_hex_char_hex_digit: "d < 16 \<Longrightarrow> is_hex_char (hex_digit d)"
  by (simp add: is_hex_char_def is_dec_char_def of_char_hex_digit)

lemma hex_string_hex_chars: "list_all is_hex_char (hex_string n)"
proof (induction n rule: hex_string.induct)
  case (1 n)
  then show ?case by (subst hex_string.simps) (simp add: is_hex_char_hex_digit)
qed

lemma fmt_02x_hex_chars: "list_all is_hex_char (fmt_02x b)"
proof -
  have "is_hex_char CHR ''0''" by (simp add: is_hex_char_def is_dec_char_def)
  then show ?thesis
    using hex_string_hex_chars [of "unat b"] by (auto simp: fmt_02x_def pad_zero_def list_all_iff)
qed

lemma mac_wf_format_mac: "mac_wf (format_mac m)"
  by (simp add: mac_wf_def split_format_mac fmt_02x_hex_chars)

lemma ifname_wf_tap: "ifname_wf (''fwtap'' @ fmt_u8 c)"
proof -
  have "unat c < 256" by (rule unat_u8_lt)
  then have "unat c < 10 ^ 3" by (rule less_le_trans) simp
  then have "length (dec_string (unat c)) \<le> 3"
    using length_dec_string_le [of "unat c" 3] by simp
  moreover have "list_all (\<lambda>ch. ch \<notin> {CHR ''/'', CHR '' '', CHR '':''}) (dec_string (unat c))"
    using dec_string_digits [of "unat c"] by (auto simp: list_all_iff is_dec_char_def)
  ultimately show ?thesis by (simp add: ifname_wf_def fmt_u8_def)
qed

text \<open>C11: every value \<open>GuestNetworkConfig::new\<close> returns is well formed: two
  dotted quads of canonical octets, a MAC of six two-digit lower-case hex
  pairs, and an interface name the kernel accepts; for every \<open>u8\<close> counter and
  every random array.\<close>

theorem guest_network_config_wf: "net_config_wf (guest_network_config_new c rnd)"
proof -
  let ?n = "guest_network_config_new c rnd"
  have "dec_octet ''1'' \<and> dec_octet ''2''"
    by (simp add: dec_octet_def is_dec_char_def parse_dec_def digit_val_def)
  then have "ipv4_wf (''192.168.'' @ fmt_u8 c @ [CHR ''.'', CHR ''1'']) \<and>
      ipv4_wf (''192.168.'' @ fmt_u8 c @ [CHR ''.'', CHR ''2''])"
    using ipv4_wf_addr by simp
  moreover have "host_ip ?n = ''192.168.'' @ fmt_u8 c @ [CHR ''.'', CHR ''1''] \<and>
      guest_ip ?n = ''192.168.'' @ fmt_u8 c @ [CHR ''.'', CHR ''2'']"
    by (simp add: guest_network_config_new_def)
  moreover have "mac_wf (guest_mac ?n)"
    by (simp add: guest_network_config_new_def mac_wf_format_mac)
  moreover have "tap_name ?n = ''fwtap'' @ fmt_u8 c"
    by (simp add: guest_network_config_new_def)
  ultimately show ?thesis by (simp only: net_config_wf_def ifname_wf_tap)
qed

theorem guest_network_config_wf_witness:
  "net_config_wf (guest_network_config_new 255 [1, 2, 3, 4, 5, 6])"
  by (rule guest_network_config_wf)

end
