(* ===== verification/Ssh.thy ===== *)
theory Ssh
  imports Prelude
begin

text \<open>
  The remote readiness prober: \<open>SSHCommandError\<close> and \<open>ssh_command\<close>
  (integration.rs lines 228--281). One attempt is the closure of lines 247--269:
  connect, create the session, handshake, authenticate, assert authentication,
  open a channel, execute, read the output with its errors ignored. The loop
  counts failed attempts in a \<open>u8\<close>, gives up when the count reaches
  \<open>retries\<close> and otherwise sleeps \<open>timeout * counter\<close> seconds.

  The guest's login service is an environment: \<open>ssh_server\<close> says how one
  connection attempt made at a given second goes, and \<open>nat \<Rightarrow> ssh_server\<close>
  gives it for every second of the clock. An attempt takes no time; the sleeps
  advance the clock. A panic of the test thread is \<open>Inl\<close> of its message.
  Arithmetic is checked, as in the debug profile \<open>cargo test\<close> builds: a
  \<open>u8\<close> overflow of \<open>counter += 1\<close> or \<open>timeout * counter\<close> panics.
\<close>

section \<open>Errors and the login service\<close>

type_synonym io_error = string
type_synonym ssh2_error = string

datatype ssh_command_error =
    Connection io_error
  | Handshake ssh2_error
  | Authentication ssh2_error
  | ChannelSession ssh2_error
  | Command ssh2_error

record ssh_server =
  srv_connect :: "io_error option"
  srv_session :: bool
  srv_handshake :: "ssh2_error option"
  srv_userauth :: "string \<Rightarrow> string \<Rightarrow> ssh2_error option"
  srv_authenticated :: bool
  srv_channel :: "ssh2_error option"
  srv_exec :: "string \<Rightarrow> ssh2_error option"
  srv_output :: "string \<Rightarrow> string"

type_synonym panic_msg = string

type_synonym ssh_result = "panic_msg + (ssh_command_error + string)"

section \<open>One attempt\<close>

definition ssh_attempt :: "ssh_server \<Rightarrow> string \<Rightarrow> string \<Rightarrow> ssh_result" where
  "ssh_attempt srv command s =
     (case srv_connect srv of
        Some e \<Rightarrow> Inr (Inl (Connection e))
      | None \<Rightarrow>
     if \<not> srv_session srv then Inl ''called `Result::unwrap()` on an `Err` value'' else
     (case srv_handshake srv of
        Some e \<Rightarrow> Inr (Inl (Handshake e))
      | None \<Rightarrow>
     (case srv_userauth srv ''cloud'' ''cloud123'' of
        Some e \<Rightarrow> Inr (Inl (Authentication e))
      | None \<Rightarrow>
     if \<not> srv_authenticated srv then Inl ''assertion failed: sess.authenticated()'' else
     (case srv_channel srv of
        Some e \<Rightarrow> Inr (Inl (ChannelSession e))
      | None \<Rightarrow>
     (case srv_exec srv command of
        Some e \<Rightarrow> Inr (Inl (Command e))
      | None \<Rightarrow> Inr (Inr (s @ srv_output srv command)))))))"

section \<open>The retry loop\<close>

definition add_overflow_msg :: panic_msg where
  "add_overflow_msg = ''attempt to add with overflow''"

definition mul_overflow_msg :: panic_msg where
  "mul_overflow_msg = ''attempt to multiply with overflow''"

function ssh_loop ::
  "(nat \<Rightarrow> ssh_server) \<Rightarrow> string \<Rightarrow> u8 \<Rightarrow> u8 \<Rightarrow> u8 \<Rightarrow> string \<Rightarrow> nat \<Rightarrow> ssh_result \<times> nat" where
  "ssh_loop env command retries timeout counter s clock =
     (case ssh_attempt (env clock) command s of
        Inl msg \<Rightarrow> (Inl msg, clock)
      | Inr (Inr s') \<Rightarrow> (Inr (Inr s'), clock)
      | Inr (Inl e) \<Rightarrow>
          if counter = 255 then (Inl add_overflow_msg, clock)
          else if retries \<le> counter + 1 then (Inr (Inl e), clock)
          else if 256 \<le> unat timeout * unat (counter + 1) then (Inl mul_overflow_msg, clock)
          else ssh_loop env command retries timeout (counter + 1) s
                 (clock + unat (timeout * (counter + 1))))"
  by pat_completeness auto
termination
  by (relation "measure (\<lambda>(env, command, retries, timeout, counter, s, clock). 255 - unat counter)")
    (auto simp: unat_u8_suc dest: unat_u8_ne_max)

declare ssh_loop.simps [simp del]

text \<open>The same loop as the source writes it, \<open>loop { ... }\<close> with no bound in
  sight: a partial function in the option monad, \<open>None\<close> standing for a loop
  that never exits. The theorem of this theory about it is that it always exits,
  with the value \<open>ssh_loop\<close> gives.\<close>

partial_function (option) ssh_loop_pf ::
  "(nat \<Rightarrow> ssh_server) \<Rightarrow> string \<Rightarrow> u8 \<Rightarrow> u8 \<Rightarrow> u8 \<Rightarrow> string \<Rightarrow> nat \<Rightarrow> (ssh_result \<times> nat) option" where
  "ssh_loop_pf env command retries timeout counter s clock =
     (case ssh_attempt (env clock) command s of
        Inl msg \<Rightarrow> Some (Inl msg, clock)
      | Inr (Inr s') \<Rightarrow> Some (Inr (Inr s'), clock)
      | Inr (Inl e) \<Rightarrow>
          if counter = 255 then Some (Inl add_overflow_msg, clock)
          else if retries \<le> counter + 1 then Some (Inr (Inl e), clock)
          else if 256 \<le> unat timeout * unat (counter + 1) then Some (Inl mul_overflow_msg, clock)
          else ssh_loop_pf env command retries timeout (counter + 1) s
                 (clock + unat (timeout * (counter + 1))))"

definition default_ssh_retries :: u8 where
  "default_ssh_retries = 6"

definition default_ssh_timeout :: u8 where
  "default_ssh_timeout = 10"

definition ssh_command ::
  "(string \<Rightarrow> nat \<Rightarrow> ssh_server) \<Rightarrow> string \<Rightarrow> string \<Rightarrow> nat \<Rightarrow> ssh_result \<times> nat" where
  "ssh_command guests ip command clock =
     ssh_loop (guests ip) command default_ssh_retries default_ssh_timeout 0 '''' clock"

section \<open>Abstract specification: retrying over a schedule\<close>

text \<open>
  What the prober promises (spec section 4.5): attempt at the first time of a
  schedule; a failure of kind \<open>Inr (Inl e)\<close> moves on to the next time; the
  last attempt's result, or the first result that is not such a failure, is
  returned with the time it was obtained at. \<open>backoff b c n t\<close> is the schedule of
  the \<open>n\<close> retries after a failure counted \<open>c\<close> at time \<open>t\<close>, with linear
  waits \<open>b * (c + 1)\<close>, \<open>b * (c + 2)\<close>, \<dots>
\<close>

fun probe_spec :: "(nat \<Rightarrow> ssh_result) \<Rightarrow> nat \<Rightarrow> nat list \<Rightarrow> ssh_result \<times> nat" where
  "probe_spec f t [] = (f t, t)"
| "probe_spec f t (u # us) = (case f t of Inr (Inl e) \<Rightarrow> probe_spec f u us | r \<Rightarrow> (r, t))"

fun backoff :: "nat \<Rightarrow> nat \<Rightarrow> nat \<Rightarrow> nat \<Rightarrow> nat list" where
  "backoff b c 0 t = []"
| "backoff b c (Suc n) t = (t + b * Suc c) # backoff b (Suc c) n (t + b * Suc c)"

section \<open>Login services used by the scenarios\<close>

text \<open>A guest whose login service accepts the harness's credentials and runs every
  command, printing \<open>out\<close>; and a guest with nothing listening on port 22.\<close>

definition server_up :: "string \<Rightarrow> ssh_server" where
  "server_up out =
     \<lparr>srv_connect = None, srv_session = True, srv_handshake = None,
      srv_userauth = (\<lambda>u p. if u = ''cloud'' \<and> p = ''cloud123'' then None else Some ''denied''),
      srv_authenticated = True, srv_channel = None, srv_exec = (\<lambda>c. None),
      srv_output = (\<lambda>c. out)\<rparr>"

definition server_down :: ssh_server where
  "server_down =
     \<lparr>srv_connect = Some ''Connection refused (os error 111)'', srv_session = True,
      srv_handshake = None, srv_userauth = (\<lambda>u p. None), srv_authenticated = True,
      srv_channel = None, srv_exec = (\<lambda>c. None), srv_output = (\<lambda>c. [])\<rparr>"

section \<open>The loop refines the specification\<close>

lemma probe_spec_stop:
  "(\<forall>e. f t \<noteq> Inr (Inl e)) \<Longrightarrow> probe_spec f t us = (f t, t)"
  by (cases us) (auto split: sum.split)

lemma ssh_loop_refines:
  assumes "unat counter < unat retries" and "unat timeout * (unat retries - 1) < 256"
  shows "ssh_loop env command retries timeout counter s clock =
         probe_spec (\<lambda>t. ssh_attempt (env t) command s) clock
           (backoff (unat timeout) (unat counter) (unat retries - 1 - unat counter) clock)"
  using assms
proof (induction env command retries timeout counter s clock rule: ssh_loop.induct)
  case (1 env command retries timeout counter s clock)
  let ?f = "\<lambda>t. ssh_attempt (env t) command s"
  let ?L = "backoff (unat timeout) (unat counter) (unat retries - 1 - unat counter) clock"
  have ne: "counter \<noteq> 255"
  proof
    assume "counter = 255"
    with "1.prems"(1) have "255 < unat retries" by simp
    with unat_u8_lt [of retries] show False by linarith
  qed
  show ?case
  proof (cases "?f clock")
    case (Inl msg)
    then show ?thesis
      by (simp add: ssh_loop.simps [of env command retries timeout counter s clock] probe_spec_stop)
  next
    case (Inr r)
    show ?thesis
    proof (cases r)
      case (Inr out)
      with \<open>?f clock = Inr r\<close> show ?thesis
        by (simp add: ssh_loop.simps [of env command retries timeout counter s clock] probe_spec_stop)
    next
      case (Inl e)
      note fail = \<open>?f clock = Inr r\<close>[unfolded Inl]
      have suc: "unat (counter + 1) = unat counter + 1" using ne by (rule unat_u8_suc)
      show ?thesis
      proof (cases "retries \<le> counter + 1")
        case True
        then have "unat retries - 1 - unat counter = 0"
          using suc by (simp add: word_le_nat_alt)
        with True fail ne show ?thesis
          by (simp add: ssh_loop.simps [of env command retries timeout counter s clock])
      next
        case False
        then have lt: "unat counter + 1 < unat retries"
          using suc by (simp add: word_le_nat_alt)
        then have n: "unat retries - 1 - unat counter = Suc (unat retries - 1 - unat (counter + 1))"
          using suc by simp
        have "unat (counter + 1) \<le> unat retries - 1" using lt suc by simp
        then have "unat timeout * unat (counter + 1) \<le> unat timeout * (unat retries - 1)"
          by (rule mult_le_mono2)
        with "1.prems"(2) have small: "unat timeout * unat (counter + 1) < 256" by linarith
        then have mul: "unat (timeout * (counter + 1)) = unat timeout * unat (counter + 1)"
          using unat_mult_lem [of timeout "counter + 1"] by simp
        have IH: "ssh_loop env command retries timeout (counter + 1) s (clock + unat (timeout * (counter + 1))) =
            probe_spec ?f (clock + unat (timeout * (counter + 1)))
              (backoff (unat timeout) (unat (counter + 1)) (unat retries - 1 - unat (counter + 1))
                 (clock + unat (timeout * (counter + 1))))"
          using "1.IH" [OF _ Inl ne False] \<open>?f clock = Inr r\<close> small lt suc "1.prems"(2) by simp
        have step: "ssh_loop env command retries timeout counter s clock =
            ssh_loop env command retries timeout (counter + 1) s (clock + unat (timeout * (counter + 1)))"
          using fail ne False small by (simp add: ssh_loop.simps [of env command retries timeout counter s clock])
        have bk: "?L = (clock + unat (timeout * (counter + 1))) #
            backoff (unat timeout) (unat (counter + 1)) (unat retries - 1 - unat (counter + 1))
              (clock + unat (timeout * (counter + 1)))"
          by (simp only: n backoff.simps) (simp add: mul suc)
        show ?thesis
          by (simp only: step IH bk probe_spec.simps fail sum.case)
      qed
    qed
  qed
qed

lemma probe_spec_result:
  "fst (probe_spec f t ts) \<in> f ` set (t # ts) \<and> snd (probe_spec f t ts) \<in> set (t # ts)"
  by (induction ts arbitrary: t) (auto split: sum.split)

lemma probe_spec_cong:
  "(\<forall>\<tau>\<in>set (t # ts). f \<tau> = g \<tau>) \<Longrightarrow> probe_spec f t ts = probe_spec g t ts"
  by (induction ts arbitrary: t) (auto split: sum.split)

lemma backoff_default: "backoff 10 0 5 t = map (\<lambda>k. t + 5 * k * (k + 1)) [1..<6]"
  by (simp add: numeral_eq_Suc upt_rec)

lemma ssh_attempt_panic: "ssh_attempt srv command s = Inl m \<Longrightarrow>
    m = ''called `Result::unwrap()` on an `Err` value'' \<or> m = ''assertion failed: sess.authenticated()''"
  by (auto simp: ssh_attempt_def split: option.splits if_splits)

lemma ssh_attempt_not_overflow:
  "ssh_attempt srv command s \<noteq> Inl add_overflow_msg \<and> ssh_attempt srv command s \<noteq> Inl mul_overflow_msg"
  by (auto simp: ssh_attempt_def add_overflow_msg_def mul_overflow_msg_def split: option.splits)

lemma ssh_attempt_no_connect:
  "srv_connect srv = Some e \<Longrightarrow> ssh_attempt srv command s = Inr (Inl (Connection e))"
  by (simp add: ssh_attempt_def)

text \<open>The two scenario guests, evaluated: a guest that refuses connections
  fails all six attempts; a guest that accepts logins answers the first.\<close>

lemma ssh_down: "ssh_command (\<lambda>_ _. server_down) ip command t =
    (Inr (Inl (Connection ''Connection refused (os error 111)'')), t + 150)"
proof -
  have "ssh_command (\<lambda>_ _. server_down) ip command t =
      probe_spec (\<lambda>\<tau>. ssh_attempt server_down command []) t (backoff 10 0 5 t)"
    by (simp add: ssh_command_def default_ssh_retries_def default_ssh_timeout_def ssh_loop_refines)
  then show ?thesis by (simp add: backoff_default upt_rec ssh_attempt_def server_down_def)
qed
lemma ssh_up: "ssh_command (\<lambda>_ _. server_up out) ip command t = (Inr (Inr out), t)"
  by (simp add: ssh_command_def default_ssh_retries_def default_ssh_timeout_def ssh_loop_refines
      ssh_attempt_def server_up_def probe_spec_stop)
text \<open>The loop with the source's constants: the attempts after the first are at
  \<open>t + 10\<close>, \<open>t + 30\<close>, \<open>t + 60\<close>, \<open>t + 100\<close> and \<open>t + 150\<close>.\<close>

lemma ssh_command_schedule:
  "ssh_command guests ip command t =
     probe_spec (\<lambda>\<tau>. ssh_attempt (guests ip \<tau>) command []) t [t + 10, t + 30, t + 60, t + 100, t + 150]"
proof -
  have "ssh_command guests ip command t =
      probe_spec (\<lambda>\<tau>. ssh_attempt (guests ip \<tau>) command []) t (backoff 10 0 5 t)"
    by (simp add: ssh_command_def default_ssh_retries_def default_ssh_timeout_def ssh_loop_refines)
  then show ?thesis by (simp add: backoff_default upt_rec)
qed

text \<open>The loop with 27 retries and a 10-second base, from any counter up to 25,
  against a service that always fails.\<close>

lemma ssh_loop_overflow_27:
  assumes fail: "\<forall>\<tau>. \<exists>e. ssh_attempt (env \<tau>) command s = Inr (Inl e)"
  shows "unat c \<le> 25 \<Longrightarrow> fst (ssh_loop env command 27 10 c s t) = Inl mul_overflow_msg"
proof (induction "25 - unat c" arbitrary: c t)
  case 0
  then have "unat c = 25" by simp
  then have c: "c = 25" by (simp add: word_unat_eq_iff)
  from fail obtain e where "ssh_attempt (env t) command s = Inr (Inl e)" by blast
  with c show ?case by (simp add: ssh_loop.simps [of env command 27 10 25 s t])
next
  case (Suc k)
  then have lt: "unat c < 25" by simp
  then have ne: "c \<noteq> 255" by auto
  have suc: "unat (c + 1) = unat c + 1" using ne by (rule unat_u8_suc)
  from fail obtain e where f: "ssh_attempt (env t) command s = Inr (Inl e)" by blast
  have "\<not> (27::u8) \<le> c + 1" using suc lt by (simp add: word_le_nat_alt)
  moreover have "\<not> 256 \<le> unat (10::u8) * unat (c + 1)" using suc lt by simp
  moreover have "fst (ssh_loop env command 27 10 (c + 1) s (t + unat (10 * (c + 1)))) = Inl mul_overflow_msg"
    using Suc.hyps(1) [of "c + 1"] Suc.hyps(2) suc lt by simp
  ultimately show ?case
    using f ne by (simp add: ssh_loop.simps [of env command 27 10 c s t])
qed

section \<open>Properties of \<open>ssh_command\<close>\<close>

text \<open>C3: \<open>ssh_command\<close> with its constants (6 retries, base 10 s) is the abstract
  prober over the schedule of six attempts at \<open>t + 5 k (k + 1)\<close>, k = 0..5: the
  wait before attempt \<open>k + 1\<close> is \<open>10 k\<close> seconds (linear backoff).\<close>

theorem ssh_command_refines:
  "ssh_command guests ip command t =
     probe_spec (\<lambda>\<tau>. ssh_attempt (guests ip \<tau>) command []) t (map (\<lambda>k. t + 5 * k * (k + 1)) [1..<6])"
  by (simp add: ssh_command_schedule upt_rec)

text \<open>C31: a guest whose login service already accepts logins is reached by the first
  attempt, with no sleep, and the command's output is returned.\<close>

theorem ssh_command_first_attempt:
  assumes "ssh_attempt (guests ip t) command [] = Inr (Inr out)"
  shows "ssh_command guests ip command t = (Inr (Inr out), t)"
  using assms by (simp add: ssh_command_schedule)

theorem ssh_command_first_attempt_witness:
  "ssh_attempt (server_up ''ok'') ''uptime'' [] = Inr (Inr ''ok'') \<and>
   ssh_command (\<lambda>ip t. server_up ''ok'') ''192.168.6.2'' ''uptime'' 20 = (Inr (Inr ''ok''), 20)"
proof -
  have a: "ssh_attempt (server_up ''ok'') ''uptime'' [] = Inr (Inr ''ok'')"
    by (simp add: ssh_attempt_def server_up_def)
  then show ?thesis
    using ssh_command_first_attempt [of "\<lambda>ip t. server_up ''ok''" "''192.168.6.2''" 20 "''uptime''" "''ok''"]
    by simp
qed

text \<open>C26: when all six attempts fail, exactly six are made: the result is the
  failure of the sixth, at \<open>t + 150\<close>; and no attempt other than the six of the
  schedule influences the result.\<close>

theorem ssh_command_exhausts:
  assumes "\<forall>k<6. \<exists>e. ssh_attempt (guests ip (t + 5 * k * (k + 1))) command [] = Inr (Inl e)"
  shows "ssh_command guests ip command t = (ssh_attempt (guests ip (t + 150)) command [], t + 150)"
  using assms [rule_format, of 0] assms [rule_format, of 1] assms [rule_format, of 2]
    assms [rule_format, of 3] assms [rule_format, of 4]
  by (auto simp: ssh_command_schedule)

theorem ssh_command_exhausts_witness:
  "ssh_command (\<lambda>ip t. server_down) ''192.168.6.2'' ''uptime'' 0 =
     (Inr (Inl (Connection ''Connection refused (os error 111)'')), 150)"
proof -
  have "\<forall>k<6. \<exists>e. ssh_attempt ((\<lambda>ip t. server_down) ''192.168.6.2'' (0 + 5 * k * (k + 1))) ''uptime'' [] = Inr (Inl e)"
    by (simp add: ssh_attempt_def server_down_def)
  from ssh_command_exhausts [OF this] show ?thesis
    by (simp add: ssh_attempt_def server_down_def)
qed

text \<open>C32: the result depends on the login service at the six scheduled
  instants only: no attempt is made at any other time.\<close>

theorem ssh_command_only_schedule:
  assumes "\<forall>k<6. guests ip (t + 5 * k * (k + 1)) = guests' ip (t + 5 * k * (k + 1))"
  shows "ssh_command guests ip command t = ssh_command guests' ip command t"
  using assms [rule_format, of 0] assms [rule_format, of 1] assms [rule_format, of 2]
    assms [rule_format, of 3] assms [rule_format, of 4] assms [rule_format, of 5]
  unfolding ssh_command_schedule by (intro probe_spec_cong) simp

theorem ssh_command_only_schedule_witness:
  "ssh_command (\<lambda>ip t. if t = 7 then server_up ''x'' else server_down) ''192.168.6.2'' ''uptime'' 0 =
   ssh_command (\<lambda>ip t. server_down) ''192.168.6.2'' ''uptime'' 0"
  by (rule ssh_command_only_schedule) (simp add: all_less_6)

text \<open>C33: a guest that never accepts a connection makes the prober surface a
  connection error after 150 seconds, instead of waiting for ever.\<close>

theorem ssh_command_unreachable:
  assumes "\<forall>\<tau>. srv_connect (guests ip \<tau>) \<noteq> None"
  shows "\<exists>e. ssh_command guests ip command t = (Inr (Inl (Connection e)), t + 150)"
proof -
  from assms have "\<forall>\<tau>. \<exists>e. srv_connect (guests ip \<tau>) = Some e" by auto
  from choice [OF this] obtain E where "\<forall>\<tau>. srv_connect (guests ip \<tau>) = Some (E \<tau>)"
    by blast
  then have "\<And>\<tau>. ssh_attempt (guests ip \<tau>) command [] = Inr (Inl (Connection (E \<tau>)))"
    by (simp add: ssh_attempt_no_connect)
  then show ?thesis by (simp add: ssh_command_schedule)
qed

theorem ssh_command_unreachable_witness:
  "\<exists>e. ssh_command (\<lambda>ip t. server_down) ''192.168.6.2'' ''sudo shutdown -h now'' 20 =
     (Inr (Inl (Connection e)), 170)"
  using ssh_command_unreachable [of "\<lambda>ip t. server_down" "''192.168.6.2''" "''sudo shutdown -h now''" 20]
  by (simp add: server_down_def)

text \<open>C4: the retry loop terminates on every input, whatever the login
  service does and whatever the retry count, base timeout and starting counter:
  each round either exits or increments the \<open>u8\<close> counter, whose overflow is a
  panic; and it exits with the result of \<open>ssh_loop\<close>.\<close>

theorem ssh_loop_terminates:
  "ssh_loop_pf env command retries timeout counter s clock =
     Some (ssh_loop env command retries timeout counter s clock)"
proof (induction env command retries timeout counter s clock rule: ssh_loop.induct)
  case (1 env command retries timeout counter s clock)
  show ?case
    by (subst ssh_loop_pf.simps, subst ssh_loop.simps)
      (use "1.IH" in \<open>auto split: sum.split\<close>)
qed

text \<open>C27: every call returns within 150 seconds of the clock it started at, and
  the \<open>u8\<close> arithmetic of the loop (\<open>counter += 1\<close>, \<open>timeout * counter\<close>)
  never overflows with the constants of the source.\<close>

theorem ssh_command_bounded:
  "t \<le> snd (ssh_command guests ip command t) \<and> snd (ssh_command guests ip command t) \<le> t + 150 \<and>
   fst (ssh_command guests ip command t) \<noteq> Inl add_overflow_msg \<and>
   fst (ssh_command guests ip command t) \<noteq> Inl mul_overflow_msg"
proof -
  let ?f = "\<lambda>\<tau>. ssh_attempt (guests ip \<tau>) command []"
  let ?ts = "[t + 10, t + 30, t + 60, t + 100, t + 150]"
  have r: "fst (probe_spec ?f t ?ts) \<in> ?f ` set (t # ?ts)" and c: "snd (probe_spec ?f t ?ts) \<in> set (t # ?ts)"
    using probe_spec_result by blast+
  from c have "t \<le> snd (probe_spec ?f t ?ts) \<and> snd (probe_spec ?f t ?ts) \<le> t + 150"
    by auto
  moreover from r obtain \<tau> where "fst (probe_spec ?f t ?ts) = ?f \<tau>" by auto
  then have "fst (probe_spec ?f t ?ts) \<noteq> Inl add_overflow_msg \<and>
      fst (probe_spec ?f t ?ts) \<noteq> Inl mul_overflow_msg"
    using ssh_attempt_not_overflow [of "guests ip \<tau>" command "[]"] by simp
  ultimately show ?thesis unfolding ssh_command_schedule by blast
qed

text \<open>C28: the \<open>u8\<close> product \<open>timeout * counter\<close> bounds the retry count the
  loop can use with the source's 10-second base: with 26 retries a guest that
  never answers gets the last attempt's error, with 27 the loop panics with a
  multiplication overflow before the 27th attempt (10 * 26 = 260). The six
  retries of the source are well inside the bound.\<close>

theorem ssh_retry_overflow_boundary:
  assumes fail: "\<forall>\<tau>. \<exists>e. ssh_attempt (env \<tau>) command s = Inr (Inl e)"
  shows "(\<exists>e. fst (ssh_loop env command 26 10 0 s t) = Inr (Inl e)) \<and>
         fst (ssh_loop env command 27 10 0 s t) = Inl mul_overflow_msg"
proof
  let ?f = "\<lambda>\<tau>. ssh_attempt (env \<tau>) command s"
  have "ssh_loop env command 26 10 0 s t = probe_spec ?f t (backoff 10 0 25 t)"
    using ssh_loop_refines [of 0 26 10 env command s t] by simp
  moreover obtain \<tau> where "fst (probe_spec ?f t (backoff 10 0 25 t)) = ?f \<tau>"
    using probe_spec_result [of ?f t "backoff 10 0 25 t"] by auto
  ultimately show "\<exists>e. fst (ssh_loop env command 26 10 0 s t) = Inr (Inl e)"
    using fail by auto
  show "fst (ssh_loop env command 27 10 0 s t) = Inl mul_overflow_msg"
    using ssh_loop_overflow_27 [OF fail] by simp
qed

theorem ssh_retry_overflow_boundary_witness:
  "(\<forall>\<tau>. \<exists>e. ssh_attempt ((\<lambda>_. server_down) \<tau>) ''uptime'' [] = Inr (Inl e)) \<and>
   fst (ssh_loop (\<lambda>_. server_down) ''uptime'' 27 10 0 [] 0) = Inl mul_overflow_msg"
proof -
  have h: "\<forall>\<tau>. \<exists>e. ssh_attempt ((\<lambda>_. server_down) \<tau>) ''uptime'' [] = Inr (Inl e)"
    by (simp add: ssh_attempt_def server_down_def)
  from ssh_retry_overflow_boundary [OF h, of 0] h show ?thesis by simp
qed

end
