(* ===== verification/World.thy ===== *)
theory World
  imports Ssh Fmt
begin

text \<open>
  The host the harness runs on, as the test thread sees it: the file system
  (regular files with their contents, directories, and the FAT images the
  image tool creates), the external tools and how they behave, the kernel's tap
  interfaces and whether \<open>sudo ip\<close> is allowed, the children the test spawned,
  the clock, the guests' login services, a trace of every command run, and the
  process-global \<open>COUNTER\<close> of the test binary.

  A step of the test thread is an action \<open>'a act\<close>: it takes the world and
  returns the new world with either a value or a panic (\<open>Inl\<close> of the panic
  message), so that the world after a panic, with whatever the test left behind,
  stays observable. \<open>Result::expect\<close> and \<open>unwrap\<close> turn an I/O error of a
  primitive into such a panic. The primitives model the behaviour of \<open>std\<close> and of
  the host's programs (\<open>mkdosfs\<close>, \<open>mcopy\<close>, \<open>ip\<close> under \<open>sudo\<close>) at the
  interface the spec's section 6 describes.
\<close>

section \<open>The world\<close>

type_synonym path = "string list"

datatype tool = ToolMissing | ToolFails | ToolWorks

record fat_image =
  fat_label :: string
  fat_sectors :: nat
  fat_files :: "path \<rightharpoonup> string"

text \<open>A child is running, has been sent \<open>SIGKILL\<close> and not yet waited for,
  or has been reaped by \<open>wait\<close>; a reaped child records whether a kill was
  delivered to it before, which its exit status (terminated by signal 9 or
  not) reports.\<close>

datatype proc_state = Running | Killed | Reaped bool

record proc =
  proc_argv :: "string list"
  proc_state :: proc_state

record tap_dev =
  tap_addrs :: "string list"
  tap_up :: bool

datatype ip_cmd =
    TuntapAdd string
  | AddrAdd string string
  | LinkUp string
  | TuntapDel string

record world =
  files :: "path \<rightharpoonup> string"
  dirs :: "path set"
  images :: "path \<rightharpoonup> fat_image"
  tools :: "string \<Rightarrow> tool"
  taps :: "string \<rightharpoonup> tap_dev"
  net_admin :: bool
  procs :: "proc list"
  clock :: nat
  guests :: "string \<Rightarrow> nat \<Rightarrow> ssh_server"
  cwd :: path
  home :: "path option"
  tmp_seq :: nat
  trace :: "string list list"
  counter :: usize

type_synonym 'a io = "world \<Rightarrow> (io_error + 'a) \<times> world"
type_synonym 'a act = "world \<Rightarrow> (panic_msg + 'a) \<times> world"

section \<open>Paths\<close>

text \<open>\<open>Path::to_str\<close> of an absolute path, and the reading of a path argument by a
  tool.\<close>

definition path_str :: "path \<Rightarrow> string" where
  "path_str p = concat (map (\<lambda>c. CHR ''/'' # c) p)"

definition str_path :: "string \<Rightarrow> path" where
  "str_path s = filter (\<lambda>c. c \<noteq> []) (split_on CHR ''/'' s)"

section \<open>Actions\<close>

definition act_return :: "'a \<Rightarrow> 'a act" where
  "act_return a w = (Inr a, w)"

definition act_bind :: "'a act \<Rightarrow> ('a \<Rightarrow> 'b act) \<Rightarrow> 'b act" where
  "act_bind m f w = (case m w of (Inl p, w') \<Rightarrow> (Inl p, w') | (Inr a, w') \<Rightarrow> f a w')"

definition act_panic :: "panic_msg \<Rightarrow> 'a act" where
  "act_panic msg w = (Inl msg, w)"

definition act_assert :: "bool \<Rightarrow> panic_msg \<Rightarrow> unit act" where
  "act_assert b msg = (if b then act_return () else act_panic msg)"

text \<open>\<open>r.expect(msg)\<close>: the value, or a panic with \<open>msg\<close>.\<close>

definition expect :: "'a io \<Rightarrow> panic_msg \<Rightarrow> 'a act" where
  "expect op msg w = (case op w of (Inl e, w') \<Rightarrow> (Inl msg, w') | (Inr a, w') \<Rightarrow> (Inr a, w'))"

definition unwrap_msg :: panic_msg where
  "unwrap_msg = ''called `Result::unwrap()` on an `Err` value''"

definition unwrap :: "'a io \<Rightarrow> 'a act" where
  "unwrap op = expect op unwrap_msg"

text \<open>\<open>iter().for_each(f)\<close> over a vector of actions' arguments.\<close>

fun act_foreach :: "'a list \<Rightarrow> ('a \<Rightarrow> unit act) \<Rightarrow> unit act" where
  "act_foreach [] f = act_return ()"
| "act_foreach (x # xs) f = act_bind (f x) (\<lambda>_. act_foreach xs f)"

section \<open>File system primitives\<close>

definition enoent :: io_error where
  "enoent = ''No such file or directory (os error 2)''"

definition eexist :: io_error where
  "eexist = ''File exists (os error 17)''"

text \<open>\<open>fs::create_dir_all\<close>: every prefix becomes a directory; it fails when one of
  them is a regular file.\<close>

definition create_dir_all :: "path \<Rightarrow> unit io" where
  "create_dir_all p w =
     (if list_ex (\<lambda>q. files w q \<noteq> None) (prefixes p) then (Inl eexist, w)
      else (Inr (), w\<lparr>dirs := dirs w \<union> set (prefixes p)\<rparr>))"

text \<open>A regular file can be created at \<open>p\<close> when its parent is a directory and
  \<open>p\<close> itself is not one.\<close>

definition creatable :: "world \<Rightarrow> path \<Rightarrow> bool" where
  "creatable w p \<longleftrightarrow> p \<noteq> [] \<and> butlast p \<in> dirs w \<and> p \<notin> dirs w"

text \<open>\<open>fs::copy\<close>: the source's contents written to the destination; the number of
  bytes copied.\<close>

definition fs_copy :: "path \<Rightarrow> path \<Rightarrow> nat io" where
  "fs_copy src dst w =
     (case files w src of
        None \<Rightarrow> (Inl enoent, w)
      | Some c \<Rightarrow>
          if creatable w dst then (Inr (length c), w\<lparr>files := (files w)(dst \<mapsto> c)\<rparr>)
          else (Inl enoent, w))"

text \<open>\<open>fs::File::open\<close> (the handle is the path) and \<open>read_to_string\<close>.\<close>

definition file_open :: "path \<Rightarrow> path io" where
  "file_open p w = (if files w p = None then (Inl enoent, w) else (Inr p, w))"

definition read_to_string :: "path \<Rightarrow> string io" where
  "read_to_string h w = (case files w h of None \<Rightarrow> (Inl enoent, w) | Some c \<Rightarrow> (Inr c, w))"

text \<open>\<open>fs::File::create\<close> (truncates or creates) and \<open>write_all\<close>.\<close>

definition file_create :: "path \<Rightarrow> path io" where
  "file_create p w =
     (if creatable w p then (Inr p, w\<lparr>files := (files w)(p \<mapsto> [])\<rparr>) else (Inl enoent, w))"

definition write_all :: "path \<Rightarrow> string \<Rightarrow> unit io" where
  "write_all h c w = (Inr (), w\<lparr>files := (files w)(h \<mapsto> c)\<rparr>)"

text \<open>\<open>std::env::current_dir\<close> and \<open>dirs::home_dir\<close>.\<close>

definition current_dir :: "path io" where
  "current_dir w = (Inr (cwd w), w)"

definition home_dir :: "path option act" where
  "home_dir w = (Inr (home w), w)"

text \<open>\<open>TempDir::new(prefix)\<close> creates a fresh directory under \<open>/tmp\<close>; dropping
  the \<open>TempDir\<close> removes it with everything below it.\<close>

definition tempdir_new :: "string \<Rightarrow> path io" where
  "tempdir_new pfx w =
     (let p = [''tmp'', pfx @ ''.'' @ dec_string (tmp_seq w)]
      in if [''tmp''] \<in> dirs w \<and> p \<notin> dirs w \<and> files w p = None
         then (Inr p, w\<lparr>dirs := insert p (dirs w), tmp_seq := Suc (tmp_seq w)\<rparr>)
         else (Inl eexist, w))"

definition remove_tree :: "path \<Rightarrow> world \<Rightarrow> world" where
  "remove_tree p w =
     w\<lparr>files := (\<lambda>q. if prefix p q then None else files w q),
       dirs := Set.filter (\<lambda>q. \<not> prefix p q) (dirs w),
       images := (\<lambda>q. if prefix p q then None else images w q)\<rparr>"

section \<open>External programs\<close>

text \<open>
  \<open>Command::new(prog).args(args).output()\<close>: \<open>Inl\<close> when the program cannot be
  spawned, otherwise whether it exited with status 0. A program that is present
  but fails exits non-zero and changes nothing. \<open>mkdosfs -n label -C img n\<close>
  creates an empty FAT image of \<open>n\<close> sectors; \<open>mcopy -o -i img -s src ::\<close>
  copies \<open>src\<close> (a file, or a directory with everything below it) into the
  image's root under its own name.
\<close>

definition mkdosfs_effect :: "string list \<Rightarrow> world \<Rightarrow> bool \<times> world" where
  "mkdosfs_effect args w =
     (case args of
        [n_opt, lbl, c_opt, img_s, sz] \<Rightarrow>
          (let ip = str_path img_s in
           if n_opt = ''-n'' \<and> c_opt = ''-C'' \<and> creatable w ip \<and> files w ip = None \<and> images w ip = None
           then (True, w\<lparr>images := (images w)(ip \<mapsto>
                   \<lparr>fat_label = lbl, fat_sectors = parse_dec sz, fat_files = Map.empty\<rparr>)\<rparr>)
           else (False, w))
      | _ \<Rightarrow> (False, w))"

definition mcopy_into :: "world \<Rightarrow> path \<Rightarrow> fat_image \<Rightarrow> fat_image" where
  "mcopy_into w sp img =
     img\<lparr>fat_files := (\<lambda>q. case q of
          [] \<Rightarrow> fat_files img q
        | n # rel \<Rightarrow>
            if n = last sp then (case files w (sp @ rel) of Some c \<Rightarrow> Some c | None \<Rightarrow> fat_files img q)
            else fat_files img q)\<rparr>"

definition mcopy_effect :: "string list \<Rightarrow> world \<Rightarrow> bool \<times> world" where
  "mcopy_effect args w =
     (case args of
        [o_opt, i_opt, img_s, s_opt, src, target] \<Rightarrow>
          (let ip = str_path img_s; sp = str_path src in
           case images w ip of
             Some im \<Rightarrow>
               if o_opt = ''-o'' \<and> i_opt = ''-i'' \<and> s_opt = ''-s'' \<and> target = ''::'' \<and> sp \<noteq> []
                  \<and> (sp \<in> dirs w \<or> files w sp \<noteq> None)
               then (True, w\<lparr>images := (images w)(ip \<mapsto> mcopy_into w sp im)\<rparr>)
               else (False, w)
           | None \<Rightarrow> (False, w))
      | _ \<Rightarrow> (False, w))"

definition tool_effect :: "string \<Rightarrow> string list \<Rightarrow> world \<Rightarrow> bool \<times> world" where
  "tool_effect prog args w =
     (if prog = ''mkdosfs'' then mkdosfs_effect args w
      else if prog = ''mcopy'' then mcopy_effect args w
      else (True, w))"

definition command_output :: "string \<Rightarrow> string list \<Rightarrow> bool io" where
  "command_output prog args w =
     (case tools w prog of
        ToolMissing \<Rightarrow> (Inl enoent, w)
      | ToolFails \<Rightarrow> (Inr False, w\<lparr>trace := trace w @ [prog # args]\<rparr>)
      | ToolWorks \<Rightarrow>
          (let (ok, w') = tool_effect prog args w in (Inr ok, w'\<lparr>trace := trace w @ [prog # args]\<rparr>)))"

section \<open>Privileged network commands\<close>

text \<open>
  The four \<open>ip\<close> invocations the harness runs through \<open>bash -c "sudo ip ..."\<close>,
  their command lines as the source formats them, and their effect on the tap
  table: adding fails without privilege or when the name exists; an address or
  a link change needs the device; adding an address twice fails; deleting
  (the source writes \<open>de\<close>, a prefix \<open>ip\<close> accepts for \<open>delete\<close>) removes the
  device and succeeds also when there is none.
\<close>

fun ip_script :: "ip_cmd \<Rightarrow> string" where
  "ip_script (TuntapAdd n) = ''sudo ip tuntap add name '' @ n @ '' mode tap''"
| "ip_script (AddrAdd a n) = ''sudo ip addr add '' @ a @ ''/24 dev '' @ n"
| "ip_script (LinkUp n) = ''sudo ip link set dev '' @ n @ '' up''"
| "ip_script (TuntapDel n) = ''sudo ip tuntap de name '' @ n @ '' mode tap''"

fun ip_effect :: "ip_cmd \<Rightarrow> world \<Rightarrow> bool \<times> world" where
  "ip_effect (TuntapAdd n) w =
     (if net_admin w \<and> taps w n = None
      then (True, w\<lparr>taps := (taps w)(n \<mapsto> \<lparr>tap_addrs = [], tap_up = False\<rparr>)\<rparr>) else (False, w))"
| "ip_effect (AddrAdd a n) w =
     (case taps w n of
        Some d \<Rightarrow>
          if net_admin w \<and> a \<notin> set (tap_addrs d)
          then (True, w\<lparr>taps := (taps w)(n \<mapsto> d\<lparr>tap_addrs := tap_addrs d @ [a]\<rparr>)\<rparr>) else (False, w)
      | None \<Rightarrow> (False, w))"
| "ip_effect (LinkUp n) w =
     (case taps w n of
        Some d \<Rightarrow> if net_admin w then (True, w\<lparr>taps := (taps w)(n \<mapsto> d\<lparr>tap_up := True\<rparr>)\<rparr>) else (False, w)
      | None \<Rightarrow> (False, w))"
| "ip_effect (TuntapDel n) w =
     (if net_admin w then (True, w\<lparr>taps := (taps w)(n := None)\<rparr>) else (False, w))"

text \<open>\<open>Command::new("bash").args(&["-c", script]).status()\<close>: \<open>Inl\<close> when bash
  cannot be spawned, otherwise whether the command succeeded.\<close>

definition bash_status :: "ip_cmd \<Rightarrow> bool io" where
  "bash_status c w =
     (if tools w ''bash'' = ToolMissing then (Inl enoent, w)
      else (let (ok, w') = ip_effect c w in
            (Inr ok, w'\<lparr>trace := trace w @ [[''bash'', ''-c'', ip_script c]]\<rparr>)))"

section \<open>Child processes and time\<close>

text \<open>\<open>Command::spawn\<close> returns the child's handle, its index in the process
  table; \<open>Child::kill\<close> sends \<open>SIGKILL\<close> and fails only once the child
  has been waited for; \<open>Child::wait\<close> reaps it, a killed child with the kill in
  its status. \<open>thread::sleep\<close> advances the clock.\<close>

definition spawn :: "string \<Rightarrow> string list \<Rightarrow> nat io" where
  "spawn prog args w =
     (if tools w prog = ToolMissing then (Inl enoent, w)
      else (Inr (length (procs w)),
            w\<lparr>procs := procs w @ [\<lparr>proc_argv = prog # args, proc_state = Running\<rparr>],
              trace := trace w @ [prog # args]\<rparr>))"

definition set_proc_state :: "nat \<Rightarrow> proc_state \<Rightarrow> world \<Rightarrow> world" where
  "set_proc_state pid st w =
     w\<lparr>procs := (procs w)[pid := (procs w ! pid)\<lparr>proc_state := st\<rparr>]\<rparr>"

fun is_reaped :: "proc_state \<Rightarrow> bool" where
  "is_reaped (Reaped _) = True"
| "is_reaped _ = False"

fun reap :: "proc_state \<Rightarrow> proc_state" where
  "reap Running = Reaped False"
| "reap Killed = Reaped True"
| "reap (Reaped k) = Reaped k"

definition child_kill :: "nat \<Rightarrow> unit io" where
  "child_kill pid w =
     (if pid < length (procs w) \<and> \<not> is_reaped (proc_state (procs w ! pid))
      then (Inr (), set_proc_state pid Killed w)
      else (Inl ''invalid input parameter'', w))"

definition child_wait :: "nat \<Rightarrow> unit io" where
  "child_wait pid w =
     (if pid < length (procs w) then (Inr (), set_proc_state pid (reap (proc_state (procs w ! pid))) w)
      else (Inl ''invalid input parameter'', w))"

definition sleep :: "nat \<Rightarrow> unit act" where
  "sleep d w = (Inr (), w\<lparr>clock := clock w + d\<rparr>)"

text \<open>\<open>ssh_command\<close> run against the world's guests from the world's clock.\<close>

definition ssh_command_act :: "string \<Rightarrow> string \<Rightarrow> (ssh_command_error + string) act" where
  "ssh_command_act ip command w =
     (case ssh_command (guests w) ip command (clock w) of
        (Inl p, t) \<Rightarrow> (Inl p, w\<lparr>clock := t\<rparr>)
      | (Inr r, t) \<Rightarrow> (Inr r, w\<lparr>clock := t\<rparr>))"

section \<open>A concrete host for the examples\<close>

text \<open>A privileged host with every tool installed, an empty \<open>/tmp\<close>, no
  interfaces, no children, and guests that refuse connections.\<close>

definition host0 :: world where
  "host0 =
     \<lparr>files = Map.empty, dirs = {[], [''tmp'']}, images = Map.empty, tools = (\<lambda>_. ToolWorks),
      taps = Map.empty, net_admin = True, procs = [], clock = 0, guests = (\<lambda>_ _. server_down),
      cwd = [''src''], home = None, tmp_seq = 0, trace = [], counter = 6\<rparr>"

section \<open>Laws of actions\<close>

lemma act_bind_return [simp, world_simps]: "act_bind (act_return a) f = f a"
  by (simp add: act_bind_def act_return_def fun_eq_iff)

lemma act_bind_panic [simp, world_simps]: "act_bind (act_panic m) f = act_panic m"
  by (simp add: act_bind_def act_panic_def fun_eq_iff)

lemma act_bind_assoc [world_simps]:
  "act_bind (act_bind m f) g = act_bind m (\<lambda>a. act_bind (f a) g)"
  by (simp add: act_bind_def fun_eq_iff split: prod.split sum.split)

lemma act_bind_apply [world_simps]:
  "act_bind m f w = (case m w of (Inl p, w') \<Rightarrow> (Inl p, w') | (Inr a, w') \<Rightarrow> f a w')"
  by (simp add: act_bind_def)

lemma act_bind_Inr [world_simps]: "m w = (Inr a, w') \<Longrightarrow> act_bind m f w = f a w'"
  by (simp add: act_bind_def)

lemma act_bind_Inl [world_simps]: "m w = (Inl p, w') \<Longrightarrow> act_bind m f w = (Inl p, w')"
  by (simp add: act_bind_def)

lemma expect_Inr [world_simps]: "op w = (Inr a, w') \<Longrightarrow> expect op msg w = (Inr a, w')"
  by (simp add: expect_def)

lemma expect_Inl [world_simps]: "op w = (Inl e, w') \<Longrightarrow> expect op msg w = (Inl msg, w')"
  by (simp add: expect_def)

section \<open>Primitives on their success paths\<close>

lemma create_dir_all_ok [world_simps]:
  "\<forall>q\<in>set (prefixes p). files w q = None \<Longrightarrow>
   create_dir_all p w = (Inr (), w\<lparr>dirs := dirs w \<union> set (prefixes p)\<rparr>)"
  by (auto simp: create_dir_all_def list_ex_iff)

lemma fs_copy_ok [world_simps]:
  "files w src = Some c \<Longrightarrow> creatable w dst \<Longrightarrow>
   fs_copy src dst w = (Inr (length c), w\<lparr>files := (files w)(dst \<mapsto> c)\<rparr>)"
  by (simp add: fs_copy_def)

lemma file_open_ok [world_simps]: "files w p = Some c \<Longrightarrow> file_open p w = (Inr p, w)"
  by (simp add: file_open_def)

lemma read_to_string_ok [world_simps]: "files w h = Some c \<Longrightarrow> read_to_string h w = (Inr c, w)"
  by (simp add: read_to_string_def)

lemma file_create_ok [world_simps]:
  "creatable w p \<Longrightarrow> file_create p w = (Inr p, w\<lparr>files := (files w)(p \<mapsto> [])\<rparr>)"
  by (simp add: file_create_def)

lemma command_output_works [world_simps]:
  "tools w prog = ToolWorks \<Longrightarrow> tool_effect prog args w = (ok, w') \<Longrightarrow>
   command_output prog args w = (Inr ok, w'\<lparr>trace := trace w @ [prog # args]\<rparr>)"
  by (simp add: command_output_def)

lemma command_output_fails [world_simps]:
  "tools w prog = ToolFails \<Longrightarrow>
   command_output prog args w = (Inr False, w\<lparr>trace := trace w @ [prog # args]\<rparr>)"
  by (simp add: command_output_def)

section \<open>Paths read back\<close>

lemma split_on_concat_sep:
  "\<forall>x \<in> set (c # p). d \<notin> set x \<Longrightarrow> split_on d (c @ concat (map (\<lambda>x. d # x) p)) = c # p"
proof (induction p arbitrary: c)
  case Nil
  then show ?case by (simp add: split_on_no_sep)
next
  case (Cons x p)
  then have "split_on d (x @ concat (map (\<lambda>x. d # x) p)) = x # p" by simp
  with Cons.prems show ?case by (simp add: split_on_append_sep)
qed

lemma str_path_path_str:
  assumes "\<forall>c \<in> set p. c \<noteq> [] \<and> CHR ''/'' \<notin> set c"
  shows "str_path (path_str p) = p"
proof -
  have "split_on CHR ''/'' ([] @ concat (map (\<lambda>x. CHR ''/'' # x) p)) = [] # p"
    using assms by (intro split_on_concat_sep) simp
  with assms show ?thesis
    by (simp add: str_path_def path_str_def filter_id_conv)
qed

text \<open>A path built from the harness's own components (non-empty, without a slash)
  reads back as itself.\<close>

lemma path_str_ok:
  "\<forall>c\<in>set tmp. c \<noteq> [] \<and> CHR ''/'' \<notin> set c \<Longrightarrow> \<forall>c\<in>set xs. c \<noteq> [] \<and> CHR ''/'' \<notin> set c \<Longrightarrow>
   str_path (path_str (tmp @ xs)) = tmp @ xs"
  by (rule str_path_path_str) auto

section \<open>The image tools on their success paths\<close>

lemma mkdosfs_ok [world_simps]:
  "str_path s = ip \<Longrightarrow> creatable w ip \<Longrightarrow> files w ip = None \<Longrightarrow> images w ip = None \<Longrightarrow>
   tool_effect ''mkdosfs'' [''-n'', lbl, ''-C'', s, sz] w =
     (True, w\<lparr>images := (images w)(ip \<mapsto> \<lparr>fat_label = lbl, fat_sectors = parse_dec sz, fat_files = Map.empty\<rparr>)\<rparr>)"
  by (simp add: tool_effect_def mkdosfs_effect_def)

lemma mcopy_ok [world_simps]:
  "str_path s = ip \<Longrightarrow> str_path src = sp \<Longrightarrow> images w ip = Some im \<Longrightarrow> sp \<noteq> [] \<Longrightarrow>
   sp \<in> dirs w \<Longrightarrow>
   tool_effect ''mcopy'' [''-o'', ''-i'', s, ''-s'', src, ''::''] w =
     (True, w\<lparr>images := (images w)(ip \<mapsto> mcopy_into w sp im)\<rparr>)"
  by (simp add: tool_effect_def mcopy_effect_def)

lemma mcopy_no_image:
  "str_path s = ip \<Longrightarrow> images w ip = None \<Longrightarrow>
   tool_effect ''mcopy'' [''-o'', ''-i'', s, ''-s'', src, ''::''] w = (False, w)"
  by (simp add: tool_effect_def mcopy_effect_def)

end
