(* ===== verification/CloudInit.thy ===== *)
theory CloudInit
  imports World Replace NetConfig
begin

text \<open>
  The guest image seeder: the \<open>CloudInit\<close> trait with its two implementations
  \<open>ClearCloudInit\<close> and \<open>UbuntuCloudInit\<close> (integration.rs lines 62--178). Each
  \<open>prepare\<close> copies fixed files, substitutes the three placeholders of a
  template with the identity's values (three calls of \<open>str::replace\<close>), builds a
  FAT image with \<open>mkdosfs\<close> and fills it with \<open>mcopy\<close>.

  A template is modelled as a leading literal followed by (placeholder token,
  literal) pairs; \<open>render\<close> writes it with any text for the tokens. The
  substitution distributes over a template whose tokens are delimited by
  characters no placeholder contains, which gives the round trip of the seed's
  templated file.
\<close>

section \<open>Placeholders and the substitution\<close>

definition placeholder_host_ip :: string where
  "placeholder_host_ip = ''192.168.2.1''"

definition placeholder_guest_ip :: string where
  "placeholder_guest_ip = ''192.168.2.2''"

definition placeholder_mac :: string where
  "placeholder_mac = ''12:34:56:78:90:ab''"

definition substitute_network :: "guest_network_config \<Rightarrow> string \<Rightarrow> string" where
  "substitute_network net s =
     str_replace (str_replace (str_replace s placeholder_host_ip (host_ip net))
        placeholder_guest_ip (guest_ip net))
      placeholder_mac (guest_mac net)"

section \<open>The two seeders\<close>

datatype cloud_init = ClearCloudInit | UbuntuCloudInit

definition clear_prepare :: "path \<Rightarrow> guest_network_config \<Rightarrow> string act" where
  "clear_prepare tmp net =
     (let cloudinit_file_path = path_str (tmp @ [''cloudinit'']);
          cloud_init_directory = tmp @ [''cloud-init'', ''clear'', ''openstack'']
      in act_bind (expect (create_dir_all (cloud_init_directory @ [''latest'']))
           ''Expect creating cloud-init directory to succeed'') (\<lambda>_.
         act_bind (unwrap current_dir) (\<lambda>cur_dir.
         let source_file_dir = cur_dir @ [''resources'', ''cloud-init'', ''clear'', ''openstack'', ''latest'']
         in act_bind (expect (fs_copy (source_file_dir @ [''meta_data.json''])
                                (cloud_init_directory @ [''latest'', ''meta_data.json'']))
              ''Expect copying cloud-init meta_data.json to succeed'') (\<lambda>_.
            act_bind (unwrap (file_open (source_file_dir @ [''user_data'']))) (\<lambda>h.
            act_bind (expect (read_to_string h) ''Expected reading user_data file in to succeed'') (\<lambda>user_data_string.
            let user_data_string = substitute_network net user_data_string
            in act_bind (unwrap (file_create (cloud_init_directory @ [''latest'', ''user_data'']))) (\<lambda>h'.
               act_bind (expect (write_all h' user_data_string) ''Expected writing out user_data to succeed'') (\<lambda>_.
               act_bind (expect (command_output ''mkdosfs'' [''-n'', ''config-2'', ''-C'', cloudinit_file_path, ''8192''])
                 ''Expect creating disk image to succeed'') (\<lambda>_.
               act_bind (expect (command_output ''mcopy''
                   [''-o'', ''-i'', cloudinit_file_path, ''-s'', path_str cloud_init_directory, ''::''])
                 ''Expect copying files to disk image to succeed'') (\<lambda>_.
               act_return cloudinit_file_path))))))))))"

definition ubuntu_prepare :: "path \<Rightarrow> guest_network_config \<Rightarrow> string act" where
  "ubuntu_prepare tmp net =
     (let cloudinit_file_path = path_str (tmp @ [''cloudinit'']);
          cloud_init_directory = tmp @ [''cloud-init'', ''ubuntu'']
      in act_bind (expect (create_dir_all cloud_init_directory)
           ''Expect creating cloud-init directory to succeed'') (\<lambda>_.
         act_bind (unwrap current_dir) (\<lambda>cur_dir.
         let source_file_dir = cur_dir @ [''resources'', ''cloud-init'', ''ubuntu'']
         in act_bind (act_foreach [''meta-data'', ''user-data''] (\<lambda>x.
              act_bind (expect (fs_copy (source_file_dir @ [x]) (cloud_init_directory @ [x]))
                ''Expect copying cloud-init meta-data to succeed'') (\<lambda>_. act_return ()))) (\<lambda>_.
            act_bind (unwrap (file_open (source_file_dir @ [''network-config'']))) (\<lambda>h.
            act_bind (expect (read_to_string h) ''Expected reading network-config file in to succeed'') (\<lambda>network_config_string.
            let network_config_string = substitute_network net network_config_string
            in act_bind (unwrap (file_create (cloud_init_directory @ [''network-config'']))) (\<lambda>h'.
               act_bind (expect (write_all h' network_config_string) ''Expected writing out network-config to succeed'') (\<lambda>_.
               act_bind (expect (command_output ''mkdosfs'' [''-n'', ''cidata'', ''-C'', cloudinit_file_path, ''8192''])
                 ''Expect creating disk image to succeed'') (\<lambda>_.
               act_bind (act_foreach [''user-data'', ''meta-data'', ''network-config''] (\<lambda>x.
                   act_bind (expect (command_output ''mcopy''
                       [''-o'', ''-i'', cloudinit_file_path, ''-s'', path_str (cloud_init_directory @ [x]), ''::''])
                     ''Expect copying files to disk image to succeed'') (\<lambda>_. act_return ()))) (\<lambda>_.
               act_return cloudinit_file_path))))))))))"

text \<open>\<open>cloud_init.prepare(&tmp_dir, &net)\<close>: dynamic dispatch on the trait object.\<close>

fun prepare :: "cloud_init \<Rightarrow> path \<Rightarrow> guest_network_config \<Rightarrow> string act" where
  "prepare ClearCloudInit = clear_prepare"
| "prepare UbuntuCloudInit = ubuntu_prepare"

section \<open>Templates\<close>

datatype net_token = TokHostIp | TokGuestIp | TokMac

type_synonym template = "string \<times> (net_token \<times> string) list"

fun token_placeholder :: "net_token \<Rightarrow> string" where
  "token_placeholder TokHostIp = placeholder_host_ip"
| "token_placeholder TokGuestIp = placeholder_guest_ip"
| "token_placeholder TokMac = placeholder_mac"

fun token_value :: "guest_network_config \<Rightarrow> net_token \<Rightarrow> string" where
  "token_value net TokHostIp = host_ip net"
| "token_value net TokGuestIp = guest_ip net"
| "token_value net TokMac = guest_mac net"

definition render :: "(net_token \<Rightarrow> string) \<Rightarrow> template \<Rightarrow> string" where
  "render v tpl = fst tpl @ concat (map (\<lambda>(t, s). v t @ s) (snd tpl))"

definition placeholder_chars :: "char set" where
  "placeholder_chars = set (placeholder_host_ip @ placeholder_guest_ip @ placeholder_mac)"

text \<open>Every token is delimited: the literal before it ends, and the literal after
  it starts, with a character outside \<open>A\<close> (or the text ends there), and two
  tokens are never adjacent.\<close>

fun delimited :: "char set \<Rightarrow> string \<Rightarrow> (net_token \<times> string) list \<Rightarrow> bool" where
  "delimited A prev [] = True"
| "delimited A prev ((t, s) # ps) =
     ((prev = [] \<or> last prev \<notin> A) \<and> (s = [] \<or> hd s \<notin> A) \<and> (ps = [] \<or> s \<noteq> []) \<and>
      delimited A s ps)"

definition literals :: "template \<Rightarrow> string list" where
  "literals tpl = fst tpl # map snd (snd tpl)"

definition template_ok :: "template \<Rightarrow> bool" where
  "template_ok tpl \<longleftrightarrow>
     delimited placeholder_chars (fst tpl) (snd tpl) \<and>
     list_all (\<lambda>s. \<not> sublist placeholder_host_ip s \<and> \<not> sublist placeholder_guest_ip s \<and>
                    \<not> sublist placeholder_mac s) (literals tpl)"

section \<open>A concrete host for the examples\<close>

text \<open>A checkout in \<open>/home/ci/rust-hypervisor-firmware\<close> with the Clear Linux
  seed's two source files, an empty temporary directory \<open>/tmp/t.0\<close>, and
  the image tools installed (\<open>mkdosfs\<close> as given).\<close>

definition demo_cwd :: path where
  "demo_cwd = [''home'', ''ci'', ''rust-hypervisor-firmware'']"

definition demo_user_data :: string where
  "demo_user_data = ''gateway4: 192.168.2.1\<newline>''"

definition demo_world :: "tool \<Rightarrow> world" where
  "demo_world mk =
     \<lparr>files = [demo_cwd @ [''resources'', ''cloud-init'', ''clear'', ''openstack'', ''latest'', ''meta_data.json''] \<mapsto> ''{}'',
               demo_cwd @ [''resources'', ''cloud-init'', ''clear'', ''openstack'', ''latest'', ''user_data''] \<mapsto> demo_user_data],
      dirs = set (prefixes [''tmp'', ''t.0'']),
      images = Map.empty,
      tools = (\<lambda>p. if p = ''mkdosfs'' then mk else ToolWorks),
      taps = Map.empty, net_admin = True, procs = [], clock = 0,
      guests = (\<lambda>_ _. server_down), cwd = demo_cwd, home = None, tmp_seq = 1, trace = [],
      counter = 6\<rparr>"

definition demo_template :: template where
  "demo_template = (''gateway4: '', [(TokHostIp, ''\<newline>'')])"

definition demo_net :: guest_network_config where
  "demo_net = guest_network_config_new 6 [1, 2, 3, 4, 5, 6]"

section \<open>Templates: rendering and substitution\<close>

lemma render_Nil [simp]: "render v (s0, []) = s0"
  by (simp add: render_def)

lemma render_Cons [simp]: "render v (s0, (t, s) # ps) = s0 @ v t @ render v (s, ps)"
  by (simp add: render_def)

lemma render_hd: "s \<noteq> [] \<Longrightarrow> hd (render v (s, ps)) = hd s"
  by (simp add: render_def)

lemma str_replace_render:
  assumes "p \<noteq> []" and "set p \<subseteq> A" and "delimited A s0 ps"
    and "\<forall>s \<in> set (s0 # map snd ps). \<not> sublist p s"
  shows "str_replace (render v (s0, ps)) p r = render (\<lambda>u. str_replace (v u) p r) (s0, ps)"
  using assms(3,4)
proof (induction ps arbitrary: s0)
  case Nil
  with assms(1) show ?case by (simp add: str_replace_no_match)
next
  case (Cons tp ps)
  obtain t s where tp: "tp = (t, s)" by (cases tp)
  let ?R = "render v (s, ps)"
  from Cons.prems tp have d0: "s0 = [] \<or> last s0 \<notin> A" and d1: "s = [] \<or> hd s \<notin> A"
    and d2: "ps = [] \<or> s \<noteq> []" and rest: "delimited A s ps" by auto
  have c0: "no_cross p s0 (v t @ ?R)"
    using d0 assms(2) by (auto simp: no_cross_def)
  have c1: "no_cross p (v t) ?R"
  proof (cases "s = []")
    case True
    with d2 show ?thesis by (simp add: no_cross_def)
  next
    case False
    with d1 assms(2) show ?thesis by (auto simp: no_cross_def render_hd)
  qed
  have IH: "str_replace ?R p r = render (\<lambda>u. str_replace (v u) p r) (s, ps)"
    using Cons.IH [OF rest] Cons.prems(2) tp by simp
  have "str_replace s0 p r = s0"
    using Cons.prems(2) assms(1) by (simp add: str_replace_no_match)
  with c0 c1 IH assms(1) tp show ?case
    by (simp add: str_replace_append)
qed

lemma substitute_render:
  assumes "template_ok tpl"
  shows "substitute_network net (render v tpl) = render (\<lambda>u. substitute_network net (v u)) tpl"
proof -
  obtain s0 ps where tpl: "tpl = (s0, ps)" by (cases tpl)
  from assms tpl have d: "delimited placeholder_chars s0 ps"
    and clean: "\<forall>s \<in> set (s0 # map snd ps). \<not> sublist placeholder_host_ip s \<and>
       \<not> sublist placeholder_guest_ip s \<and> \<not> sublist placeholder_mac s"
    by (auto simp: template_ok_def literals_def list_all_iff)
  have ne: "placeholder_host_ip \<noteq> []" "placeholder_guest_ip \<noteq> []" "placeholder_mac \<noteq> []"
    by (simp_all add: placeholder_host_ip_def placeholder_guest_ip_def placeholder_mac_def)
  have sub: "set placeholder_host_ip \<subseteq> placeholder_chars" "set placeholder_guest_ip \<subseteq> placeholder_chars"
    "set placeholder_mac \<subseteq> placeholder_chars"
    by (auto simp: placeholder_chars_def)
  show ?thesis
    using str_replace_render [OF ne(1) sub(1) d, of v "host_ip net"]
      str_replace_render [OF ne(2) sub(2) d, of _ "guest_ip net"]
      str_replace_render [OF ne(3) sub(3) d, of _ "guest_mac net"] clean
    by (simp add: tpl substitute_network_def)
qed

section \<open>The identity's values contain no placeholder\<close>

text \<open>Two dotted addresses of the harness's shape contain one another only when
  they are equal.\<close>

lemma prefix_sep_eq:
  assumes "d \<notin> set e" and "d \<notin> set dd" and "prefix (e @ d # ys) (dd @ d # xs)"
  shows "e = dd \<and> prefix ys xs"
  using assms
proof (induction e arbitrary: dd)
  case Nil
  then show ?case by (cases dd) auto
next
  case (Cons c e)
  then show ?case by (cases dd) auto
qed

lemma is_dec_char_not_dot: "is_dec_char c \<Longrightarrow> c \<noteq> CHR ''.''"
  by (auto simp: is_dec_char_def)

lemma addr_sublist:
  assumes de: "\<forall>c\<in>set e. is_dec_char c" "e \<noteq> []"
    and dd: "\<forall>c\<in>set dd. is_dec_char c" "length dd \<le> 3"
    and sub: "sublist (''192.168.'' @ e @ [CHR ''.'', y]) (''192.168.'' @ dd @ [CHR ''.'', x])"
  shows "e = dd \<and> y = x"
proof -
  have short: "\<not> sublist (''192.168.'' @ e @ [CHR ''.'', y]) (''.168.'' @ dd @ [CHR ''.'', x])"
  proof
    assume "sublist (''192.168.'' @ e @ [CHR ''.'', y]) (''.168.'' @ dd @ [CHR ''.'', x])"
    then have "length (''192.168.'' @ e @ [CHR ''.'', y]) \<le> length (''.168.'' @ dd @ [CHR ''.'', x])"
      by (rule sublist_length_le)
    with dd(2) de(2) show False by (cases e) simp_all
  qed
  with sub have "prefix (''192.168.'' @ e @ [CHR ''.'', y]) (''192.168.'' @ dd @ [CHR ''.'', x])"
    by (simp add: sublist_Cons_right)
  then have "prefix (e @ [CHR ''.'', y]) (dd @ [CHR ''.'', x])" by simp
  moreover have "CHR ''.'' \<notin> set e" "CHR ''.'' \<notin> set dd"
    using de(1) dd(1) is_dec_char_not_dot by blast+
  ultimately show ?thesis using prefix_sep_eq [of "CHR ''.''" e dd "[y]" "[x]"] by simp
qed

lemma fmt_u8_digits: "\<forall>c\<in>set (fmt_u8 b). is_dec_char c" "length (fmt_u8 b) \<le> 3" "fmt_u8 b \<noteq> []"
proof -
  show "\<forall>c\<in>set (fmt_u8 b). is_dec_char c" by (simp add: fmt_u8_def dec_string_digits)
  have "(256::nat) \<le> 10 ^ 3" by simp
  with unat_u8_lt [of b] have "unat b < 10 ^ 3" by linarith
  then show "length (fmt_u8 b) \<le> 3" by (simp add: fmt_u8_def length_dec_string_le)
  show "fmt_u8 b \<noteq> []" by (simp add: fmt_u8_def)
qed

lemma two_digits: "\<forall>c\<in>set ''2''. is_dec_char c" "''2'' \<noteq> []"
  by (simp_all add: is_dec_char_def)

lemma host_no_guest_placeholder:
  "\<not> sublist placeholder_guest_ip (host_ip (guest_network_config_new c rnd))"
  using addr_sublist [OF two_digits fmt_u8_digits(1,2), of "CHR ''2''" c "CHR ''1''"]
  by (auto simp: placeholder_guest_ip_def guest_network_config_new_def)

lemma no_colon_no_mac: "CHR '':'' \<notin> set s \<Longrightarrow> \<not> sublist placeholder_mac s"
  by (auto simp: placeholder_mac_def dest: set_mono_sublist)

lemma no_dot_no_ip: "CHR ''.'' \<notin> set s \<Longrightarrow> \<not> sublist (''192.168.2.'' @ [x]) s"
  by (auto dest: set_mono_sublist)

lemma addr_no_colon: "CHR '':'' \<notin> set (''192.168.'' @ fmt_u8 c @ [CHR ''.'', x])" if "x \<noteq> CHR '':''"
  using fmt_u8_digits(1) [of c] that by (auto simp: is_dec_char_def)

lemma host_guest_shape:
  "host_ip (guest_network_config_new c rnd) = ''192.168.'' @ fmt_u8 c @ [CHR ''.'', CHR ''1'']"
  "guest_ip (guest_network_config_new c rnd) = ''192.168.'' @ fmt_u8 c @ [CHR ''.'', CHR ''2'']"
  by (simp_all add: guest_network_config_new_def)

lemma substitute_token:
  "substitute_network (guest_network_config_new c rnd) (token_placeholder t) =
   token_value (guest_network_config_new c rnd) t"
proof -
  let ?net = "guest_network_config_new c rnd"
  have hne: "placeholder_host_ip \<noteq> []" "placeholder_guest_ip \<noteq> []" "placeholder_mac \<noteq> []"
    by (simp_all add: placeholder_host_ip_def placeholder_guest_ip_def placeholder_mac_def)
  have host_mac: "\<not> sublist placeholder_mac (host_ip ?net)"
    unfolding host_guest_shape by (intro no_colon_no_mac addr_no_colon) simp
  have guest_mac: "\<not> sublist placeholder_mac (guest_ip ?net)"
    unfolding host_guest_shape by (intro no_colon_no_mac addr_no_colon) simp
  have guest_host: "\<not> sublist placeholder_host_ip placeholder_guest_ip"
    using addr_sublist [OF two_digits two_digits(1), of "CHR ''1''" "CHR ''2''"]
    by (auto simp: placeholder_host_ip_def placeholder_guest_ip_def)
  have "CHR ''.'' \<notin> set placeholder_mac" by (simp add: placeholder_mac_def)
  from no_dot_no_ip [OF this, of "CHR ''1''"] no_dot_no_ip [OF this, of "CHR ''2''"]
  have mac_ips: "\<not> sublist placeholder_host_ip placeholder_mac" "\<not> sublist placeholder_guest_ip placeholder_mac"
    by (simp_all add: placeholder_host_ip_def placeholder_guest_ip_def)
  show ?thesis
  proof (cases t)
    case TokHostIp
    then show ?thesis
      using hne host_no_guest_placeholder [of c rnd] host_mac
      by (simp add: substitute_network_def str_replace_no_match)
  next
    case TokGuestIp
    then show ?thesis
      using hne guest_host guest_mac
      by (simp add: substitute_network_def str_replace_no_match)
  next
    case TokMac
    then show ?thesis
      using hne mac_ips
      by (simp add: substitute_network_def str_replace_no_match)
  qed
qed

section \<open>The round trip of the templated seed file\<close>

text \<open>C10: substituting the network identity into a well-formed template (its
  placeholders delimited by characters no placeholder uses, its literal text free
  of placeholders) gives the template rendered with the identity's values: the
  three \<open>replace\<close> calls of \<open>prepare\<close> do not interfere, since no value of the
  identity contains a placeholder.\<close>

theorem seed_template_roundtrip:
  assumes "template_ok tpl"
  shows "substitute_network (guest_network_config_new c rnd) (render token_placeholder tpl) =
         render (token_value (guest_network_config_new c rnd)) tpl"
  using substitute_render [OF assms] by (simp add: substitute_token)

lemma demo_template_ok: "template_ok demo_template"
  by (simp add: template_ok_def demo_template_def literals_def placeholder_chars_def
     placeholder_host_ip_def placeholder_guest_ip_def placeholder_mac_def sublist_Cons_right)

lemma substitute_demo: "substitute_network demo_net demo_user_data = ''gateway4: 192.168.6.1\<newline>''"
  unfolding demo_net_def
  using substitute_render [OF demo_template_ok, where net = "guest_network_config_new 6 [1, 2, 3, 4, 5, 6]"
      and v = token_placeholder] substitute_token [of 6 "[1, 2, 3, 4, 5, 6]" TokHostIp]
  by (simp add: host_guest_shape demo_template_def demo_user_data_def placeholder_host_ip_def
      fmt_u8_def fmt_simps)

theorem seed_template_roundtrip_witness:
  "template_ok demo_template \<and>
   substitute_network demo_net demo_user_data = ''gateway4: 192.168.6.1\<newline>''"
  using seed_template_roundtrip [OF demo_template_ok, of 6 "[1, 2, 3, 4, 5, 6]"] demo_template_ok
  by (simp add: demo_net_def demo_template_def demo_user_data_def placeholder_host_ip_def
      guest_network_config_new_def fmt_u8_def fmt_simps)

section \<open>The Clear Linux seeder\<close>

text \<open>The image tools of both seeders on their success paths, as steps of the
  seeder: \<open>mkdosfs\<close> on a fresh image path, \<open>mcopy\<close> of an existing directory
  or file into an existing image.\<close>

lemma mkdosfs_step:
  assumes "tools w ''mkdosfs'' = ToolWorks" "str_path s = ip" "creatable w ip" "files w ip = None"
    "images w ip = None"
  shows "expect (command_output ''mkdosfs'' [''-n'', lbl, ''-C'', s, sz]) msg w =
    (Inr True, w\<lparr>images := (images w)(ip \<mapsto> \<lparr>fat_label = lbl, fat_sectors = parse_dec sz, fat_files = Map.empty\<rparr>),
                 trace := trace w @ [[''mkdosfs'', ''-n'', lbl, ''-C'', s, sz]]\<rparr>)"
  using assms by (simp add: expect_def command_output_def mkdosfs_ok)

lemma mcopy_step:
  assumes "tools w ''mcopy'' = ToolWorks" "str_path s = ip" "str_path src = sp" "images w ip = Some im"
    "sp \<noteq> []" "sp \<in> dirs w \<or> files w sp \<noteq> None"
  shows "expect (command_output ''mcopy'' [''-o'', ''-i'', s, ''-s'', src, ''::'']) msg w =
         (Inr True, w\<lparr>images := (images w)(ip \<mapsto> mcopy_into w sp im),
                      trace := trace w @ [[''mcopy'', ''-o'', ''-i'', s, ''-s'', src, ''::'']]\<rparr>)"
  using assms by (simp add: expect_def command_output_def tool_effect_def mcopy_effect_def)

lemma parse_dec_8192: "parse_dec ''8192'' = 8192"
  by (simp add: parse_dec_def digit_val_def)

text \<open>The seeder up to the image tools: the directory tree, the copied metadata
  and the substituted user data are in place.\<close>

lemma clear_prepare_stage:
  fixes tmp :: path and w :: world and meta ud :: string and net :: guest_network_config
  defines "dir \<equiv> tmp @ [''cloud-init'', ''clear'', ''openstack'']"
  defines "src \<equiv> cwd w @ [''resources'', ''cloud-init'', ''clear'', ''openstack'', ''latest'']"
  defines "w4 \<equiv> w\<lparr>dirs := dirs w \<union> set (prefixes (dir @ [''latest''])),
                  files := (files w)(dir @ [''latest'', ''meta_data.json''] \<mapsto> meta,
                                     dir @ [''latest'', ''user_data''] \<mapsto> substitute_network net ud)\<rparr>"
  assumes tmp: "tmp \<noteq> []" "tmp \<in> dirs w"
    and fresh: "\<forall>q \<in> set (prefixes (dir @ [''latest''])). files w q = None"
        "dir @ [''latest'', ''meta_data.json''] \<notin> dirs w"
        "dir @ [''latest'', ''user_data''] \<notin> dirs w"
    and srcf: "files w (src @ [''meta_data.json'']) = Some meta" "files w (src @ [''user_data'']) = Some ud"
  shows "clear_prepare tmp net w =
     act_bind (expect (command_output ''mkdosfs'' [''-n'', ''config-2'', ''-C'', path_str (tmp @ [''cloudinit'']), ''8192''])
                 ''Expect creating disk image to succeed'') (\<lambda>_.
     act_bind (expect (command_output ''mcopy''
                   [''-o'', ''-i'', path_str (tmp @ [''cloudinit'']), ''-s'', path_str dir, ''::''])
                 ''Expect copying files to disk image to succeed'') (\<lambda>_.
     act_return (path_str (tmp @ [''cloudinit''])))) w4"
proof -
  define w1 where "w1 = w\<lparr>dirs := dirs w \<union> set (prefixes (dir @ [''latest'']))\<rparr>"
  define w2 where "w2 = w1\<lparr>files := (files w1)(dir @ [''latest'', ''meta_data.json''] \<mapsto> meta)\<rparr>"
  define w3 where "w3 = w2\<lparr>files := (files w2)(dir @ [''latest'', ''user_data''] \<mapsto> [])\<rparr>"
  have s1: "expect (create_dir_all (dir @ [''latest''])) ''Expect creating cloud-init directory to succeed'' w = (Inr (), w1)"
    using fresh(1) by (simp add: w1_def create_dir_all_ok expect_def)
  have s2: "unwrap current_dir w1 = (Inr (cwd w), w1)"
    by (simp add: unwrap_def expect_def current_dir_def w1_def)
  have "fs_copy (src @ [''meta_data.json'']) (dir @ [''latest'', ''meta_data.json'']) w1 = (Inr (length meta), w2)"
    unfolding w2_def by (rule fs_copy_ok) (use srcf fresh(2) in \<open>simp_all add: w1_def creatable_def dir_def butlast_append\<close>)
  then have s3: "expect (fs_copy (src @ [''meta_data.json'']) (dir @ [''latest'', ''meta_data.json'']))
      ''Expect copying cloud-init meta_data.json to succeed'' w1 = (Inr (length meta), w2)"
    by (rule expect_Inr)
  have ne: "src @ [''user_data''] \<noteq> dir @ [''latest'', ''meta_data.json'']"
    by (simp add: src_def dir_def append_last_neq)
  have s4: "unwrap (file_open (src @ [''user_data''])) w2 = (Inr (src @ [''user_data'']), w2)"
    using srcf ne by (simp add: unwrap_def expect_def file_open_def w1_def w2_def)
  have s5: "expect (read_to_string (src @ [''user_data''])) ''Expected reading user_data file in to succeed'' w2 = (Inr ud, w2)"
    using srcf ne by (simp add: expect_def read_to_string_def w1_def w2_def)
  have s6: "unwrap (file_create (dir @ [''latest'', ''user_data''])) w2 = (Inr (dir @ [''latest'', ''user_data'']), w3)"
    using fresh(3) by (simp add: unwrap_def expect_def file_create_def creatable_def w1_def w2_def w3_def dir_def butlast_append)
  have s7: "expect (write_all (dir @ [''latest'', ''user_data'']) (substitute_network net ud))
      ''Expected writing out user_data to succeed'' w3 = (Inr (), w4)"
    by (simp add: expect_def write_all_def w1_def w2_def w3_def w4_def)
  show ?thesis
    unfolding clear_prepare_def Let_def dir_def [symmetric]
    by (simp only: act_bind_apply s1 s2 s3 [unfolded src_def] s4 [unfolded src_def] s5 [unfolded src_def]
        s6 s7 prod.case sum.case)
qed
text \<open>C8: on a host where the tools work, the source files exist and the
  temporary directory is fresh, \<open>ClearCloudInit::prepare\<close> returns the seed
  image's path, and the image there is a FAT volume labelled \<open>config-2\<close> of
  8192 sectors holding \<open>openstack/latest/user_data\<close> with the substituted text
  and \<open>openstack/latest/meta_data.json\<close> as copied.\<close>

theorem clear_prepare_seeds:
  fixes tmp :: path and w :: world and meta ud :: string and net :: guest_network_config
  assumes tools: "tools w ''mkdosfs'' = ToolWorks" "tools w ''mcopy'' = ToolWorks"
    and names: "\<forall>c\<in>set tmp. c \<noteq> [] \<and> CHR ''/'' \<notin> set c"
    and tmp: "tmp \<noteq> []" "tmp \<in> dirs w"
    and fresh: "\<forall>q \<in> set (prefixes (tmp @ [''cloud-init'', ''clear'', ''openstack'', ''latest''])). files w q = None"
        "tmp @ [''cloud-init'', ''clear'', ''openstack'', ''latest'', ''meta_data.json''] \<notin> dirs w"
        "tmp @ [''cloud-init'', ''clear'', ''openstack'', ''latest'', ''user_data''] \<notin> dirs w"
    and img: "tmp @ [''cloudinit''] \<notin> dirs w" "files w (tmp @ [''cloudinit'']) = None"
        "images w (tmp @ [''cloudinit'']) = None"
    and srcf: "files w (cwd w @ [''resources'', ''cloud-init'', ''clear'', ''openstack'', ''latest'', ''meta_data.json'']) = Some meta"
        "files w (cwd w @ [''resources'', ''cloud-init'', ''clear'', ''openstack'', ''latest'', ''user_data'']) = Some ud"
  shows "\<exists>w' im. clear_prepare tmp net w = (Inr (path_str (tmp @ [''cloudinit''])), w') \<and>
           images w' (tmp @ [''cloudinit'']) = Some im \<and>
           fat_label im = ''config-2'' \<and> fat_sectors im = 8192 \<and>
           fat_files im [''openstack'', ''latest'', ''user_data''] = Some (substitute_network net ud) \<and>
           fat_files im [''openstack'', ''latest'', ''meta_data.json''] = Some meta"
proof -
  define dir where "dir = tmp @ [''cloud-init'', ''clear'', ''openstack'']"
  define ip where "ip = tmp @ [''cloudinit'']"
  define w4 where "w4 = w\<lparr>dirs := dirs w \<union> set (prefixes (dir @ [''latest''])),
                  files := (files w)(dir @ [''latest'', ''meta_data.json''] \<mapsto> meta,
                                     dir @ [''latest'', ''user_data''] \<mapsto> substitute_network net ud)\<rparr>"
  define im0 where "im0 = \<lparr>fat_label = ''config-2'', fat_sectors = 8192, fat_files = Map.empty\<rparr>"
  define w5 where "w5 = w4\<lparr>images := (images w4)(ip \<mapsto> im0), trace := trace w4 @
                    [''mkdosfs'' # [''-n'', ''config-2'', ''-C'', path_str ip, ''8192'']]\<rparr>"
  define w6 where "w6 = w5\<lparr>images := (images w5)(ip \<mapsto> mcopy_into w5 dir im0), trace := trace w5 @
                    [''mcopy'' # [''-o'', ''-i'', path_str ip, ''-s'', path_str dir, ''::'']]\<rparr>"
  have stage: "clear_prepare tmp net w =
     act_bind (expect (command_output ''mkdosfs'' [''-n'', ''config-2'', ''-C'', path_str ip, ''8192''])
                 ''Expect creating disk image to succeed'') (\<lambda>_.
     act_bind (expect (command_output ''mcopy''
                   [''-o'', ''-i'', path_str ip, ''-s'', path_str dir, ''::''])
                 ''Expect copying files to disk image to succeed'') (\<lambda>_.
     act_return (path_str ip))) w4"
    unfolding ip_def dir_def w4_def
    by (rule clear_prepare_stage) (use tmp fresh srcf in simp_all)
  have pip: "str_path (path_str ip) = ip"
    unfolding ip_def using names by (rule path_str_ok) simp
  have pdir: "str_path (path_str dir) = dir"
    unfolding dir_def using names by (rule path_str_ok) simp
  have ne1: "ip \<noteq> dir @ [''latest'', ''meta_data.json'']" "ip \<noteq> dir @ [''latest'', ''user_data'']"
    by (simp_all add: ip_def dir_def)
  have ip_nd: "ip \<notin> set (prefixes (dir @ [''latest'']))"
    by (simp add: ip_def dir_def in_set_prefixes)
  have c1: "expect (command_output ''mkdosfs'' [''-n'', ''config-2'', ''-C'', path_str ip, ''8192''])
      ''Expect creating disk image to succeed'' w4 = (Inr True, w5)"
    by (subst mkdosfs_step [OF _ pip])
       (use tools tmp img ne1 ip_nd in \<open>simp_all add: w4_def w5_def im0_def creatable_def ip_def parse_dec_8192\<close>)
  have dir_in: "dir \<in> dirs w5"
    by (simp add: w5_def w4_def in_set_prefixes)
  have c2: "expect (command_output ''mcopy'' [''-o'', ''-i'', path_str ip, ''-s'', path_str dir, ''::''])
      ''Expect copying files to disk image to succeed'' w5 = (Inr True, w6)"
    by (subst mcopy_step [OF _ pip pdir]) (use tools dir_in in \<open>simp_all add: w4_def w5_def w6_def dir_def\<close>)
  have run: "clear_prepare tmp net w = (Inr (path_str ip), w6)"
    unfolding stage by (simp only: act_bind_apply c1 c2 prod.case sum.case act_return_def)
  have im: "images w6 ip = Some (mcopy_into w5 dir im0)"
    by (simp add: w6_def)
  have ff: "fat_files (mcopy_into w5 dir im0) [''openstack'', ''latest'', ''user_data''] = Some (substitute_network net ud)"
           "fat_files (mcopy_into w5 dir im0) [''openstack'', ''latest'', ''meta_data.json''] = Some meta"
    by (simp_all add: mcopy_into_def dir_def w5_def w4_def)
  show ?thesis
    using run im ff unfolding ip_def by (auto simp: mcopy_into_def im0_def parse_dec_8192)
qed

theorem clear_prepare_seeds_witness:
  "\<exists>w' im. clear_prepare [''tmp'', ''t.0''] demo_net (demo_world ToolWorks) =
             (Inr ''/tmp/t.0/cloudinit'', w') \<and>
           images w' [''tmp'', ''t.0'', ''cloudinit''] = Some im \<and>
           fat_label im = ''config-2'' \<and> fat_sectors im = 8192 \<and>
           fat_files im [''openstack'', ''latest'', ''user_data''] = Some ''gateway4: 192.168.6.1\<newline>'' \<and>
           fat_files im [''openstack'', ''latest'', ''meta_data.json''] = Some ''{}''"
  using clear_prepare_seeds [where tmp = "[''tmp'', ''t.0'']" and w = "demo_world ToolWorks" and meta = "''{}''"
      and ud = demo_user_data and net = demo_net]
  by (simp add: demo_world_def demo_cwd_def path_str_def substitute_demo)

text \<open>C25: \<open>prepare\<close> runs \<open>mkdosfs\<close> with \<open>.output().expect(..)\<close>, which
  only fails when the program cannot be spawned: when \<open>mkdosfs\<close> runs and exits
  non-zero, the seeder still returns the image path, though no image exists
  there (and \<open>mcopy\<close>'s failure is ignored the same way).\<close>

theorem clear_prepare_ignores_mkdosfs_status:
  fixes tmp :: path and w :: world and meta ud :: string and net :: guest_network_config
  assumes tools: "tools w ''mkdosfs'' = ToolFails" "tools w ''mcopy'' = ToolWorks"
    and names: "\<forall>c\<in>set tmp. c \<noteq> [] \<and> CHR ''/'' \<notin> set c"
    and tmp: "tmp \<noteq> []" "tmp \<in> dirs w"
    and fresh: "\<forall>q \<in> set (prefixes (tmp @ [''cloud-init'', ''clear'', ''openstack'', ''latest''])). files w q = None"
        "tmp @ [''cloud-init'', ''clear'', ''openstack'', ''latest'', ''meta_data.json''] \<notin> dirs w"
        "tmp @ [''cloud-init'', ''clear'', ''openstack'', ''latest'', ''user_data''] \<notin> dirs w"
    and img: "images w (tmp @ [''cloudinit'']) = None"
    and srcf: "files w (cwd w @ [''resources'', ''cloud-init'', ''clear'', ''openstack'', ''latest'', ''meta_data.json'']) = Some meta"
        "files w (cwd w @ [''resources'', ''cloud-init'', ''clear'', ''openstack'', ''latest'', ''user_data'']) = Some ud"
  shows "\<exists>w'. clear_prepare tmp net w = (Inr (path_str (tmp @ [''cloudinit''])), w') \<and>
           images w' (tmp @ [''cloudinit'']) = None"
proof -
  define dir where "dir = tmp @ [''cloud-init'', ''clear'', ''openstack'']"
  define ip where "ip = tmp @ [''cloudinit'']"
  define w4 where "w4 = w\<lparr>dirs := dirs w \<union> set (prefixes (dir @ [''latest''])),
                  files := (files w)(dir @ [''latest'', ''meta_data.json''] \<mapsto> meta,
                                     dir @ [''latest'', ''user_data''] \<mapsto> substitute_network net ud)\<rparr>"
  define w5 where "w5 = w4\<lparr>trace := trace w4 @ [''mkdosfs'' # [''-n'', ''config-2'', ''-C'', path_str ip, ''8192'']]\<rparr>"
  define w6 where "w6 = w5\<lparr>trace := trace w5 @ [''mcopy'' # [''-o'', ''-i'', path_str ip, ''-s'', path_str dir, ''::'']]\<rparr>"
  have stage: "clear_prepare tmp net w =
     act_bind (expect (command_output ''mkdosfs'' [''-n'', ''config-2'', ''-C'', path_str ip, ''8192''])
                 ''Expect creating disk image to succeed'') (\<lambda>_.
     act_bind (expect (command_output ''mcopy''
                   [''-o'', ''-i'', path_str ip, ''-s'', path_str dir, ''::''])
                 ''Expect copying files to disk image to succeed'') (\<lambda>_.
     act_return (path_str ip))) w4"
    unfolding ip_def dir_def w4_def
    by (rule clear_prepare_stage) (use tmp fresh srcf in simp_all)
  have c1: "expect (command_output ''mkdosfs'' [''-n'', ''config-2'', ''-C'', path_str ip, ''8192''])
      ''Expect creating disk image to succeed'' w4 = (Inr False, w5)"
    by (rule expect_Inr, rule trans [OF command_output_fails]) (use tools in \<open>simp_all add: w4_def w5_def\<close>)
  have none: "images w5 ip = None"
    using img by (simp add: w5_def w4_def ip_def)
  have te2: "tool_effect ''mcopy'' [''-o'', ''-i'', path_str ip, ''-s'', path_str dir, ''::''] w5 = (False, w5)"
  proof -
    have "str_path (path_str ip) = ip"
      unfolding ip_def using names by (rule path_str_ok) simp
    then show ?thesis using none by (rule mcopy_no_image)
  qed
  have c2: "expect (command_output ''mcopy'' [''-o'', ''-i'', path_str ip, ''-s'', path_str dir, ''::''])
      ''Expect copying files to disk image to succeed'' w5 = (Inr False, w6)"
    by (rule expect_Inr, rule trans [OF command_output_works [OF _ te2]]) (use tools in \<open>simp_all add: w4_def w5_def w6_def\<close>)
  have run: "clear_prepare tmp net w = (Inr (path_str ip), w6)"
    unfolding stage by (simp only: act_bind_apply c1 c2 prod.case sum.case act_return_def)
  have "images w6 ip = None"
    using none by (simp add: w6_def)
  with run show ?thesis unfolding ip_def by blast
qed

theorem clear_prepare_ignores_mkdosfs_status_witness:
  "\<exists>w'. clear_prepare [''tmp'', ''t.0''] demo_net (demo_world ToolFails) =
             (Inr ''/tmp/t.0/cloudinit'', w') \<and>
           images w' [''tmp'', ''t.0'', ''cloudinit''] = None"
  using clear_prepare_ignores_mkdosfs_status [where tmp = "[''tmp'', ''t.0'']" and w = "demo_world ToolFails"
      and meta = "''{}''" and ud = demo_user_data and net = demo_net]
  by (simp add: demo_world_def demo_cwd_def path_str_def)

end
