(* ===== verification/UbuntuSeed.thy ===== *)
theory UbuntuSeed
  imports CloudInit
begin

text \<open>
  \<open>UbuntuCloudInit::prepare\<close> (integration.rs lines 120--177) on its success
  path: the seed directory \<open>cloud-init/ubuntu\<close> receives the copied
  \<open>meta-data\<close> and \<open>user-data\<close> and the substituted \<open>network-config\<close>;
  \<open>mkdosfs\<close> creates a \<open>cidata\<close> volume and three \<open>mcopy\<close> runs put the three
  files at its root, which is where the NoCloud data source looks for them.
\<close>

section \<open>A concrete host\<close>

text \<open>The checkout of \<open>demo_world\<close> with the Ubuntu seed's three source
  files instead of the Clear Linux ones.\<close>

definition ubuntu_world :: world where
  "ubuntu_world =
     (demo_world ToolWorks)\<lparr>files :=
        [demo_cwd @ [''resources'', ''cloud-init'', ''ubuntu'', ''meta-data''] \<mapsto> ''instance-id: fw'',
         demo_cwd @ [''resources'', ''cloud-init'', ''ubuntu'', ''user-data''] \<mapsto> ''#cloud-config'',
         demo_cwd @ [''resources'', ''cloud-init'', ''ubuntu'', ''network-config''] \<mapsto> demo_user_data]\<rparr>"

section \<open>Steps\<close>

text \<open>\<open>mcopy -o -i img -s file ::\<close> on a regular file, and the \<open>for_each\<close>
  of such runs over the seed files: the image receives each file in turn, and
  only the image and the trace change.\<close>

lemma mcopy_into_files: "files w' = files w \<Longrightarrow> mcopy_into w' sp im = mcopy_into w sp im"
  by (simp add: mcopy_into_def cong: list.case_cong if_cong)

lemma mcopy_foreach:
  assumes "tools w ''mcopy'' = ToolWorks" "str_path s = ip" "images w ip = Some im"
    and "\<forall>x \<in> set xs. str_path (path_str (dir @ [x])) = dir @ [x] \<and> files w (dir @ [x]) \<noteq> None"
  shows "act_foreach xs (\<lambda>x. act_bind (expect (command_output ''mcopy''
             [''-o'', ''-i'', s, ''-s'', path_str (dir @ [x]), ''::'']) msg) (\<lambda>_. act_return ())) w =
         (Inr (), w\<lparr>images := (images w)(ip \<mapsto> fold (\<lambda>x. mcopy_into w (dir @ [x])) xs im),
                    trace := trace w @ map (\<lambda>x. [''mcopy'', ''-o'', ''-i'', s, ''-s'', path_str (dir @ [x]), ''::'']) xs\<rparr>)"
  using assms
proof (induction xs arbitrary: w im)
  case Nil
  from Nil.prems(3) have "(images w)(ip \<mapsto> im) = images w" by (rule map_upd_triv)
  then show ?case by (simp add: act_return_def)
next
  case (Cons x xs)
  let ?w' = "w\<lparr>images := (images w)(ip \<mapsto> mcopy_into w (dir @ [x]) im),
               trace := trace w @ [[''mcopy'', ''-o'', ''-i'', s, ''-s'', path_str (dir @ [x]), ''::'']]\<rparr>"
  let ?f = "\<lambda>x. act_bind (expect (command_output ''mcopy''
             [''-o'', ''-i'', s, ''-s'', path_str (dir @ [x]), ''::'']) msg) (\<lambda>_. act_return ())"
  have "expect (command_output ''mcopy'' [''-o'', ''-i'', s, ''-s'', path_str (dir @ [x]), ''::'']) msg w =
      (Inr True, ?w')"
    using Cons.prems by (intro mcopy_step) auto
  then have step: "?f x w = (Inr (), ?w')"
    by (simp add: act_bind_def act_return_def)
  have rest: "act_foreach xs ?f ?w' =
      (Inr (), ?w'\<lparr>images := (images ?w')(ip \<mapsto> fold (\<lambda>x. mcopy_into ?w' (dir @ [x])) xs (mcopy_into w (dir @ [x]) im)),
                 trace := trace ?w' @ map (\<lambda>x. [''mcopy'', ''-o'', ''-i'', s, ''-s'', path_str (dir @ [x]), ''::'']) xs\<rparr>)"
    using Cons.prems by (intro Cons.IH) auto
  have run: "act_foreach (x # xs) ?f w = act_foreach xs ?f ?w'"
    unfolding act_foreach.simps using step by (rule act_bind_Inr)
  have mi: "mcopy_into ?w' sp = mcopy_into w sp" for sp
    by (rule ext, rule mcopy_into_files) simp
  have "?w'\<lparr>images := (images ?w')(ip \<mapsto> fold (\<lambda>x. mcopy_into ?w' (dir @ [x])) xs (mcopy_into w (dir @ [x]) im)),
                 trace := trace ?w' @ map (\<lambda>x. [''mcopy'', ''-o'', ''-i'', s, ''-s'', path_str (dir @ [x]), ''::'']) xs\<rparr> =
      w\<lparr>images := (images w)(ip \<mapsto> fold (\<lambda>x. mcopy_into w (dir @ [x])) (x # xs) im),
        trace := trace w @ map (\<lambda>x. [''mcopy'', ''-o'', ''-i'', s, ''-s'', path_str (dir @ [x]), ''::'']) (x # xs)\<rparr>"
    by (simp add: mi)
  then show ?case by (simp only: run rest)
qed

lemma ubuntu_prepare_stage:
  fixes tmp :: path and w :: world and md ud nc :: string and net :: guest_network_config
  defines "dir \<equiv> tmp @ [''cloud-init'', ''ubuntu'']"
  defines "src \<equiv> cwd w @ [''resources'', ''cloud-init'', ''ubuntu'']"
  defines "w5 \<equiv> w\<lparr>dirs := dirs w \<union> set (prefixes dir),
                  files := (files w)(dir @ [''meta-data''] \<mapsto> md, dir @ [''user-data''] \<mapsto> ud,
                                     dir @ [''network-config''] \<mapsto> substitute_network net nc)\<rparr>"
  assumes fresh: "\<forall>q \<in> set (prefixes dir). files w q = None"
        "dir @ [''meta-data''] \<notin> dirs w" "dir @ [''user-data''] \<notin> dirs w" "dir @ [''network-config''] \<notin> dirs w"
    and srcf: "files w (src @ [''meta-data'']) = Some md" "files w (src @ [''user-data'']) = Some ud"
        "files w (src @ [''network-config'']) = Some nc"
  shows "ubuntu_prepare tmp net w =
     act_bind (expect (command_output ''mkdosfs'' [''-n'', ''cidata'', ''-C'', path_str (tmp @ [''cloudinit'']), ''8192''])
                 ''Expect creating disk image to succeed'') (\<lambda>_.
     act_bind (act_foreach [''user-data'', ''meta-data'', ''network-config''] (\<lambda>x.
         act_bind (expect (command_output ''mcopy''
             [''-o'', ''-i'', path_str (tmp @ [''cloudinit'']), ''-s'', path_str (dir @ [x]), ''::''])
           ''Expect copying files to disk image to succeed'') (\<lambda>_. act_return ()))) (\<lambda>_.
     act_return (path_str (tmp @ [''cloudinit''])))) w5"
proof -
  define w1 where "w1 = w\<lparr>dirs := dirs w \<union> set (prefixes dir)\<rparr>"
  define w2 where "w2 = w1\<lparr>files := (files w1)(dir @ [''meta-data''] \<mapsto> md)\<rparr>"
  define w3 where "w3 = w2\<lparr>files := (files w2)(dir @ [''user-data''] \<mapsto> ud)\<rparr>"
  define w4 where "w4 = w3\<lparr>files := (files w3)(dir @ [''network-config''] \<mapsto> [])\<rparr>"
  have dir_in: "dir \<in> dirs w1" by (simp add: w1_def in_set_prefixes)
  have s1: "expect (create_dir_all dir) ''Expect creating cloud-init directory to succeed'' w = (Inr (), w1)"
    using fresh(1) by (simp add: w1_def create_dir_all_ok expect_def)
  have s2: "unwrap current_dir w1 = (Inr (cwd w), w1)"
    by (simp add: unwrap_def expect_def current_dir_def w1_def)
  have c1: "fs_copy (src @ [''meta-data'']) (dir @ [''meta-data'']) w1 = (Inr (length md), w2)"
    unfolding w2_def by (rule fs_copy_ok) (use srcf fresh(2) dir_in in \<open>simp_all add: w1_def creatable_def in_set_prefixes\<close>)
  have c2: "fs_copy (src @ [''user-data'']) (dir @ [''user-data'']) w2 = (Inr (length ud), w3)"
    unfolding w3_def by (rule fs_copy_ok) (use srcf fresh(3) dir_in in \<open>simp_all add: w1_def w2_def creatable_def in_set_prefixes\<close>)
  have s3: "act_foreach [''meta-data'', ''user-data''] (\<lambda>x.
      act_bind (expect (fs_copy (src @ [x]) (dir @ [x])) ''Expect copying cloud-init meta-data to succeed'')
        (\<lambda>_. act_return ())) w1 = (Inr (), w3)"
    by (simp add: act_bind_def expect_def c1 c2 act_return_def)
  have nc3: "files w3 (src @ [''network-config'']) = Some nc"
    using srcf by (simp add: w1_def w2_def w3_def)
  have s4: "unwrap (file_open (src @ [''network-config''])) w3 = (Inr (src @ [''network-config'']), w3)"
    using nc3 by (simp add: unwrap_def expect_def file_open_def)
  have s5: "expect (read_to_string (src @ [''network-config''])) ''Expected reading network-config file in to succeed'' w3
      = (Inr nc, w3)"
    using nc3 by (simp add: expect_def read_to_string_def)
  have s6: "unwrap (file_create (dir @ [''network-config''])) w3 = (Inr (dir @ [''network-config'']), w4)"
    using fresh(4) dir_in by (simp add: unwrap_def expect_def file_create_def creatable_def w1_def w2_def w3_def w4_def)
  have s7: "expect (write_all (dir @ [''network-config'']) (substitute_network net nc))
      ''Expected writing out network-config to succeed'' w4 = (Inr (), w5)"
    by (simp add: expect_def write_all_def w1_def w2_def w3_def w4_def w5_def)
  show ?thesis
    unfolding ubuntu_prepare_def Let_def dir_def [symmetric]
    by (simp only: act_bind_apply s1 s2 s3 [unfolded src_def] s4 [unfolded src_def] s5 [unfolded src_def]
        s6 s7 prod.case sum.case)
qed

section \<open>The seed image\<close>

text \<open>C9: on a host where the image tools work, the three source files exist
  and the temporary directory is fresh, \<open>UbuntuCloudInit::prepare\<close> returns
  the seed image's path, and the image there is a FAT volume labelled
  \<open>cidata\<close> of 8192 sectors with \<open>user-data\<close> and \<open>meta-data\<close> as copied
  and \<open>network-config\<close> with the identity substituted, all three at its root.\<close>

theorem ubuntu_prepare_seeds:
  fixes tmp :: path and w :: world and md ud nc :: string and net :: guest_network_config
  assumes tools: "tools w ''mkdosfs'' = ToolWorks" "tools w ''mcopy'' = ToolWorks"
    and names: "\<forall>c\<in>set tmp. c \<noteq> [] \<and> CHR ''/'' \<notin> set c"
    and tmp: "tmp \<noteq> []" "tmp \<in> dirs w"
    and fresh: "\<forall>q \<in> set (prefixes (tmp @ [''cloud-init'', ''ubuntu''])). files w q = None"
        "\<forall>x \<in> {''meta-data'', ''user-data'', ''network-config''}. tmp @ [''cloud-init'', ''ubuntu'', x] \<notin> dirs w"
    and img: "tmp @ [''cloudinit''] \<notin> dirs w" "files w (tmp @ [''cloudinit'']) = None"
        "images w (tmp @ [''cloudinit'']) = None"
    and srcf: "files w (cwd w @ [''resources'', ''cloud-init'', ''ubuntu'', ''meta-data'']) = Some md"
        "files w (cwd w @ [''resources'', ''cloud-init'', ''ubuntu'', ''user-data'']) = Some ud"
        "files w (cwd w @ [''resources'', ''cloud-init'', ''ubuntu'', ''network-config'']) = Some nc"
  shows "\<exists>w' im. ubuntu_prepare tmp net w = (Inr (path_str (tmp @ [''cloudinit''])), w') \<and>
           images w' (tmp @ [''cloudinit'']) = Some im \<and>
           fat_label im = ''cidata'' \<and> fat_sectors im = 8192 \<and>
           fat_files im [''user-data''] = Some ud \<and> fat_files im [''meta-data''] = Some md \<and>
           fat_files im [''network-config''] = Some (substitute_network net nc)"
proof -
  define dir where "dir = tmp @ [''cloud-init'', ''ubuntu'']"
  define ip where "ip = tmp @ [''cloudinit'']"
  define w5 where "w5 = w\<lparr>dirs := dirs w \<union> set (prefixes dir),
                  files := (files w)(dir @ [''meta-data''] \<mapsto> md, dir @ [''user-data''] \<mapsto> ud,
                                     dir @ [''network-config''] \<mapsto> substitute_network net nc)\<rparr>"
  define im0 where "im0 = \<lparr>fat_label = ''cidata'', fat_sectors = 8192, fat_files = Map.empty\<rparr>"
  define w6 where "w6 = w5\<lparr>images := (images w5)(ip \<mapsto> im0), trace := trace w5 @
                    [''mkdosfs'' # [''-n'', ''cidata'', ''-C'', path_str ip, ''8192'']]\<rparr>"
  define seeds where "seeds = [''user-data'', ''meta-data'', ''network-config'']"
  define im where "im = fold (\<lambda>x. mcopy_into w6 (dir @ [x])) seeds im0"
  have stage: "ubuntu_prepare tmp net w =
     act_bind (expect (command_output ''mkdosfs'' [''-n'', ''cidata'', ''-C'', path_str ip, ''8192''])
                 ''Expect creating disk image to succeed'') (\<lambda>_.
     act_bind (act_foreach seeds (\<lambda>x.
         act_bind (expect (command_output ''mcopy''
             [''-o'', ''-i'', path_str ip, ''-s'', path_str (dir @ [x]), ''::''])
           ''Expect copying files to disk image to succeed'') (\<lambda>_. act_return ()))) (\<lambda>_.
     act_return (path_str ip))) w5"
    unfolding ip_def dir_def w5_def seeds_def
    by (rule ubuntu_prepare_stage) (use fresh srcf in simp_all)
  have pip: "str_path (path_str ip) = ip"
    unfolding ip_def using names by (rule path_str_ok) simp
  have ip_nd: "ip \<notin> set (prefixes dir)"
    by (simp add: ip_def dir_def in_set_prefixes)
  have c1: "expect (command_output ''mkdosfs'' [''-n'', ''cidata'', ''-C'', path_str ip, ''8192''])
      ''Expect creating disk image to succeed'' w5 = (Inr True, w6)"
    by (subst mkdosfs_step [OF _ pip])
       (use tools tmp img ip_nd in \<open>simp_all add: w5_def w6_def im0_def creatable_def ip_def dir_def parse_dec_8192\<close>)
  have loop: "act_foreach seeds (\<lambda>x.
         act_bind (expect (command_output ''mcopy''
             [''-o'', ''-i'', path_str ip, ''-s'', path_str (dir @ [x]), ''::''])
           ''Expect copying files to disk image to succeed'') (\<lambda>_. act_return ())) w6 =
      (Inr (), w6\<lparr>images := (images w6)(ip \<mapsto> im),
                  trace := trace w6 @ map (\<lambda>x. [''mcopy'', ''-o'', ''-i'', path_str ip, ''-s'', path_str (dir @ [x]), ''::'']) seeds\<rparr>)"
    unfolding im_def
    by (rule mcopy_foreach) (use tools names pip in \<open>simp_all add: w5_def w6_def seeds_def dir_def path_str_ok\<close>)
  have run: "ubuntu_prepare tmp net w = (Inr (path_str ip), w6\<lparr>images := (images w6)(ip \<mapsto> im),
                  trace := trace w6 @ map (\<lambda>x. [''mcopy'', ''-o'', ''-i'', path_str ip, ''-s'', path_str (dir @ [x]), ''::'']) seeds\<rparr>)"
    unfolding stage by (simp only: act_bind_apply c1 loop prod.case sum.case act_return_def)
  have "fat_label im = ''cidata'' \<and> fat_sectors im = 8192 \<and>
      fat_files im [''user-data''] = Some ud \<and> fat_files im [''meta-data''] = Some md \<and>
      fat_files im [''network-config''] = Some (substitute_network net nc)"
    by (simp add: im_def seeds_def im0_def mcopy_into_def w6_def w5_def)
  with run show ?thesis
    unfolding ip_def [symmetric] by auto
qed

theorem ubuntu_prepare_seeds_witness:
  "\<exists>w' im. ubuntu_prepare [''tmp'', ''t.0''] demo_net ubuntu_world = (Inr ''/tmp/t.0/cloudinit'', w') \<and>
     images w' [''tmp'', ''t.0'', ''cloudinit''] = Some im \<and> fat_label im = ''cidata'' \<and> fat_sectors im = 8192 \<and>
     fat_files im [''user-data''] = Some ''#cloud-config'' \<and> fat_files im [''meta-data''] = Some ''instance-id: fw'' \<and>
     fat_files im [''network-config''] = Some ''gateway4: 192.168.6.1\<newline>''"
  using ubuntu_prepare_seeds [where tmp = "[''tmp'', ''t.0'']" and w = ubuntu_world and md = "''instance-id: fw''"
      and ud = "''#cloud-config''" and nc = demo_user_data and net = demo_net]
  by (simp add: ubuntu_world_def demo_world_def demo_cwd_def path_str_def substitute_demo)

end
