(* ===== verification/Tap.thy ===== *)
theory Tap
  imports World NetConfig
begin

text \<open>
  The guest's virtual network interface (integration.rs lines 191--226):
  \<open>prepare_tap\<close> runs three privileged \<open>ip\<close> commands through \<open>bash -c\<close> and
  asserts that each exits successfully; \<open>cleanup_tap\<close> deletes the interface
  the same way. Each command is one \<open>run_ip\<close> step: an \<open>expect\<close> on spawning
  bash, then an \<open>assert!\<close> on the exit status. The lemmas give the interface
  table after a successful bring-up, show that tear-down after bring-up restores
  the table, and give the panics of the failure paths, with what each leaves on
  the host.
\<close>

section \<open>The two operations\<close>

text \<open>\<open>assert!(cond)\<close> panics with the condition's text.\<close>

definition status_assert_msg :: panic_msg where
  "status_assert_msg = ''assertion failed: Command::new(bash).args(..).status().expect(..).success()''"

text \<open>\<open>assert!(Command::new("bash").args(&["-c", script]).status().expect(msg).success())\<close>.\<close>

definition run_ip :: "ip_cmd \<Rightarrow> panic_msg \<Rightarrow> unit act" where
  "run_ip c msg = act_bind (expect (bash_status c) msg) (\<lambda>ok. act_assert ok status_assert_msg)"

definition prepare_tap :: "guest_network_config \<Rightarrow> unit act" where
  "prepare_tap net =
     act_bind (run_ip (TuntapAdd (tap_name net)) ''Expected creating interface to work'') (\<lambda>_.
     act_bind (run_ip (AddrAdd (host_ip net) (tap_name net)) ''Expected programming interface to work'') (\<lambda>_.
     run_ip (LinkUp (tap_name net)) ''Expected upping interface to work''))"

definition cleanup_tap :: "guest_network_config \<Rightarrow> unit act" where
  "cleanup_tap net = run_ip (TuntapDel (tap_name net)) ''Expected deleting interface to work''"

text \<open>The commands \<open>prepare_tap\<close> runs, as the trace records them.\<close>

definition tap_scripts :: "guest_network_config \<Rightarrow> string list list" where
  "tap_scripts net =
     map (\<lambda>c. [''bash'', ''-c'', ip_script c])
       [TuntapAdd (tap_name net), AddrAdd (host_ip net) (tap_name net), LinkUp (tap_name net)]"

section \<open>Steps\<close>

lemma run_ip_ok:
  "tools w ''bash'' \<noteq> ToolMissing \<Longrightarrow> ip_effect c w = (True, w') \<Longrightarrow>
   run_ip c msg w = (Inr (), w'\<lparr>trace := trace w @ [[''bash'', ''-c'', ip_script c]]\<rparr>)"
  by (simp add: run_ip_def act_bind_def expect_def bash_status_def act_assert_def act_return_def)

lemma run_ip_fails:
  "tools w ''bash'' \<noteq> ToolMissing \<Longrightarrow> ip_effect c w = (False, w') \<Longrightarrow>
   run_ip c msg w = (Inl status_assert_msg, w'\<lparr>trace := trace w @ [[''bash'', ''-c'', ip_script c]]\<rparr>)"
  by (simp add: run_ip_def act_bind_def expect_def bash_status_def act_assert_def act_panic_def)

lemma run_ip_no_bash:
  "tools w ''bash'' = ToolMissing \<Longrightarrow> run_ip c msg w = (Inl msg, w)"
  by (simp add: run_ip_def act_bind_def expect_def bash_status_def)

section \<open>Bring-up and tear-down\<close>

text \<open>C21: on a privileged host where the interface name is free, \<open>prepare_tap\<close>
  creates the interface with exactly the host address and sets it up, running
  the three commands in order, and changes nothing else.\<close>

theorem prepare_tap_brings_up:
  assumes "tools w ''bash'' \<noteq> ToolMissing" "net_admin w" "taps w (tap_name net) = None"
  shows "prepare_tap net w =
           (Inr (), w\<lparr>taps := (taps w)(tap_name net \<mapsto> \<lparr>tap_addrs = [host_ip net], tap_up = True\<rparr>),
                      trace := trace w @ tap_scripts net\<rparr>)"
  using assms by (simp add: prepare_tap_def act_bind_def run_ip_ok tap_scripts_def)

theorem prepare_tap_brings_up_witness:
  "prepare_tap (guest_network_config_new 6 [1, 2, 3, 4, 5, 6]) host0 =
     (Inr (), host0\<lparr>taps := [''fwtap6'' \<mapsto> \<lparr>tap_addrs = [''192.168.6.1''], tap_up = True\<rparr>],
                    trace := [[''bash'', ''-c'', ''sudo ip tuntap add name fwtap6 mode tap''],
                              [''bash'', ''-c'', ''sudo ip addr add 192.168.6.1/24 dev fwtap6''],
                              [''bash'', ''-c'', ''sudo ip link set dev fwtap6 up'']]\<rparr>)"
  using prepare_tap_brings_up [of host0 "guest_network_config_new 6 [1, 2, 3, 4, 5, 6]"]
  by (simp add: host0_def guest_network_config_new_def tap_scripts_def fmt_u8_def fmt_simps)

lemma cleanup_tap_deletes:
  assumes "tools w ''bash'' \<noteq> ToolMissing" "net_admin w"
  shows "cleanup_tap net w =
           (Inr (), w\<lparr>taps := (taps w)(tap_name net := None),
                      trace := trace w @ [[''bash'', ''-c'', ip_script (TuntapDel (tap_name net))]]\<rparr>)"
  using assms by (simp add: cleanup_tap_def run_ip_ok)

text \<open>C22: tearing down after a bring-up leaves the host's interface table as it
  was before: \<open>cleanup_tap\<close> undoes \<open>prepare_tap\<close>.\<close>

theorem prepare_cleanup_restores:
  assumes "tools w ''bash'' \<noteq> ToolMissing" "net_admin w" "taps w (tap_name net) = None"
  shows "\<exists>w'. act_bind (prepare_tap net) (\<lambda>_. cleanup_tap net) w = (Inr (), w') \<and> taps w' = taps w"
  using assms by (simp add: act_bind_apply prepare_tap_def act_bind_def run_ip_ok cleanup_tap_deletes fun_upd_idem)

theorem prepare_cleanup_restores_witness:
  "\<exists>w'. act_bind (prepare_tap (guest_network_config_new 6 [1, 2, 3, 4, 5, 6])) (\<lambda>_. cleanup_tap (guest_network_config_new 6 [1, 2, 3, 4, 5, 6])) host0 = (Inr (), w') \<and> taps w' = Map.empty"
  using prepare_cleanup_restores [of host0 "guest_network_config_new 6 [1, 2, 3, 4, 5, 6]"]
  by (simp add: host0_def)

text \<open>C34: without privilege, or when an interface of that name already exists
  (left behind by an earlier run), the first \<open>assert!\<close> panics: the name is
  not taken over and no address is added.\<close>

theorem prepare_tap_refused:
  assumes "tools w ''bash'' \<noteq> ToolMissing" "\<not> net_admin w \<or> taps w (tap_name net) \<noteq> None"
  shows "prepare_tap net w =
           (Inl status_assert_msg, w\<lparr>trace := trace w @ [hd (tap_scripts net)]\<rparr>)"
  using assms by (auto simp: prepare_tap_def act_bind_def run_ip_fails tap_scripts_def)

theorem prepare_tap_refused_witness:
  "prepare_tap (guest_network_config_new 6 [1, 2, 3, 4, 5, 6]) (host0\<lparr>taps := [''fwtap6'' \<mapsto> \<lparr>tap_addrs = [], tap_up = False\<rparr>]\<rparr>) =
     (Inl status_assert_msg,
      host0\<lparr>taps := [''fwtap6'' \<mapsto> \<lparr>tap_addrs = [], tap_up = False\<rparr>],
            trace := [[''bash'', ''-c'', ''sudo ip tuntap add name fwtap6 mode tap'']]\<rparr>)"
  using prepare_tap_refused [of "host0\<lparr>taps := [''fwtap6'' \<mapsto> \<lparr>tap_addrs = [], tap_up = False\<rparr>]\<rparr>" "guest_network_config_new 6 [1, 2, 3, 4, 5, 6]"]
  by (simp add: host0_def guest_network_config_new_def tap_scripts_def fmt_u8_def fmt_simps)

end
