(* ===== verification/Vmm.thy ===== *)
theory Vmm
  imports World NetConfig
begin

text \<open>
  The two VMM launch adapters (integration.rs lines 283--341): \<open>spawn_ch\<close> and
  \<open>spawn_qemu\<close> build a fixed argument vector for Cloud Hypervisor and QEMU and
  spawn the VMM; both have the type \<open>HypervisorSpawn\<close>, so \<open>test_boot\<close> is
  agnostic of the VMM. The spec's contract for a spawner is that the process
  gets the firmware, the OS disk and the seed image as block devices, and a
  network device bound to the identity's tap interface and MAC. Each VMM's
  reading of its command line is modelled as a view of the argument vector
  (\<open>ch_view\<close>, \<open>qemu_view\<close>), and the lemmas show that both adapters meet the
  contract through their own VMM's reading.
\<close>

section \<open>The adapters\<close>

definition firmware_path :: string where
  "firmware_path = ''target/target/release/hypervisor-fw''"

definition ch_args :: "string \<Rightarrow> string \<Rightarrow> guest_network_config \<Rightarrow> string list" where
  "ch_args os ci net =
     [''--console'', ''off'', ''--serial'', ''tty'', ''--kernel'', firmware_path,
      ''--disk'', ''path='' @ os, ''path='' @ ci,
      ''--net'', ''tap='' @ tap_name net @ '',mac='' @ guest_mac net]"

definition qemu_args :: "string \<Rightarrow> string \<Rightarrow> guest_network_config \<Rightarrow> string list" where
  "qemu_args os ci net =
     [''-machine'', ''q35,accel=kvm'', ''-cpu'', ''host,-vmx'', ''-kernel'', firmware_path,
      ''-display'', ''none'', ''-nodefaults'', ''-serial'', ''stdio'',
      ''-drive'', ''id=os,file='' @ os @ '',if=none'',
      ''-device'', ''virtio-blk-pci,drive=os,disable-legacy=on'',
      ''-drive'', ''id=ci,file='' @ ci @ '',if=none,format=raw'',
      ''-device'', ''virtio-blk-pci,drive=ci,disable-legacy=on'',
      ''-m'', ''1G'',
      ''-netdev'', ''tap,id=net0,ifname='' @ tap_name net @ '',script=no,downscript=no'',
      ''-device'', ''virtio-net-pci,netdev=net0,mac='' @ guest_mac net]"

text \<open>\<open>type HypervisorSpawn = fn(os: &str, ci: &str, net: &GuestNetworkConfig) -> Child\<close>;
  the child is its index in the process table.\<close>

type_synonym hypervisor_spawn = "string \<Rightarrow> string \<Rightarrow> guest_network_config \<Rightarrow> nat act"

definition spawn_ch :: hypervisor_spawn where
  "spawn_ch os ci net =
     expect (spawn ''./cloud-hypervisor'' (ch_args os ci net)) ''Expect launching Cloud Hypervisor to succeed''"

definition spawn_qemu :: hypervisor_spawn where
  "spawn_qemu os ci net =
     expect (spawn ''qemu-system-x86_64'' (qemu_args os ci net)) ''Expect launching QEMU to succeed''"

section \<open>How each VMM reads its command line\<close>

text \<open>The value following the first occurrence of a flag, the values following
  every occurrence, and a \<open>key=value\<close> field of a comma-separated option string.\<close>

fun arg_after :: "string \<Rightarrow> string list \<Rightarrow> string option" where
  "arg_after f (a # b # rest) = (if a = f then Some b else arg_after f (b # rest))"
| "arg_after f _ = None"

fun args_after :: "string \<Rightarrow> string list \<Rightarrow> string list" where
  "args_after f (a # b # rest) = (if a = f then b # args_after f rest else args_after f (b # rest))"
| "args_after f _ = []"

definition field :: "string \<Rightarrow> string \<Rightarrow> string option" where
  "field key s =
     map_option (drop (Suc (length key))) (find (prefix (key @ ''='')) (split_on CHR '','' s))"

record vmm_binding =
  vb_kernel :: string
  vb_disks :: "string list"
  vb_tap :: string
  vb_mac :: string

text \<open>Cloud Hypervisor: \<open>--disk\<close> takes the values up to the next \<open>--\<close> option.\<close>

definition ch_disks :: "string list \<Rightarrow> string list" where
  "ch_disks argv =
     List.map_filter (field ''path'')
       (takeWhile (\<lambda>a. \<not> prefix ''--'' a) (drop 1 (dropWhile (\<lambda>a. a \<noteq> ''--disk'') argv)))"

definition ch_view :: "string list \<Rightarrow> vmm_binding option" where
  "ch_view argv =
     (case (arg_after ''--kernel'' argv, arg_after ''--net'' argv) of
        (Some k, Some n) \<Rightarrow>
          (case (field ''tap'' n, field ''mac'' n) of
             (Some t, Some m) \<Rightarrow> Some \<lparr>vb_kernel = k, vb_disks = ch_disks argv, vb_tap = t, vb_mac = m\<rparr>
           | _ \<Rightarrow> None)
      | _ \<Rightarrow> None)"

text \<open>QEMU: a front-end \<open>-device\<close> names its back end by id (\<open>drive=\<close>,
  \<open>netdev=\<close>); the back end is the \<open>-drive\<close> or \<open>-netdev\<close> option with that
  \<open>id=\<close>. The guest's disks are the files of the drives the \<open>virtio-blk-pci\<close>
  devices refer to, in device order; its NIC is the \<open>virtio-net-pci\<close> device,
  with its MAC and the interface of the tap netdev it refers to. A reference
  to no back end leaves the disk out, or gives no NIC.\<close>

definition backend :: "string \<Rightarrow> string list \<Rightarrow> string \<Rightarrow> string option" where
  "backend opt argv i = find (\<lambda>a. field ''id'' a = Some i) (args_after opt argv)"

definition qemu_disks :: "string list \<Rightarrow> string list" where
  "qemu_disks argv =
     List.map_filter
       (\<lambda>dv. if prefix ''virtio-blk-pci,'' dv
             then Option.bind (field ''drive'' dv) (\<lambda>d. Option.bind (backend ''-drive'' argv d) (field ''file''))
             else None)
       (args_after ''-device'' argv)"

definition qemu_view :: "string list \<Rightarrow> vmm_binding option" where
  "qemu_view argv =
     (case (arg_after ''-kernel'' argv, find (prefix ''virtio-net-pci,'') (args_after ''-device'' argv)) of
        (Some k, Some dv) \<Rightarrow>
          (case (field ''netdev'' dv, field ''mac'' dv) of
             (Some n, Some m) \<Rightarrow>
               (case backend ''-netdev'' argv n of
                  Some nd \<Rightarrow>
                    (if prefix ''tap,'' nd then
                       (case field ''ifname'' nd of
                          Some t \<Rightarrow> Some \<lparr>vb_kernel = k, vb_disks = qemu_disks argv, vb_tap = t, vb_mac = m\<rparr>
                        | None \<Rightarrow> None)
                     else None)
                | None \<Rightarrow> None)
           | _ \<Rightarrow> None)
      | _ \<Rightarrow> None)"

text \<open>The binding the spec asks of every spawner, and the process a spawn must
  add: one new running process at the end of the table, whose command line its
  VMM reads as that binding.\<close>

definition binding_of :: "string \<Rightarrow> string \<Rightarrow> guest_network_config \<Rightarrow> vmm_binding" where
  "binding_of os ci net =
     \<lparr>vb_kernel = firmware_path, vb_disks = [os, ci], vb_tap = tap_name net, vb_mac = guest_mac net\<rparr>"

definition spawned :: "(string list \<Rightarrow> vmm_binding option) \<Rightarrow> vmm_binding \<Rightarrow> world \<Rightarrow>
                       (panic_msg + nat) \<times> world \<Rightarrow> bool" where
  "spawned view b w r \<longleftrightarrow>
     (case r of
        (Inr pid, w') \<Rightarrow>
          pid = length (procs w) \<and> length (procs w') = Suc pid \<and> take pid (procs w') = procs w \<and>
          proc_state (procs w' ! pid) = Running \<and> view (tl (proc_argv (procs w' ! pid))) = Some b
      | (Inl _, _) \<Rightarrow> False)"

section \<open>The identity's strings in an option list\<close>

lemma guest_mac_no_comma: "CHR '','' \<notin> set (guest_mac (guest_network_config_new c rnd))"
  by (simp add: guest_network_config_new_def Let_def format_mac_def fmt_02x_def pad_zero_def hex_string_no_comma)

lemma tap_name_no_comma: "CHR '','' \<notin> set (tap_name (guest_network_config_new c rnd))"
  using dec_string_digits [of "unat c"] by (auto simp: tap_name_new is_dec_char_def)

lemma split_on_sep_mid:
  "d \<notin> set xs \<Longrightarrow> d \<notin> set ys \<Longrightarrow> split_on d (xs @ ys @ d # zs) = (xs @ ys) # split_on d zs"
  using split_on_append_sep [of d "xs @ ys" zs] by simp

lemma field_ch_net:
  assumes "CHR '','' \<notin> set t" "CHR '','' \<notin> set m"
  shows "field ''tap'' (''tap='' @ t @ '',mac='' @ m) = Some t"
    and "field ''mac'' (''tap='' @ t @ '',mac='' @ m) = Some m"
proof -
  have "split_on CHR '','' (''tap='' @ t @ '',mac='' @ m) = [''tap='' @ t, ''mac='' @ m]"
    using assms split_on_sep_mid [of "CHR '',''" "''tap=''" t "''mac='' @ m"]
    by (simp add: split_on_no_sep)
  then show "field ''tap'' (''tap='' @ t @ '',mac='' @ m) = Some t"
    and "field ''mac'' (''tap='' @ t @ '',mac='' @ m) = Some m"
    by (simp_all add: field_def)
qed

lemma field_single:
  "CHR '','' \<notin> set v \<Longrightarrow> CHR '','' \<notin> set key \<Longrightarrow> field key (key @ ''='' @ v) = Some v"
  by (simp add: field_def split_on_no_sep)

lemma ch_view_args:
  assumes "CHR '','' \<notin> set os" "CHR '','' \<notin> set ci"
  shows "ch_view (ch_args os ci (guest_network_config_new c rnd)) = Some (binding_of os ci (guest_network_config_new c rnd))"
  using assms field_ch_net [OF tap_name_no_comma guest_mac_no_comma]
    field_single [of os "''path''"] field_single [of ci "''path''"]
  by (simp add: ch_view_def ch_args_def ch_disks_def binding_of_def firmware_path_def map_filter_simps)

lemma qemu_args_options:
  "args_after ''-drive'' (qemu_args os ci net) =
     [''id=os,file='' @ os @ '',if=none'', ''id=ci,file='' @ ci @ '',if=none,format=raw'']"
  "args_after ''-netdev'' (qemu_args os ci net) = [''tap,id=net0,ifname='' @ tap_name net @ '',script=no,downscript=no'']"
  "args_after ''-device'' (qemu_args os ci net) =
     [''virtio-blk-pci,drive=os,disable-legacy=on'', ''virtio-blk-pci,drive=ci,disable-legacy=on'',
      ''virtio-net-pci,netdev=net0,mac='' @ guest_mac net]"
  "arg_after ''-kernel'' (qemu_args os ci net) = Some firmware_path"
  by (simp_all add: qemu_args_def firmware_path_def)

lemma qemu_view_args_gen:
  assumes "CHR '','' \<notin> set os" "CHR '','' \<notin> set ci" "CHR '','' \<notin> set (tap_name net)" "CHR '','' \<notin> set (guest_mac net)"
  shows "qemu_view (qemu_args os ci net) = Some (binding_of os ci net)"
proof -
  have d1: "split_on CHR '','' (''id=os,file='' @ os @ '',if=none'') = [''id=os'', ''file='' @ os, ''if=none'']"
    using assms(1) split_on_sep_mid [of "CHR '',''" "''file=''" os "''if=none''"]
    by (simp add: split_on_no_sep)
  have d2: "split_on CHR '','' (''id=ci,file='' @ ci @ '',if=none,format=raw'') = [''id=ci'', ''file='' @ ci, ''if=none'', ''format=raw'']"
    using assms(2) split_on_sep_mid [of "CHR '',''" "''file=''" ci "''if=none,format=raw''"]
    by (simp add: split_on_no_sep)
  have t: "split_on CHR '','' (''tap,id=net0,ifname='' @ tap_name net @ '',script=no,downscript=no'') =
             [''tap'', ''id=net0'', ''ifname='' @ tap_name net, ''script=no'', ''downscript=no'']"
    using assms(3) split_on_sep_mid [of "CHR '',''" "''ifname=''" "tap_name net" "''script=no,downscript=no''"]
    by (simp add: split_on_no_sep)
  have m: "split_on CHR '','' (''virtio-net-pci,netdev=net0,mac='' @ guest_mac net) =
             [''virtio-net-pci'', ''netdev=net0'', ''mac='' @ guest_mac net]"
    using assms(4) by (simp add: split_on_no_sep)
  have b: "backend ''-drive'' (qemu_args os ci net) ''os'' = Some (''id=os,file='' @ os @ '',if=none'')"
    "backend ''-drive'' (qemu_args os ci net) ''ci'' = Some (''id=ci,file='' @ ci @ '',if=none,format=raw'')"
    "backend ''-netdev'' (qemu_args os ci net) ''net0'' = Some (''tap,id=net0,ifname='' @ tap_name net @ '',script=no,downscript=no'')"
    using d1 d2 t by (simp_all add: backend_def qemu_args_options field_def)
  have disks: "qemu_disks (qemu_args os ci net) = [os, ci]"
    using b(1,2) d1 d2 by (simp add: qemu_disks_def qemu_args_options field_def map_filter_simps)
  show ?thesis
    using b(3) disks t m
    by (simp add: qemu_view_def qemu_args_options binding_of_def field_def)
qed

lemma qemu_view_args:
  assumes "CHR '','' \<notin> set os" "CHR '','' \<notin> set ci"
  shows "qemu_view (qemu_args os ci (guest_network_config_new c rnd)) = Some (binding_of os ci (guest_network_config_new c rnd))"
  using qemu_view_args_gen [OF assms tap_name_no_comma guest_mac_no_comma] .

section \<open>Both adapters meet the spawner contract\<close>

text \<open>C19: when the binary is installed, \<open>spawn_ch\<close> adds one running process
  whose command line Cloud Hypervisor reads as the firmware, the two disks in
  order, and a network device on the identity's tap interface with its MAC,
  provided the disk paths contain no comma.\<close>

theorem spawn_ch_contract:
  assumes "tools w ''./cloud-hypervisor'' \<noteq> ToolMissing" "CHR '','' \<notin> set os" "CHR '','' \<notin> set ci"
  shows "spawned ch_view (binding_of os ci (guest_network_config_new c rnd)) w
           (spawn_ch os ci (guest_network_config_new c rnd) w)"
  using assms ch_view_args [OF assms(2,3)] by (simp add: spawned_def spawn_ch_def expect_def spawn_def nth_append)

theorem spawn_ch_contract_witness:
  "spawned ch_view (binding_of ''/tmp/rhfw.0/os.img'' ''/tmp/rhfw.0/cloudinit'' (guest_network_config_new 6 [1, 2, 3, 4, 5, 6])) host0
     (spawn_ch ''/tmp/rhfw.0/os.img'' ''/tmp/rhfw.0/cloudinit'' (guest_network_config_new 6 [1, 2, 3, 4, 5, 6]) host0)"
  using spawn_ch_contract [of host0 "''/tmp/rhfw.0/os.img''" "''/tmp/rhfw.0/cloudinit''" 6 "[1, 2, 3, 4, 5, 6]"] by (simp add: host0_def)

text \<open>C20: the same for \<open>spawn_qemu\<close>, read the way QEMU reads its options:
  each \<open>virtio-blk-pci\<close> device's \<open>drive=\<close> names the \<open>-drive\<close> with that
  \<open>id=\<close>, whose file is the disk, and the \<open>virtio-net-pci\<close> device's
  \<open>netdev=\<close> names the tap \<open>-netdev\<close> with that \<open>id=\<close>, whose interface is
  the tap; so the two adapters are interchangeable behind \<open>HypervisorSpawn\<close>.\<close>

theorem spawn_qemu_contract:
  assumes "tools w ''qemu-system-x86_64'' \<noteq> ToolMissing" "CHR '','' \<notin> set os" "CHR '','' \<notin> set ci"
  shows "spawned qemu_view (binding_of os ci (guest_network_config_new c rnd)) w
           (spawn_qemu os ci (guest_network_config_new c rnd) w)"
  using assms qemu_view_args [OF assms(2,3)] by (simp add: spawned_def spawn_qemu_def expect_def spawn_def nth_append)

theorem spawn_qemu_contract_witness:
  "spawned qemu_view (binding_of ''/tmp/rhfw.0/os.img'' ''/tmp/rhfw.0/cloudinit'' (guest_network_config_new 6 [1, 2, 3, 4, 5, 6])) host0
     (spawn_qemu ''/tmp/rhfw.0/os.img'' ''/tmp/rhfw.0/cloudinit'' (guest_network_config_new 6 [1, 2, 3, 4, 5, 6]) host0)"
  using spawn_qemu_contract [of host0 "''/tmp/rhfw.0/os.img''" "''/tmp/rhfw.0/cloudinit''" 6 "[1, 2, 3, 4, 5, 6]"] by (simp add: host0_def)

text \<open>C35: a VMM binary that cannot be spawned is fatal: the adapter panics with
  its \<open>expect\<close> message and the process table is unchanged.\<close>

theorem spawn_missing_vmm:
  "(tools w ''./cloud-hypervisor'' = ToolMissing \<longrightarrow>
      spawn_ch os ci net w = (Inl ''Expect launching Cloud Hypervisor to succeed'', w)) \<and>
   (tools w ''qemu-system-x86_64'' = ToolMissing \<longrightarrow>
      spawn_qemu os ci net w = (Inl ''Expect launching QEMU to succeed'', w))"
  by (simp add: spawn_ch_def spawn_qemu_def expect_def spawn_def)

theorem spawn_missing_vmm_witness:
  "spawn_ch ''/tmp/rhfw.0/os.img'' ''/tmp/rhfw.0/cloudinit'' (guest_network_config_new 6 [1, 2, 3, 4, 5, 6]) (host0\<lparr>tools := \<lambda>_. ToolMissing\<rparr>) =
     (Inl ''Expect launching Cloud Hypervisor to succeed'', host0\<lparr>tools := \<lambda>_. ToolMissing\<rparr>)"
  using spawn_missing_vmm [of "host0\<lparr>tools := \<lambda>_. ToolMissing\<rparr>" "''/tmp/rhfw.0/os.img''" "''/tmp/rhfw.0/cloudinit''" "guest_network_config_new 6 [1, 2, 3, 4, 5, 6]"] by simp

end
