(* ===== verification/Boot.thy ===== *)
theory Boot
  imports CloudInit Tap Vmm
begin

text \<open>
  The test orchestrator (integration.rs lines 180--189 and 341--395):
  \<open>prepare_os_disk\<close> copies the cloud image from \<open>~/workloads\<close> into the
  temporary directory; \<open>test_boot\<close> creates the temporary directory, takes the
  next \<open>COUNTER\<close> value for the identity, prepares the seed image and the OS
  disk, brings up the tap interface, spawns the VMM, waits 20 seconds, shuts the
  guest down over SSH, kills and reaps the VMM and tears the interface down; the
  \<open>#[test]\<close> functions run it for each image, seeder and VMM.

  A panic unwinds \<open>test_boot\<close>: the only value with a destructor that acts is
  the \<open>TempDir\<close>, whose drop removes the directory (\<open>with_tempdir\<close>); the
  child process and the tap interface are not released. The random MAC bytes
  that \<open>GuestNetworkConfig::new\<close> draws from \<open>thread_rng\<close> are a parameter of
  each call.
\<close>

section \<open>The OS disk\<close>

text \<open>\<open>dirs::home_dir().expect(..)\<close> is \<open>Option::expect\<close>: a panic on \<open>None\<close>.\<close>

definition prepare_os_disk :: "path \<Rightarrow> string \<Rightarrow> string act" where
  "prepare_os_disk tmp image_name =
     act_bind home_dir (\<lambda>h.
       case h of
         None \<Rightarrow> act_panic ''Expect getting home directory to succeed''
       | Some home_p \<Rightarrow>
           (let src_osdisk = home_p @ [''workloads'', image_name];
                dest_osdisk = tmp @ [image_name]
            in act_bind (expect (fs_copy src_osdisk dest_osdisk) ''Expect copying OS disk to succeed'') (\<lambda>_.
               act_return (path_str dest_osdisk))))"

section \<open>One test case\<close>

text \<open>\<open>COUNTER.fetch_add(1, Ordering::SeqCst)\<close> on the process-global counter.\<close>

definition counter_next :: "usize act" where
  "counter_next w = (case counter_fetch_add (counter w) of (old, new) \<Rightarrow> (Inr old, w\<lparr>counter := new\<rparr>))"

text \<open>\<open>let tmp_dir = TempDir::new(pfx).expect(..); body\<close>: the directory is
  removed when \<open>tmp_dir\<close> is dropped, at the end of the body or while a panic
  unwinds it.\<close>

definition with_tempdir :: "string \<Rightarrow> (path \<Rightarrow> 'a act) \<Rightarrow> 'a act" where
  "with_tempdir pfx body =
     act_bind (expect (tempdir_new pfx) ''Expect creating temporary directory to succeed'') (\<lambda>tmp w.
       case body tmp w of (r, w') \<Rightarrow> (r, remove_tree tmp w'))"

definition shutdown_cmd :: string where
  "shutdown_cmd = ''sudo shutdown -h now''"

text \<open>\<open>test_boot\<close> after the identity is chosen.\<close>

definition boot_stages :: "string \<Rightarrow> cloud_init \<Rightarrow> hypervisor_spawn \<Rightarrow> guest_network_config \<Rightarrow>
                           path \<Rightarrow> unit act" where
  "boot_stages image_name cinit sp net tmp =
     act_bind (prepare cinit tmp net) (\<lambda>ci.
     act_bind (prepare_os_disk tmp image_name) (\<lambda>os.
     act_bind (prepare_tap net) (\<lambda>_.
     act_bind (sp os ci net) (\<lambda>child.
     act_bind (sleep 20) (\<lambda>_.
     act_bind (ssh_command_act (guest_ip net) shutdown_cmd) (\<lambda>r.
       case r of
         Inl _ \<Rightarrow> act_panic ''Expect SSH command to work''
       | Inr _ \<Rightarrow>
           act_bind (unwrap (child_kill child)) (\<lambda>_.
           act_bind (unwrap (child_wait child)) (\<lambda>_.
           cleanup_tap net))))))))"

definition test_boot :: "string \<Rightarrow> cloud_init \<Rightarrow> hypervisor_spawn \<Rightarrow> u8 list \<Rightarrow> unit act" where
  "test_boot image_name cinit sp rnd =
     with_tempdir ''rhfw'' (\<lambda>tmp.
       act_bind counter_next (\<lambda>c.
         boot_stages image_name cinit sp (guest_network_config_new (counter_as_u8 c) rnd) tmp))"

section \<open>The test cases\<close>

definition bionic_image_name :: string where
  "bionic_image_name = ''bionic-server-cloudimg-amd64-raw.img''"

definition focal_image_name :: string where
  "focal_image_name = ''focal-server-cloudimg-amd64-raw.img''"

definition clear_image_name :: string where
  "clear_image_name = ''clear-31311-cloudguest.img''"

text \<open>The \<open>#[test]\<close> functions, in source order; \<open>test_boot_qemu_focal\<close>
  carries no \<open>#[test]\<close> attribute and is not run.\<close>

definition test_cases :: "(string \<times> string \<times> cloud_init \<times> hypervisor_spawn) list" where
  "test_cases =
     [(''test_boot_qemu_bionic'', bionic_image_name, UbuntuCloudInit, spawn_qemu),
      (''test_boot_qemu_clear'', clear_image_name, ClearCloudInit, spawn_qemu),
      (''test_boot_ch_bionic'', bionic_image_name, UbuntuCloudInit, spawn_ch),
      (''test_boot_ch_focal'', focal_image_name, UbuntuCloudInit, spawn_ch),
      (''test_boot_ch_clear'', clear_image_name, ClearCloudInit, spawn_ch)]"

text \<open>The test harness runs the cases one after another on one host (as with
  \<open>--test-threads=1\<close>), catching each case's panic and recording the outcome;
  the \<open>i\<close>-th case draws \<open>rnds ! i\<close> as its random MAC bytes.\<close>

fun run_tests :: "(string \<times> string \<times> cloud_init \<times> hypervisor_spawn) list \<Rightarrow> u8 list list \<Rightarrow>
                  world \<Rightarrow> (string \<times> (panic_msg + unit)) list \<times> world" where
  "run_tests [] rnds w = ([], w)"
| "run_tests ((name, image_name, cinit, sp) # ts) rnds w =
     (case test_boot image_name cinit sp (hd rnds) w of
        (r, w') \<Rightarrow> (case run_tests ts (tl rnds) w' of (rs, w'') \<Rightarrow> ((name, r) # rs, w'')))"

section \<open>A concrete host for the examples\<close>

text \<open>The checkout of \<open>demo_world\<close> with the Clear Linux cloud image in
  \<open>~/workloads\<close> and every guest running the login service \<open>g\<close>.\<close>

definition boot_world :: "ssh_server \<Rightarrow> world" where
  "boot_world g =
     (demo_world ToolWorks)\<lparr>home := Some [''home'', ''ci''],
        files := (files (demo_world ToolWorks))([''home'', ''ci'', ''workloads'', clear_image_name] \<mapsto> ''raw disk''),
        guests := (\<lambda>_ _. g)\<rparr>"

section \<open>Running the stages\<close>

lemma boot_stages_run:
  assumes "prepare cinit tmp net w = (Inr ci, w1)" "prepare_os_disk tmp image_name w1 = (Inr os, w2)"
    "prepare_tap net w2 = (Inr (), w3)" "sp os ci net w3 = (Inr pid, w4)"
  shows "boot_stages image_name cinit sp net tmp w =
    (case ssh_command (guests w4) (guest_ip net) shutdown_cmd (clock w4 + 20) of
       (Inl p, t) \<Rightarrow> (Inl p, w4\<lparr>clock := t\<rparr>)
     | (Inr (Inl e), t) \<Rightarrow> (Inl ''Expect SSH command to work'', w4\<lparr>clock := t\<rparr>)
     | (Inr (Inr out), t) \<Rightarrow>
         act_bind (unwrap (child_kill pid)) (\<lambda>_. act_bind (unwrap (child_wait pid)) (\<lambda>_. cleanup_tap net))
           (w4\<lparr>clock := t\<rparr>))"
  using assms
  by (simp add: boot_stages_def act_bind_apply sleep_def ssh_command_act_def act_panic_def
      split: prod.split sum.split)

lemma test_boot_run:
  assumes "tempdir_new ''rhfw'' w = (Inr tmp, w0)"
  shows "test_boot image_name cinit sp rnd w =
    (case boot_stages image_name cinit sp (guest_network_config_new (counter_as_u8 (counter w0)) rnd) tmp
            (w0\<lparr>counter := counter w0 + 1\<rparr>) of
       (r, w') \<Rightarrow> (r, remove_tree tmp w'))"
  using assms by (simp add: test_boot_def with_tempdir_def act_bind_apply expect_def counter_next_def
      counter_fetch_add_def)

lemma remove_tree_frame [simp]:
  "taps (remove_tree p w) = taps w" "procs (remove_tree p w) = procs w" "p \<notin> dirs (remove_tree p w)"
  by (simp_all add: remove_tree_def)

lemmas boot_eval = clear_prepare_def demo_world_def demo_cwd_def act_bind_def expect_def unwrap_def
     create_dir_all_def current_dir_def fs_copy_def creatable_def file_open_def read_to_string_def
     file_create_def write_all_def command_output_def tool_effect_def mkdosfs_effect_def mcopy_effect_def
     act_return_def path_str_def str_path_def Let_def boot_world_def tempdir_new_def prepare_os_disk_def
     home_dir_def clear_image_name_def

text \<open>The stages of \<open>test_boot_ch_clear\<close> on the example host, up to the SSH
  call: each succeeds, and after the spawn the tap interface is up and the VMM
  running.\<close>

lemma boot_world_stages:
  fixes g :: ssh_server
  defines "W \<equiv> boot_world g" and "tmp \<equiv> [''tmp'', ''rhfw.1'']"
    and "os \<equiv> ''/tmp/rhfw.1/clear-31311-cloudguest.img''" and "ci \<equiv> ''/tmp/rhfw.1/cloudinit''"
  defines "W0 \<equiv> W\<lparr>dirs := insert tmp (dirs W), tmp_seq := 2\<rparr>"
  shows "demo_net = guest_network_config_new (counter_as_u8 (counter W0)) [1, 2, 3, 4, 5, 6] \<and>
    (\<exists>W1 W2 W3 W4. tempdir_new ''rhfw'' W = (Inr tmp, W0) \<and>
     prepare ClearCloudInit tmp demo_net (W0\<lparr>counter := counter W0 + 1\<rparr>) = (Inr ci, W1) \<and>
     prepare_os_disk tmp clear_image_name W1 = (Inr os, W2) \<and> prepare_tap demo_net W2 = (Inr (), W3) \<and>
     spawn_ch os ci demo_net W3 = (Inr 0, W4) \<and>
     guests W4 = (\<lambda>_ _. g) \<and> clock W4 = 0 \<and> net_admin W4 \<and> tools W4 = (\<lambda>_. ToolWorks) \<and>
     taps W4 = [''fwtap6'' \<mapsto> \<lparr>tap_addrs = [''192.168.6.1''], tap_up = True\<rparr>] \<and>
     map proc_state (procs W4) = [Running])"
proof -
  define img where "img = clear_image_name"
  define net where "net = demo_net"
  have net6: "demo_net = guest_network_config_new (counter_as_u8 (counter W0)) [1, 2, 3, 4, 5, 6]"
    by (simp add: W0_def W_def boot_world_def demo_world_def demo_net_def counter_as_u8_def)
  have t: "tempdir_new ''rhfw'' W = (Inr tmp, W0)"
    by (simp add: W0_def W_def tmp_def boot_eval fmt_simps)
  define P where "P = prepare ClearCloudInit tmp net (W0\<lparr>counter := counter W0 + 1\<rparr>)"
  define W1 where "W1 = snd P"
  have "case P of (r, w1) \<Rightarrow> r = Inr ci \<and>
      home w1 = Some [''home'', ''ci''] \<and> files w1 [''home'', ''ci'', ''workloads'', img] = Some ''raw disk'' \<and>
      tmp \<in> dirs w1 \<and> tmp @ [img] \<notin> dirs w1 \<and> taps w1 = Map.empty \<and> net_admin w1 \<and>
      tools w1 = (\<lambda>_. ToolWorks) \<and> procs w1 = [] \<and> guests w1 = (\<lambda>_ _. g) \<and> clock w1 = 0"
    by (simp add: P_def W0_def W_def tmp_def img_def ci_def net_def boot_eval fmt_simps substitute_demo)
  then have e1: "fst P = Inr ci" and f1: "home W1 = Some [''home'', ''ci''] \<and>
      files W1 [''home'', ''ci'', ''workloads'', img] = Some ''raw disk'' \<and>
      tmp \<in> dirs W1 \<and> tmp @ [img] \<notin> dirs W1 \<and> taps W1 = Map.empty \<and> net_admin W1 \<and>
      tools W1 = (\<lambda>_. ToolWorks) \<and> procs W1 = [] \<and> guests W1 = (\<lambda>_ _. g) \<and> clock W1 = 0"
    unfolding W1_def case_prod_beta by simp_all
  have s1: "prepare ClearCloudInit tmp net (W0\<lparr>counter := counter W0 + 1\<rparr>) = (Inr ci, W1)"
    using e1 unfolding P_def W1_def by (simp add: prod_eq_iff)
  define W2 where "W2 = W1\<lparr>files := (files W1)(tmp @ [img] \<mapsto> ''raw disk'')\<rparr>"
  have s2: "prepare_os_disk tmp img W1 = (Inr os, W2)"
    using f1 by (simp add: W2_def prepare_os_disk_def home_dir_def act_bind_def expect_def fs_copy_def
        creatable_def act_return_def Let_def tmp_def os_def img_def clear_image_name_def path_str_def)
  define W3 where "W3 = W2\<lparr>taps := (taps W2)(tap_name net \<mapsto> \<lparr>tap_addrs = [host_ip net], tap_up = True\<rparr>),
                      trace := trace W2 @ tap_scripts net\<rparr>"
  have s3: "prepare_tap net W2 = (Inr (), W3)"
    using f1 by (simp add: W3_def W2_def prepare_tap_def act_bind_def run_ip_ok tap_scripts_def)
  define W4 where "W4 = W3\<lparr>procs := procs W3 @ [\<lparr>proc_argv = ''./cloud-hypervisor'' # ch_args os ci net,
        proc_state = Running\<rparr>], trace := trace W3 @ [''./cloud-hypervisor'' # ch_args os ci net]\<rparr>"
  have s4: "spawn_ch os ci net W3 = (Inr 0, W4)"
    using f1 by (simp add: W4_def W3_def W2_def spawn_ch_def spawn_def expect_def)
  have "taps W4 = [''fwtap6'' \<mapsto> \<lparr>tap_addrs = [''192.168.6.1''], tap_up = True\<rparr>]"
    using f1 by (simp add: W4_def W3_def W2_def net_def demo_net_def guest_network_config_new_def fmt_u8_def fmt_simps)
  with f1 s1 s2 s3 s4 t net6 show ?thesis
    unfolding img_def net_def by (auto simp: W4_def W3_def W2_def)
qed

section \<open>Properties of a test case\<close>

text \<open>C5: when the guest never answers SSH, \<open>test_boot\<close> panics at
  \<open>expect("Expect SSH command to work")\<close> with the VMM still running and the tap
  interface still up: unwinding drops only the \<open>TempDir\<close>, so the host's
  interface table and process table are those after the spawn, while the
  temporary directory is gone (the resource leak of the spec's section 9).\<close>

theorem test_boot_leaks_on_ssh_failure:
  assumes tmp: "tempdir_new ''rhfw'' w = (Inr tmp, w0)"
    and net: "net = guest_network_config_new (counter_as_u8 (counter w0)) rnd"
    and stages: "prepare cinit tmp net (w0\<lparr>counter := counter w0 + 1\<rparr>) = (Inr ci, w1)"
      "prepare_os_disk tmp image_name w1 = (Inr os, w2)" "prepare_tap net w2 = (Inr (), w3)"
      "sp os ci net w3 = (Inr pid, w4)"
    and ssh: "ssh_command (guests w4) (guest_ip net) shutdown_cmd (clock w4 + 20) = (Inr (Inl e), t)"
  shows "\<exists>w'. test_boot image_name cinit sp rnd w = (Inl ''Expect SSH command to work'', w') \<and>
           taps w' = taps w4 \<and> procs w' = procs w4 \<and> tmp \<notin> dirs w'"
  using boot_stages_run [where sp = sp and os = os and ci = ci and net = net and image_name = image_name, OF stages] ssh
  by (simp add: test_boot_run [OF tmp] net [symmetric])

theorem test_boot_leaks_on_ssh_failure_witness:
  "\<exists>w'. test_boot clear_image_name ClearCloudInit spawn_ch [1, 2, 3, 4, 5, 6] (boot_world server_down) =
         (Inl ''Expect SSH command to work'', w') \<and>
       taps w' = [''fwtap6'' \<mapsto> \<lparr>tap_addrs = [''192.168.6.1''], tap_up = True\<rparr>] \<and>
       map proc_state (procs w') = [Running] \<and> [''tmp'', ''rhfw.1''] \<notin> dirs w'"
proof -
  obtain W1 W2 W3 W4 where
      net: "demo_net = guest_network_config_new (counter_as_u8 (counter ((boot_world server_down)\<lparr>dirs := insert [''tmp'', ''rhfw.1''] (dirs (boot_world server_down)), tmp_seq := 2\<rparr>))) [1, 2, 3, 4, 5, 6]"
    and t: "tempdir_new ''rhfw'' (boot_world server_down) = (Inr [''tmp'', ''rhfw.1''], (boot_world server_down)\<lparr>dirs := insert [''tmp'', ''rhfw.1''] (dirs (boot_world server_down)), tmp_seq := 2\<rparr>)"
    and s1: "prepare ClearCloudInit [''tmp'', ''rhfw.1''] demo_net (((boot_world server_down)\<lparr>dirs := insert [''tmp'', ''rhfw.1''] (dirs (boot_world server_down)), tmp_seq := 2\<rparr>)\<lparr>counter := counter ((boot_world server_down)\<lparr>dirs := insert [''tmp'', ''rhfw.1''] (dirs (boot_world server_down)), tmp_seq := 2\<rparr>) + 1\<rparr>) =
               (Inr ''/tmp/rhfw.1/cloudinit'', W1)"
    and s2: "prepare_os_disk [''tmp'', ''rhfw.1''] clear_image_name W1 = (Inr ''/tmp/rhfw.1/clear-31311-cloudguest.img'', W2)"
    and s3: "prepare_tap demo_net W2 = (Inr (), W3)"
    and s4: "spawn_ch ''/tmp/rhfw.1/clear-31311-cloudguest.img'' ''/tmp/rhfw.1/cloudinit'' demo_net W3 = (Inr 0, W4)"
    and w4: "guests W4 = (\<lambda>_ _. server_down)" "clock W4 = 0" "net_admin W4" "tools W4 = (\<lambda>_. ToolWorks)"
      "taps W4 = [''fwtap6'' \<mapsto> \<lparr>tap_addrs = [''192.168.6.1''], tap_up = True\<rparr>]"
      "map proc_state (procs W4) = [Running]"
    using boot_world_stages [of server_down] by (elim conjE exE) (rule that; assumption)
  have ssh: "ssh_command (guests W4) (guest_ip demo_net) shutdown_cmd (clock W4 + 20) =
      (Inr (Inl (Connection ''Connection refused (os error 111)'')), 170)"
    using w4 by (simp add: ssh_down)
  from test_boot_leaks_on_ssh_failure [where sp = spawn_ch, OF t net s1 s2 s3 s4 ssh] w4 show ?thesis
    by auto
qed

text \<open>C6: when every stage succeeds and the guest answers, \<open>test_boot\<close>
  returns normally after killing the VMM (it is reaped with the kill in its exit
  status) and deleting its tap interface; the temporary directory is removed.\<close>

theorem test_boot_cleans_up:
  assumes tmp: "tempdir_new ''rhfw'' w = (Inr tmp, w0)"
    and net: "net = guest_network_config_new (counter_as_u8 (counter w0)) rnd"
    and stages: "prepare cinit tmp net (w0\<lparr>counter := counter w0 + 1\<rparr>) = (Inr ci, w1)"
      "prepare_os_disk tmp image_name w1 = (Inr os, w2)" "prepare_tap net w2 = (Inr (), w3)"
      "sp os ci net w3 = (Inr pid, w4)"
    and child: "pid < length (procs w4)" "\<not> is_reaped (proc_state (procs w4 ! pid))"
    and host: "tools w4 ''bash'' \<noteq> ToolMissing" "net_admin w4"
    and ssh: "ssh_command (guests w4) (guest_ip net) shutdown_cmd (clock w4 + 20) = (Inr (Inr out), t)"
  shows "\<exists>w'. test_boot image_name cinit sp rnd w = (Inr (), w') \<and>
           taps w' = (taps w4)(tap_name net := None) \<and> proc_state (procs w' ! pid) = Reaped True \<and>
           length (procs w') = length (procs w4) \<and> tmp \<notin> dirs w'"
proof -
  let ?w5 = "w4\<lparr>clock := t\<rparr>"
  let ?w6 = "set_proc_state pid Killed ?w5"
  let ?w7 = "set_proc_state pid (Reaped True) ?w6"
  have k: "unwrap (child_kill pid) ?w5 = (Inr (), ?w6)"
    using child by (simp add: unwrap_def expect_def child_kill_def)
  have wt: "unwrap (child_wait pid) ?w6 = (Inr (), ?w7)"
    using child by (simp add: unwrap_def expect_def child_wait_def set_proc_state_def)
  have c: "cleanup_tap net ?w7 = (Inr (), ?w7\<lparr>taps := (taps ?w7)(tap_name net := None),
             trace := trace ?w7 @ [[''bash'', ''-c'', ip_script (TuntapDel (tap_name net))]]\<rparr>)"
    using host by (simp add: cleanup_tap_def run_ip_ok set_proc_state_def)
  have "boot_stages image_name cinit sp net tmp (w0\<lparr>counter := counter w0 + 1\<rparr>) =
          (Inr (), ?w7\<lparr>taps := (taps ?w7)(tap_name net := None),
             trace := trace ?w7 @ [[''bash'', ''-c'', ip_script (TuntapDel (tap_name net))]]\<rparr>)"
    using boot_stages_run [where sp = sp and os = os and ci = ci and net = net and image_name = image_name, OF stages] ssh by (simp only: act_bind_apply k wt c prod.case sum.case)
  with child show ?thesis
    by (simp add: test_boot_run [OF tmp] net [symmetric] set_proc_state_def)
qed

theorem test_boot_cleans_up_witness:
  "\<exists>w'. test_boot clear_image_name ClearCloudInit spawn_ch [1, 2, 3, 4, 5, 6] (boot_world (server_up '''')) =
         (Inr (), w') \<and> taps w' = Map.empty \<and> map proc_state (procs w') = [Reaped True] \<and>
       [''tmp'', ''rhfw.1''] \<notin> dirs w'"
proof -
  obtain W1 W2 W3 W4 where
      net: "demo_net = guest_network_config_new (counter_as_u8 (counter ((boot_world (server_up ''''))\<lparr>dirs := insert [''tmp'', ''rhfw.1''] (dirs (boot_world (server_up ''''))), tmp_seq := 2\<rparr>))) [1, 2, 3, 4, 5, 6]"
    and t: "tempdir_new ''rhfw'' (boot_world (server_up '''')) = (Inr [''tmp'', ''rhfw.1''], (boot_world (server_up ''''))\<lparr>dirs := insert [''tmp'', ''rhfw.1''] (dirs (boot_world (server_up ''''))), tmp_seq := 2\<rparr>)"
    and s1: "prepare ClearCloudInit [''tmp'', ''rhfw.1''] demo_net (((boot_world (server_up ''''))\<lparr>dirs := insert [''tmp'', ''rhfw.1''] (dirs (boot_world (server_up ''''))), tmp_seq := 2\<rparr>)\<lparr>counter := counter ((boot_world (server_up ''''))\<lparr>dirs := insert [''tmp'', ''rhfw.1''] (dirs (boot_world (server_up ''''))), tmp_seq := 2\<rparr>) + 1\<rparr>) =
               (Inr ''/tmp/rhfw.1/cloudinit'', W1)"
    and s2: "prepare_os_disk [''tmp'', ''rhfw.1''] clear_image_name W1 = (Inr ''/tmp/rhfw.1/clear-31311-cloudguest.img'', W2)"
    and s3: "prepare_tap demo_net W2 = (Inr (), W3)"
    and s4: "spawn_ch ''/tmp/rhfw.1/clear-31311-cloudguest.img'' ''/tmp/rhfw.1/cloudinit'' demo_net W3 = (Inr 0, W4)"
    and w4: "guests W4 = (\<lambda>_ _. (server_up ''''))" "clock W4 = 0" "net_admin W4" "tools W4 = (\<lambda>_. ToolWorks)"
      "taps W4 = [''fwtap6'' \<mapsto> \<lparr>tap_addrs = [''192.168.6.1''], tap_up = True\<rparr>]"
      "map proc_state (procs W4) = [Running]"
    using boot_world_stages [of "server_up ''''"] by (elim conjE exE) (rule that; assumption)
  have ssh: "ssh_command (guests W4) (guest_ip demo_net) shutdown_cmd (clock W4 + 20) = (Inr (Inr ''''), 20)"
    using w4 by (simp add: ssh_up)
  have child: "0 < length (procs W4)" "\<not> is_reaped (proc_state (procs W4 ! 0))"
    using w4(6) by (auto simp: map_eq_Cons_conv)
  from test_boot_cleans_up [where sp = spawn_ch, OF t net s1 s2 s3 s4 child _ _ ssh] w4 show ?thesis
    by (auto simp: map_eq_Cons_conv length_Suc_conv demo_net_def guest_network_config_new_def fmt_u8_def fmt_simps)
qed

end
