(* ===== verification/Frame.thy ===== *)
theory Frame
  imports World
begin

text \<open>
  Frame reasoning for actions on the host world. \<open>keeps g m\<close> says that the
  action \<open>m\<close> never changes the part \<open>g\<close> of the world, whatever its outcome
  (panics included); \<open>preserves P m\<close> says that it keeps a property \<open>P\<close> of the
  world. Both are closed under \<open>act_bind\<close>, \<open>expect\<close>, the loop
  \<open>act_foreach\<close> and case distinctions, so that the frame of a whole handler
  follows from its primitives by \<open>intro keeps_intros\<close>; the collection holds the
  composition rules and the facts that no file-system, tool, process or clock
  primitive touches the host's tap table.
\<close>

named_theorems keeps_intros
named_theorems preserves_intros

definition keeps :: "(world \<Rightarrow> 'b) \<Rightarrow> (world \<Rightarrow> 'r \<times> world) \<Rightarrow> bool" where
  "keeps g m \<longleftrightarrow> (\<forall>w. g (snd (m w)) = g w)"

definition preserves :: "(world \<Rightarrow> bool) \<Rightarrow> (world \<Rightarrow> 'r \<times> world) \<Rightarrow> bool" where
  "preserves P m \<longleftrightarrow> (\<forall>w. P w \<longrightarrow> P (snd (m w)))"

section \<open>Composition\<close>

lemma keeps_step: "keeps g m \<Longrightarrow> m w = (r, w') \<Longrightarrow> g w' = g w"
  unfolding keeps_def by (metis snd_conv)

lemma keeps_bind [keeps_intros]:
  assumes "keeps g m" "\<And>a. keeps g (f a)"
  shows "keeps g (act_bind m f)"
  unfolding keeps_def
proof
  fix w
  obtain r w' where mw: "m w = (r, w')" by (cases "m w")
  with assms(1) have "g w' = g w" by (rule keeps_step)
  with assms(2) mw show "g (snd (act_bind m f w)) = g w"
    by (cases r) (auto simp: act_bind_def keeps_def)
qed

lemma keeps_return [keeps_intros]: "keeps g (act_return a)"
  by (simp add: keeps_def act_return_def)

lemma keeps_panic [keeps_intros]: "keeps g (act_panic msg)"
  by (simp add: keeps_def act_panic_def)

lemma keeps_expect [keeps_intros]:
  assumes "keeps g op"
  shows "keeps g (expect op msg)"
  unfolding keeps_def
proof
  fix w
  obtain r w' where ow: "op w = (r, w')" by (cases "op w")
  with assms have "g w' = g w" by (rule keeps_step)
  with ow show "g (snd (expect op msg w)) = g w"
    by (cases r) (simp_all add: expect_def)
qed

lemma keeps_unwrap [keeps_intros]: "keeps g op \<Longrightarrow> keeps g (unwrap op)"
  by (simp add: unwrap_def keeps_expect)

lemma keeps_foreach [keeps_intros]: "(\<And>x. keeps g (f x)) \<Longrightarrow> keeps g (act_foreach xs f)"
  by (induction xs) (simp_all add: keeps_return keeps_bind)

lemma keeps_case_option [keeps_intros]:
  "keeps g a \<Longrightarrow> (\<And>x. keeps g (b x)) \<Longrightarrow> keeps g (case h of None \<Rightarrow> a | Some x \<Rightarrow> b x)"
  by (cases h) simp_all

lemma keeps_case_sum [keeps_intros]:
  "(\<And>x. keeps g (a x)) \<Longrightarrow> (\<And>y. keeps g (b y)) \<Longrightarrow> keeps g (case r of Inl x \<Rightarrow> a x | Inr y \<Rightarrow> b y)"
  by (cases r) simp_all

lemma preserves_bind [preserves_intros]:
  "preserves P m \<Longrightarrow> (\<And>a. preserves P (f a)) \<Longrightarrow> preserves P (act_bind m f)"
  by (auto simp: preserves_def act_bind_def split: prod.split sum.split)

lemma preserves_case_sum [preserves_intros]:
  "(\<And>x. preserves P (a x)) \<Longrightarrow> (\<And>y. preserves P (b y)) \<Longrightarrow>
   preserves P (case r of Inl x \<Rightarrow> a x | Inr y \<Rightarrow> b y)"
  by (cases r) simp_all

text \<open>An action that keeps the tap table preserves every property of it.\<close>

lemma keeps_preserves [preserves_intros]: "keeps taps m \<Longrightarrow> preserves (\<lambda>w. P (taps w)) m"
  by (simp add: keeps_def preserves_def)

lemma preserves_apply: "preserves P m \<Longrightarrow> P w \<Longrightarrow> P (snd (m w))"
  by (simp add: preserves_def)

section \<open>Primitives that leave the tap table alone\<close>

lemma tool_effect_taps: "taps (snd (tool_effect prog args w)) = taps w"
  by (auto simp: tool_effect_def mkdosfs_effect_def mcopy_effect_def Let_def
      split: list.split option.split)

lemma keeps_taps_prims [keeps_intros]:
  "keeps taps (create_dir_all p)" "keeps taps (fs_copy src dst)" "keeps taps (file_open p)"
  "keeps taps (read_to_string h)" "keeps taps (file_create p)" "keeps taps (write_all h c)"
  "keeps taps current_dir" "keeps taps home_dir" "keeps taps (tempdir_new pfx)"
  "keeps taps (spawn prog args)" "keeps taps (child_kill pid)" "keeps taps (child_wait pid)"
  "keeps taps (sleep d)" "keeps taps (ssh_command_act ip cmd)"
  by (simp_all add: keeps_def create_dir_all_def fs_copy_def file_open_def read_to_string_def
      file_create_def write_all_def current_dir_def home_dir_def tempdir_new_def Let_def spawn_def
      child_kill_def child_wait_def set_proc_state_def sleep_def ssh_command_act_def
      split: option.split prod.split sum.split)

lemma keeps_taps_command_output [keeps_intros]: "keeps taps (command_output prog args)"
  by (auto simp: keeps_def command_output_def split: tool.split prod.split)
    (metis snd_conv tool_effect_taps)

lemma remove_tree_taps [simp]: "taps (remove_tree p w) = taps w"
  by (simp add: remove_tree_def)

end
