(* ===== verification/HostInv.thy ===== *)
theory HostInv
  imports Boot Frame
begin

text \<open>
  The host's interface table across any number of test cases. The harness
  changes the table only through \<open>prepare_tap\<close> and \<open>cleanup_tap\<close> (every other
  operation of \<open>test_boot\<close> keeps it, by the frame rules of \<open>Frame\<close>), and each
  of their commands names the interface \<open>fwtap<c>\<close> and the address
  \<open>192.168.<c>.1\<close> of one counter value \<open>c\<close>. The invariant
  \<open>taps_consistent\<close> records this pairing for every interface present,
  including those a panicking test case leaves behind. The hosts the harness can
  produce are the inductive set \<open>host_reach\<close>: a host without interfaces, then
  whole test cases, single bring-ups and tear-downs, and any activity of others
  that leaves the table alone. The invariant holds on all of them, so the harness
  never configures two interfaces in the same /24 subnet. Finer, a test case
  changes no entry of the table but the one named after its own counter value,
  which is what keeps test cases running side by side out of each other's way,
  and a whole run of the test binary, its cases one after the other, keeps the
  pairing.
\<close>

section \<open>The invariant and the reachable hosts\<close>

definition taps_consistent :: "(string \<rightharpoonup> tap_dev) \<Rightarrow> bool" where
  "taps_consistent T \<longleftrightarrow>
     (\<forall>n d. T n = Some d \<longrightarrow>
        (\<exists>c. n = ''fwtap'' @ fmt_u8 c \<and> set (tap_addrs d) \<subseteq> {''192.168.'' @ fmt_u8 c @ ''.1''}))"

inductive host_reach :: "world \<Rightarrow> bool" where
  start: "taps w = Map.empty \<Longrightarrow> host_reach w"
| boot: "host_reach w \<Longrightarrow> sp \<in> {spawn_ch, spawn_qemu} \<Longrightarrow>
           host_reach (snd (test_boot image_name cinit sp rnd w))"
| tap_up: "host_reach w \<Longrightarrow> host_reach (snd (prepare_tap (guest_network_config_new c rnd) w))"
| tap_down: "host_reach w \<Longrightarrow> host_reach (snd (cleanup_tap (guest_network_config_new c rnd) w))"
| other: "host_reach w \<Longrightarrow> taps w' = taps w \<Longrightarrow> host_reach w'"

text \<open>A privileged host on which two bring-ups, for counters 6 and 7, have run.\<close>

definition two_taps_host :: world where
  "two_taps_host =
     snd (prepare_tap (guest_network_config_new 7 [1, 2, 3, 4, 5, 6])
       (snd (prepare_tap (guest_network_config_new 6 [1, 2, 3, 4, 5, 6]) host0)))"

section \<open>Frames of the components\<close>

lemma keeps_taps_components [keeps_intros]:
  "keeps taps (clear_prepare tmp net)" "keeps taps (ubuntu_prepare tmp net)"
  "keeps taps (prepare_os_disk tmp image_name)" "keeps taps (spawn_ch os ci net)"
  "keeps taps (spawn_qemu os ci net)" "keeps taps counter_next"
proof -
  show "keeps taps (clear_prepare tmp net)"
    unfolding clear_prepare_def Let_def by (intro keeps_intros)
  show "keeps taps (ubuntu_prepare tmp net)"
    unfolding ubuntu_prepare_def Let_def by (intro keeps_intros)
  show "keeps taps (prepare_os_disk tmp image_name)"
    unfolding prepare_os_disk_def Let_def by (intro keeps_intros)
  show "keeps taps (spawn_ch os ci net)" "keeps taps (spawn_qemu os ci net)"
    unfolding spawn_ch_def spawn_qemu_def by (intro keeps_intros)+
  show "keeps taps counter_next"
    by (simp add: keeps_def counter_next_def split: prod.split)
qed

lemma keeps_taps_prepare [keeps_intros]: "keeps taps (prepare cinit tmp net)"
  by (cases cinit) (simp_all add: keeps_taps_components)

lemma preserves_with_tempdir [preserves_intros]:
  assumes "\<And>tmp. preserves (\<lambda>w. P (taps w)) (body tmp)"
  shows "preserves (\<lambda>w. P (taps w)) (with_tempdir pfx body)"
proof (unfold preserves_def, intro allI impI)
  fix w :: world
  assume P: "P (taps w)"
  obtain r w0 where t: "tempdir_new pfx w = (r, w0)" by (cases "tempdir_new pfx w")
  from keeps_taps_prims(9) t have "taps w0 = taps w" by (rule keeps_step)
  with P assms t show "P (taps (snd (with_tempdir pfx body w)))"
    by (cases r) (auto simp: with_tempdir_def act_bind_def expect_def preserves_def split: prod.split,
        metis snd_conv)
qed

section \<open>The tap operations keep the pairing\<close>

lemma fmt_u8_inj: "fmt_u8 a = fmt_u8 b \<longleftrightarrow> a = b"
  by (simp add: fmt_u8_def dec_string_inj word_unat_eq_iff)

lemma run_ip_taps:
  "taps (snd (run_ip c msg w)) =
     (if tools w ''bash'' = ToolMissing then taps w else taps (snd (ip_effect c w)))"
  by (simp add: run_ip_def act_bind_def expect_def bash_status_def act_assert_def act_return_def
      act_panic_def split: prod.split)

lemma preserves_run_ip:
  "(\<And>w. P (taps w) \<Longrightarrow> P (taps (snd (ip_effect c w)))) \<Longrightarrow> preserves (\<lambda>w. P (taps w)) (run_ip c msg)"
  by (simp add: preserves_def run_ip_taps)

lemma ip_effect_consistent:
  assumes inv: "taps_consistent (taps w)" and n: "n = ''fwtap'' @ fmt_u8 c"
    and cmd: "cmd \<in> {TuntapAdd n, AddrAdd (''192.168.'' @ fmt_u8 c @ ''.1'') n, LinkUp n, TuntapDel n}"
  shows "taps_consistent (taps (snd (ip_effect cmd w)))"
proof -
  let ?a = "''192.168.'' @ fmt_u8 c @ ''.1''"
  have own: "set (tap_addrs d) \<subseteq> {?a}" if "taps w n = Some d" for d
  proof -
    from inv that obtain c' where "n = ''fwtap'' @ fmt_u8 c'"
        and a: "set (tap_addrs d) \<subseteq> {''192.168.'' @ fmt_u8 c' @ ''.1''}"
      unfolding taps_consistent_def by blast
    with n have "c' = c" by (simp add: fmt_u8_inj)
    with a show ?thesis by simp
  qed
  have upd: "taps_consistent ((taps w)(n \<mapsto> d))" if "set (tap_addrs d) \<subseteq> {?a}" for d
    using inv that n unfolding taps_consistent_def by auto
  have del: "taps_consistent ((taps w)(n := None))"
    using inv by (auto simp: taps_consistent_def)
  from cmd consider "cmd = TuntapAdd n" | "cmd = AddrAdd ?a n" | "cmd = LinkUp n" | "cmd = TuntapDel n"
    by blast
  then show ?thesis
  proof cases
    case 1
    then show ?thesis using inv upd [of "\<lparr>tap_addrs = [], tap_up = False\<rparr>"] by simp
  next
    case 2
    then show ?thesis using inv own upd by (auto split: option.split)
  next
    case 3
    then show ?thesis using inv own upd by (auto split: option.split)
  next
    case 4
    then show ?thesis using inv del by simp
  qed
qed

lemma preserves_tap_ops [preserves_intros]:
  "preserves (\<lambda>w. taps_consistent (taps w)) (prepare_tap (guest_network_config_new c rnd))"
  "preserves (\<lambda>w. taps_consistent (taps w)) (cleanup_tap (guest_network_config_new c rnd))"
  unfolding prepare_tap_def cleanup_tap_def
  by (intro preserves_intros preserves_run_ip ip_effect_consistent;
      simp add: guest_network_config_new_def)+

section \<open>A whole test case keeps the pairing\<close>

text \<open>Stated over the \<open>HypervisorSpawn\<close> interface: any spawner that leaves the
  interface table alone will do; both adapters are such spawners.\<close>

lemma preserves_test_boot:
  assumes "\<And>os ci net. keeps taps (sp os ci net)"
  shows "preserves (\<lambda>w. taps_consistent (taps w)) (test_boot image_name cinit sp rnd)"
  unfolding test_boot_def boot_stages_def
  by (intro preserves_intros keeps_intros assms)

lemma host_reach_consistent: "host_reach w \<Longrightarrow> taps_consistent (taps w)"
proof (induction rule: host_reach.induct)
  case (start w)
  then show ?case by (simp add: taps_consistent_def)
next
  case (boot w sp image_name cinit rnd)
  then have "\<And>os ci net. keeps taps (sp os ci net)"
    by (auto intro: keeps_taps_components)
  with boot.IH show ?case by (intro preserves_apply [OF preserves_test_boot])
next
  case (tap_up w c rnd)
  then show ?case by (intro preserves_apply [OF preserves_tap_ops(1)])
next
  case (tap_down w c rnd)
  then show ?case by (intro preserves_apply [OF preserves_tap_ops(2)])
next
  case (other w w')
  then show ?case by simp
qed

section \<open>A test case touches only its own interface\<close>

lemma ip_effect_other:
  "(taps (snd (ip_effect (TuntapAdd n) w)))(n := None) = (taps w)(n := None)"
  "(taps (snd (ip_effect (AddrAdd a n) w)))(n := None) = (taps w)(n := None)"
  "(taps (snd (ip_effect (LinkUp n) w)))(n := None) = (taps w)(n := None)"
  "(taps (snd (ip_effect (TuntapDel n) w)))(n := None) = (taps w)(n := None)"
  by (auto split: option.split)

lemma preserves_other_tap_ops [preserves_intros]:
  "preserves (\<lambda>w. (taps w)(tap_name net := None) = T) (prepare_tap net)"
  "preserves (\<lambda>w. (taps w)(tap_name net := None) = T) (cleanup_tap net)"
  unfolding prepare_tap_def cleanup_tap_def
  by (intro preserves_intros preserves_run_ip; simp only: ip_effect_other)+

lemma preserves_boot_stages_other:
  assumes "\<And>os ci net. keeps taps (sp os ci net)"
  shows "preserves (\<lambda>w. (taps w)(tap_name net := None) = T) (boot_stages image_name cinit sp net tmp)"
  unfolding boot_stages_def
  by (intro preserves_intros keeps_intros assms)

lemma tempdir_new_frame: "taps (snd (tempdir_new pfx w)) = taps w" "counter (snd (tempdir_new pfx w)) = counter w"
  by (simp_all add: tempdir_new_def Let_def)

lemma test_boot_other_taps:
  assumes sp: "\<And>os ci net. keeps taps (sp os ci net)"
    and n: "n \<noteq> ''fwtap'' @ fmt_u8 (counter_as_u8 (counter w))"
  shows "taps (snd (test_boot image_name cinit sp rnd w)) n = taps w n"
proof (cases "tempdir_new ''rhfw'' w")
  case (Pair r w0)
  have frame: "taps w0 = taps w" "counter w0 = counter w"
    using tempdir_new_frame [of "''rhfw''" w] Pair by simp_all
  show ?thesis
  proof (cases r)
    case (Inl e)
    with Pair frame show ?thesis
      by (simp add: test_boot_def with_tempdir_def act_bind_def expect_def)
  next
    case (Inr tmp)
    let ?net = "guest_network_config_new (counter_as_u8 (counter w0)) rnd"
    let ?w1 = "w0\<lparr>counter := counter w0 + 1\<rparr>"
    obtain r' w' where bs: "boot_stages image_name cinit sp ?net tmp ?w1 = (r', w')"
      by (cases "boot_stages image_name cinit sp ?net tmp ?w1")
    have pres: "preserves (\<lambda>w. (taps w)(tap_name ?net := None) = (taps ?w1)(tap_name ?net := None))
        (boot_stages image_name cinit sp ?net tmp)"
      by (rule preserves_boot_stages_other [OF sp])
    have eq: "(taps w')(tap_name ?net := None) = (taps ?w1)(tap_name ?net := None)"
      using preserves_apply [OF pres, of ?w1] bs by simp
    have ne: "n \<noteq> tap_name ?net"
      using n frame by (simp add: tap_name_new fmt_u8_def)
    have "((taps w')(tap_name ?net := None)) n = ((taps ?w1)(tap_name ?net := None)) n"
      by (simp only: eq)
    with ne have tn: "taps w' n = taps w0 n" by simp
    have "test_boot image_name cinit sp rnd w = (r', remove_tree tmp w')"
      using test_boot_run [of w tmp w0 image_name cinit sp rnd] Pair Inr bs by simp
    with tn frame show ?thesis by simp
  qed
qed

lemma keeps_taps_adapter: "sp \<in> {spawn_ch, spawn_qemu} \<Longrightarrow> keeps taps (sp os ci net)"
  by (auto intro: keeps_taps_components)

section \<open>Properties across test cases\<close>

text \<open>C13: a test case, whichever seeder, image and VMM adapter it uses and
  wherever it panics, keeps the pairing of every interface on the host with the
  address of its own counter value.\<close>

theorem test_boot_keeps_pairing:
  assumes "taps_consistent (taps w)" and "sp \<in> {spawn_ch, spawn_qemu}"
  shows "taps_consistent (taps (snd (test_boot image_name cinit sp rnd w)))"
proof -
  from assms(2) have "\<And>os ci net. keeps taps (sp os ci net)"
    by (auto intro: keeps_taps_components)
  with assms(1) show ?thesis by (intro preserves_apply [OF preserves_test_boot])
qed

theorem test_boot_keeps_pairing_witness:
  "taps_consistent (taps host0) \<and>
   taps_consistent (taps (snd (test_boot clear_image_name ClearCloudInit spawn_ch [1, 2, 3, 4, 5, 6] host0)))"
proof -
  have h: "taps_consistent (taps host0)" by (simp add: host0_def taps_consistent_def)
  from test_boot_keeps_pairing [OF h, of spawn_ch] h show ?thesis by simp
qed

text \<open>C7: on every host the harness can produce, including hosts with
  interfaces leaked by earlier test cases, two different harness interfaces
  carry addresses of different /24 subnets.\<close>

theorem harness_subnets_disjoint:
  assumes "host_reach w" and "taps w n1 = Some d1" and "taps w n2 = Some d2" and "n1 \<noteq> n2"
    and "a1 \<in> set (tap_addrs d1)" and "a2 \<in> set (tap_addrs d2)"
  shows "subnet24 a1 \<noteq> subnet24 a2"
proof -
  from host_reach_consistent [OF assms(1)] assms(2,3) obtain c1 c2
    where n: "n1 = ''fwtap'' @ fmt_u8 c1" "n2 = ''fwtap'' @ fmt_u8 c2"
      and a: "set (tap_addrs d1) \<subseteq> {''192.168.'' @ fmt_u8 c1 @ ''.1''}"
             "set (tap_addrs d2) \<subseteq> {''192.168.'' @ fmt_u8 c2 @ ''.1''}"
    unfolding taps_consistent_def by blast
  from n assms(4) have "c1 \<noteq> c2" by auto
  then have "unat c1 \<noteq> unat c2" by (simp add: word_unat_eq_iff)
  moreover from a assms(5,6) have "a1 = ''192.168.'' @ fmt_u8 c1 @ ''.1''" "a2 = ''192.168.'' @ fmt_u8 c2 @ ''.1''"
    by auto
  ultimately show ?thesis
    using parse_ipv4_addr [of "CHR ''1''" c1] parse_ipv4_addr [of "CHR ''1''" c2]
    by (simp add: subnet24_def)
qed

theorem harness_subnets_disjoint_witness:
  "host_reach two_taps_host \<and>
   taps two_taps_host ''fwtap6'' = Some \<lparr>tap_addrs = [''192.168.6.1''], tap_up = True\<rparr> \<and>
   taps two_taps_host ''fwtap7'' = Some \<lparr>tap_addrs = [''192.168.7.1''], tap_up = True\<rparr> \<and>
   subnet24 ''192.168.6.1'' \<noteq> subnet24 ''192.168.7.1''"
proof -
  have r: "host_reach two_taps_host"
    unfolding two_taps_host_def
    by (intro host_reach.tap_up host_reach.start) (simp add: host0_def)
  have t: "taps two_taps_host ''fwtap6'' = Some \<lparr>tap_addrs = [''192.168.6.1''], tap_up = True\<rparr>"
      "taps two_taps_host ''fwtap7'' = Some \<lparr>tap_addrs = [''192.168.7.1''], tap_up = True\<rparr>"
    by (simp_all add: two_taps_host_def prepare_tap_def act_bind_def run_ip_ok host0_def
        guest_network_config_new_def fmt_u8_def fmt_simps)
  from harness_subnets_disjoint [OF r t] r t show ?thesis by simp
qed

text \<open>C15: a test case changes no interface but the one named after its own
  counter value, on every path, panics included: test cases that run at the
  same time on one host, with the distinct counters \<open>fetch_add\<close> hands out,
  cannot add, reconfigure or delete each other's interfaces.\<close>

theorem test_boot_own_tap_only:
  assumes "sp \<in> {spawn_ch, spawn_qemu}" and "n \<noteq> ''fwtap'' @ fmt_u8 (counter_as_u8 (counter w))"
  shows "taps (snd (test_boot image_name cinit sp rnd w)) n = taps w n"
proof -
  from assms(1) have "\<And>os ci net. keeps taps (sp os ci net)"
    by (auto intro: keeps_taps_components)
  then show ?thesis using assms(2) by (rule test_boot_other_taps)
qed

theorem test_boot_own_tap_only_witness:
  "''fwtap7'' \<noteq> ''fwtap'' @ fmt_u8 (counter_as_u8 (counter two_taps_host)) \<and>
   taps (snd (test_boot clear_image_name ClearCloudInit spawn_ch [1, 2, 3, 4, 5, 6] two_taps_host)) ''fwtap7'' =
     Some \<lparr>tap_addrs = [''192.168.7.1''], tap_up = True\<rparr>"
proof -
  have c: "counter two_taps_host = 6" and t: "taps two_taps_host ''fwtap7'' = Some \<lparr>tap_addrs = [''192.168.7.1''], tap_up = True\<rparr>"
    by (simp_all add: two_taps_host_def prepare_tap_def act_bind_def run_ip_ok host0_def
        guest_network_config_new_def fmt_u8_def fmt_simps)
  have "''fwtap7'' \<noteq> ''fwtap'' @ fmt_u8 (counter_as_u8 (counter two_taps_host))"
    by (simp add: c counter_as_u8_def fmt_u8_def fmt_simps)
  with test_boot_own_tap_only [of spawn_ch "''fwtap7''" two_taps_host clear_image_name ClearCloudInit "[1, 2, 3, 4, 5, 6]"] t
  show ?thesis by simp
qed

text \<open>C14: a run of the test binary, any sequence of its \<open>#[test]\<close> cases one
  after the other, whatever each outcome (panics included), keeps the pairing of
  every interface on the host with the address of its own counter value.\<close>

theorem run_tests_keeps_pairing:
  assumes "taps_consistent (taps w)" and "set ts \<subseteq> set test_cases"
  shows "taps_consistent (taps (snd (run_tests ts rnds w)))"
  using assms
proof (induction ts arbitrary: w rnds)
  case Nil
  then show ?case by simp
next
  case (Cons t ts)
  obtain name image_name cinit sp where t: "t = (name, image_name, cinit, sp)" by (cases t) auto
  from Cons.prems(2) t have "sp \<in> {spawn_ch, spawn_qemu}" by (auto simp: test_cases_def)
  then have "\<And>os ci net. keeps taps (sp os ci net)" by (rule keeps_taps_adapter)
  with Cons.prems(1) have "taps_consistent (taps (snd (test_boot image_name cinit sp (hd rnds) w)))"
    by (intro preserves_apply [OF preserves_test_boot])
  with Cons.IH [of "snd (test_boot image_name cinit sp (hd rnds) w)" "tl rnds"] Cons.prems(2) t
  show ?case by (simp add: case_prod_beta)
qed

theorem run_tests_keeps_pairing_witness:
  "taps_consistent (taps two_taps_host) \<and> taps_consistent (taps (snd (run_tests test_cases [] two_taps_host)))"
proof -
  have "host_reach two_taps_host"
    unfolding two_taps_host_def by (intro host_reach.tap_up host_reach.start) (simp add: host0_def)
  then have h: "taps_consistent (taps two_taps_host)" by (rule host_reach_consistent)
  from run_tests_keeps_pairing [OF h, of test_cases "[]"] h show ?thesis by simp
qed

end
