(* ===== verification/BootErrors.thy ===== *)
theory BootErrors
  imports HostInv
begin

text \<open>
  The early failures of a test case (integration.rs lines 180--189 and
  343--347): the seed image and the OS disk are prepared before any host
  resource is taken, so a panic there (no home directory, a missing tool or
  file) leaves neither an interface nor a VMM behind; only the temporary
  directory existed, and its drop removes it. The frame facts of this theory
  say that the seeders and the disk copy touch only the file system and the
  images: never the home directory setting, the process table or the tap table.
\<close>

section \<open>What the seeders and the disk copy leave alone\<close>

lemma tool_effect_frame: "(home (snd (tool_effect prog args w)), procs (snd (tool_effect prog args w))) = (home w, procs w)"
  by (auto simp: tool_effect_def mkdosfs_effect_def mcopy_effect_def Let_def split: list.split option.split)

lemma keeps_frame_prims [keeps_intros]:
  "keeps (\<lambda>w. (home w, procs w)) (create_dir_all p)" "keeps (\<lambda>w. (home w, procs w)) (fs_copy src dst)"
  "keeps (\<lambda>w. (home w, procs w)) (file_open p)" "keeps (\<lambda>w. (home w, procs w)) (read_to_string h)"
  "keeps (\<lambda>w. (home w, procs w)) (file_create p)" "keeps (\<lambda>w. (home w, procs w)) (write_all h c)"
  "keeps (\<lambda>w. (home w, procs w)) current_dir" "keeps (\<lambda>w. (home w, procs w)) home_dir"
  by (simp_all add: keeps_def create_dir_all_def fs_copy_def file_open_def read_to_string_def
      file_create_def write_all_def current_dir_def home_dir_def split: option.split)

lemma keeps_frame_command_output [keeps_intros]: "keeps (\<lambda>w. (home w, procs w)) (command_output prog args)"
  unfolding keeps_def
proof
  fix w :: world
  obtain ok w' where te: "tool_effect prog args w = (ok, w')" by (cases "tool_effect prog args w")
  with tool_effect_frame [of prog args w] have "home w' = home w" "procs w' = procs w" by simp_all
  with te show "(home (snd (command_output prog args w)), procs (snd (command_output prog args w))) = (home w, procs w)"
    by (cases "tools w prog") (simp_all add: command_output_def)
qed

lemma keeps_frame_seeders [keeps_intros]:
  "keeps (\<lambda>w. (home w, procs w)) (clear_prepare tmp net)"
  "keeps (\<lambda>w. (home w, procs w)) (ubuntu_prepare tmp net)"
  unfolding clear_prepare_def ubuntu_prepare_def Let_def by (intro keeps_intros)+

lemma keeps_frame_prepare [keeps_intros]: "keeps (\<lambda>w. (home w, procs w)) (prepare cinit tmp net)"
  by (cases cinit) (simp_all add: keeps_frame_seeders)

lemma tempdir_new_home: "home (snd (tempdir_new pfx w)) = home w" "procs (snd (tempdir_new pfx w)) = procs w"
  by (simp_all add: tempdir_new_def Let_def)

section \<open>The OS disk on every path\<close>

text \<open>C36: \<open>prepare_os_disk\<close> on each of its paths: without a home directory it
  panics at \<open>dirs::home_dir().expect(..)\<close>; when the image is missing from
  \<open>~/workloads\<close>, or the destination cannot be created, it panics at the copy's
  \<open>expect\<close>; otherwise it copies the image into the temporary directory and
  returns the copy's path. No path changes anything but that one file.\<close>

theorem prepare_os_disk_paths:
  "prepare_os_disk tmp image_name w =
     (case home w of
        None \<Rightarrow> (Inl ''Expect getting home directory to succeed'', w)
      | Some h \<Rightarrow>
          (case files w (h @ [''workloads'', image_name]) of
             None \<Rightarrow> (Inl ''Expect copying OS disk to succeed'', w)
           | Some c \<Rightarrow>
               if creatable w (tmp @ [image_name])
               then (Inr (path_str (tmp @ [image_name])), w\<lparr>files := (files w)(tmp @ [image_name] \<mapsto> c)\<rparr>)
               else (Inl ''Expect copying OS disk to succeed'', w)))"
  by (simp add: prepare_os_disk_def home_dir_def act_bind_def expect_def fs_copy_def act_return_def
      act_panic_def Let_def split: option.split)

section \<open>A test case on a host without a home directory\<close>

lemma boot_stages_no_home:
  assumes "home w = None"
  shows "\<exists>p. fst (boot_stages image_name cinit sp net tmp w) = Inl p \<and>
           taps (snd (boot_stages image_name cinit sp net tmp w)) = taps w \<and>
           procs (snd (boot_stages image_name cinit sp net tmp w)) = procs w"
proof -
  obtain r w1 where pr: "prepare cinit tmp net w = (r, w1)" by (cases "prepare cinit tmp net w")
  have "(home w1, procs w1) = (home w, procs w)" by (rule keeps_step [OF keeps_frame_prepare pr])
  moreover have "taps w1 = taps w" by (rule keeps_step [OF keeps_taps_prepare pr])
  ultimately show ?thesis
    using assms by (cases r) (simp_all add: boot_stages_def act_bind_def pr prepare_os_disk_paths)
qed

text \<open>C18: on a host without a home directory, every test case panics, whatever
  its seeder, image and VMM adapter, and leaves the tap table and the process
  table as they were: the OS disk is looked up before an interface is brought up
  or a VMM spawned, so this early failure leaks nothing.\<close>

theorem test_boot_no_home:
  assumes "home w = None"
  shows "\<exists>p. fst (test_boot image_name cinit sp rnd w) = Inl p \<and>
           taps (snd (test_boot image_name cinit sp rnd w)) = taps w \<and>
           procs (snd (test_boot image_name cinit sp rnd w)) = procs w"
proof (cases "tempdir_new ''rhfw'' w")
  case (Pair r w0)
  have frame: "home w0 = home w" "procs w0 = procs w" "taps w0 = taps w"
    using tempdir_new_home [of "''rhfw''" w] tempdir_new_frame [of "''rhfw''" w] Pair by simp_all
  show ?thesis
  proof (cases r)
    case (Inl e)
    with Pair frame show ?thesis
      by (simp add: test_boot_def with_tempdir_def act_bind_def expect_def)
  next
    case (Inr tmp)
    let ?net = "guest_network_config_new (counter_as_u8 (counter w0)) rnd"
    let ?w1 = "w0\<lparr>counter := counter w0 + 1\<rparr>"
    have "home ?w1 = None" using assms frame by simp
    obtain r' w' where bs: "boot_stages image_name cinit sp ?net tmp ?w1 = (r', w')"
      by (cases "boot_stages image_name cinit sp ?net tmp ?w1")
    from boot_stages_no_home [OF \<open>home ?w1 = None\<close>, of image_name cinit sp ?net tmp] frame bs
    obtain p where "r' = Inl p" "taps w' = taps w" "procs w' = procs w" by auto
    with Pair Inr bs show ?thesis
      by (simp add: test_boot_run)
  qed
qed

theorem test_boot_no_home_witness:
  "home (demo_world ToolWorks) = None \<and>
   (\<exists>p. fst (test_boot bionic_image_name UbuntuCloudInit spawn_qemu [1, 2, 3, 4, 5, 6] (demo_world ToolWorks)) = Inl p \<and>
        taps (snd (test_boot bionic_image_name UbuntuCloudInit spawn_qemu [1, 2, 3, 4, 5, 6] (demo_world ToolWorks))) = Map.empty \<and>
        procs (snd (test_boot bionic_image_name UbuntuCloudInit spawn_qemu [1, 2, 3, 4, 5, 6] (demo_world ToolWorks))) = [])"
proof -
  have h: "home (demo_world ToolWorks) = None" "taps (demo_world ToolWorks) = Map.empty"
    "procs (demo_world ToolWorks) = []"
    by (simp_all add: demo_world_def)
  from test_boot_no_home [OF h(1), of bionic_image_name UbuntuCloudInit spawn_qemu "[1, 2, 3, 4, 5, 6]"] h
  show ?thesis by simp
qed

end
