(* ===== verification/ProcFrame.thy ===== *)
theory ProcFrame
  imports BootErrors
begin

text \<open>
  The process table across one test case. \<open>test_boot\<close> spawns one VMM and
  later kills and reaps it through the \<open>Child\<close> handle the spawn returned,
  which is the index the new process got; every other step leaves the table
  alone. So a test case appends at most one process and changes no process that
  existed before it, in particular no VMM of a test case running beside it.
  A test case whose interface name is already taken on the host panics at the
  bring-up, before any VMM is spawned.
\<close>

section \<open>Steps that leave the process table alone\<close>

lemma keeps_procs_frame: "keeps (\<lambda>w. (home w, procs w)) m \<Longrightarrow> keeps procs m"
  by (simp add: keeps_def)

lemma ip_effect_procs: "procs (snd (ip_effect c w)) = procs w"
  by (cases c) (auto split: option.split)

lemma keeps_procs_prims [keeps_intros]:
  "keeps procs (sleep d)" "keeps procs (ssh_command_act ip cmd)" "keeps procs counter_next"
  by (simp_all add: keeps_def sleep_def ssh_command_act_def counter_next_def split: prod.split sum.split)

lemma keeps_procs_run_ip [keeps_intros]: "keeps procs (run_ip c msg)"
  unfolding keeps_def
proof
  fix w :: world
  obtain ok w' where ie: "ip_effect c w = (ok, w')" by (cases "ip_effect c w")
  with ip_effect_procs [of c w] have "procs w' = procs w" by simp
  with ie show "procs (snd (run_ip c msg w)) = procs w"
    by (cases ok) (simp_all add: run_ip_def act_bind_def expect_def bash_status_def act_assert_def
        act_return_def act_panic_def)
qed

lemma keeps_procs_steps [keeps_intros]:
  "keeps procs (prepare cinit tmp net)" "keeps procs (prepare_os_disk tmp image_name)"
  "keeps procs (prepare_tap net)" "keeps procs (cleanup_tap net)"
proof -
  show "keeps procs (prepare cinit tmp net)"
    by (rule keeps_procs_frame) (rule keeps_frame_prepare)
  show "keeps procs (prepare_os_disk tmp image_name)"
    by (rule keeps_procs_frame) (unfold prepare_os_disk_def Let_def, intro keeps_intros)
  show "keeps procs (prepare_tap net)" "keeps procs (cleanup_tap net)"
    unfolding prepare_tap_def cleanup_tap_def by (intro keeps_intros)+
qed

text \<open>Reading off a kept part of the world after a sequence: either the first
  action panics and the part is as before, or the rest runs from a world where
  it still is.\<close>

lemma keeps_bind_cases:
  assumes "keeps g m" "Q (g w)" "\<And>a w'. m w = (Inr a, w') \<Longrightarrow> g w' = g w \<Longrightarrow> Q (g (snd (f a w')))"
  shows "Q (g (snd (act_bind m f w)))"
proof (cases "m w")
  case (Pair r w')
  with assms(1) have "g w' = g w" by (rule keeps_step)
  with Pair assms(2,3) show ?thesis
    by (cases r) (simp_all add: act_bind_def)
qed

lemma keeps_preserves_procs [preserves_intros]: "keeps procs m \<Longrightarrow> preserves (\<lambda>w. P (procs w)) m"
  by (simp add: keeps_def preserves_def)

section \<open>The spawn, the kill and the wait\<close>

text \<open>A launch adapter either fails, leaving the table alone, or appends one
  running process and returns its index.\<close>

lemma spawn_adapter_procs:
  assumes "sp \<in> {spawn_ch, spawn_qemu}" and "sp os ci net w = (r, w')"
  shows "(r = Inr pid \<longrightarrow> pid = length (procs w) \<and> length (procs w') = Suc pid \<and> take pid (procs w') = procs w) \<and>
         ((\<exists>m. r = Inl m) \<longrightarrow> procs w' = procs w)"
  using assms by (auto simp: spawn_ch_def spawn_qemu_def spawn_def expect_def split: if_splits)

text \<open>Killing and reaping the child at index \<open>k\<close> changes only that entry.\<close>

lemma preserves_kill_wait [preserves_intros]:
  "preserves (\<lambda>w. take k (procs w) = base \<and> length (procs w) = Suc k) (unwrap (child_kill k))"
  "preserves (\<lambda>w. take k (procs w) = base \<and> length (procs w) = Suc k) (unwrap (child_wait k))"
  by (auto simp: preserves_def unwrap_def expect_def child_kill_def child_wait_def set_proc_state_def)

lemma preserves_boot_tail:
  "preserves (\<lambda>w. take k (procs w) = base \<and> length (procs w) = Suc k)
     (act_bind (sleep 20) (\<lambda>_.
      act_bind (ssh_command_act (guest_ip net) shutdown_cmd) (\<lambda>r.
        case r of
          Inl _ \<Rightarrow> act_panic ''Expect SSH command to work''
        | Inr _ \<Rightarrow>
            act_bind (unwrap (child_kill k)) (\<lambda>_.
            act_bind (unwrap (child_wait k)) (\<lambda>_.
            cleanup_tap net)))))"
  by (intro preserves_kill_wait preserves_intros keeps_intros)

section \<open>One test case\<close>

lemma boot_stages_split:
  "boot_stages image_name cinit sp net tmp =
     act_bind (act_bind (prepare cinit tmp net) (\<lambda>ci.
               act_bind (prepare_os_disk tmp image_name) (\<lambda>os.
               act_bind (prepare_tap net) (\<lambda>_. act_return (ci, os))))) (\<lambda>(ci, os).
     act_bind (sp os ci net) (\<lambda>child.
     act_bind (sleep 20) (\<lambda>_.
     act_bind (ssh_command_act (guest_ip net) shutdown_cmd) (\<lambda>r.
       case r of
         Inl _ \<Rightarrow> act_panic ''Expect SSH command to work''
       | Inr _ \<Rightarrow>
           act_bind (unwrap (child_kill child)) (\<lambda>_.
           act_bind (unwrap (child_wait child)) (\<lambda>_.
           cleanup_tap net))))))"
  by (simp add: boot_stages_def act_bind_assoc)

lemma boot_stages_procs:
  assumes sp: "sp \<in> {spawn_ch, spawn_qemu}"
  shows "take (length (procs w)) (procs (snd (boot_stages image_name cinit sp net tmp w))) = procs w \<and>
         length (procs (snd (boot_stages image_name cinit sp net tmp w))) \<le> Suc (length (procs w))"
proof -
  let ?Q = "\<lambda>ps. take (length (procs w)) ps = procs w \<and> length ps \<le> Suc (length (procs w))"
  define pre where "pre = act_bind (prepare cinit tmp net) (\<lambda>ci.
               act_bind (prepare_os_disk tmp image_name) (\<lambda>os.
               act_bind (prepare_tap net) (\<lambda>_. act_return (ci, os))))"
  define tail where "tail = (\<lambda>child. act_bind (sleep 20) (\<lambda>_.
     act_bind (ssh_command_act (guest_ip net) shutdown_cmd) (\<lambda>r.
       case r of
         Inl _ \<Rightarrow> act_panic ''Expect SSH command to work''
       | Inr _ \<Rightarrow>
           act_bind (unwrap (child_kill child)) (\<lambda>_.
           act_bind (unwrap (child_wait child)) (\<lambda>_.
           cleanup_tap net)))))"
  have split: "boot_stages image_name cinit sp net tmp = act_bind pre (\<lambda>(ci, os). act_bind (sp os ci net) tail)"
    unfolding pre_def tail_def by (rule boot_stages_split)
  have kpre: "keeps procs pre"
    unfolding pre_def by (intro keeps_intros)
  have ptail: "preserves (\<lambda>w. take k (procs w) = base \<and> length (procs w) = Suc k) (tail k)" for k base
    unfolding tail_def by (rule preserves_boot_tail)
  have "?Q (procs (snd (boot_stages image_name cinit sp net tmp w)))"
    unfolding split
  proof (rule keeps_bind_cases [OF kpre])
    show "?Q (procs w)" by simp
  next
    fix a :: "string \<times> string" and w3 :: world
    assume w3: "procs w3 = procs w"
    obtain ci os where a: "a = (ci, os)" by (cases a)
    obtain r w4 where s4: "sp os ci net w3 = (r, w4)" by (cases "sp os ci net w3")
    note spw = spawn_adapter_procs [OF sp s4]
    show "?Q (procs (snd ((case a of (ci, os) \<Rightarrow> act_bind (sp os ci net) tail) w3)))"
    proof (cases r)
      case (Inl m)
      with spw s4 w3 a show ?thesis by (simp add: act_bind_def)
    next
      case (Inr pid)
      with spw w3 have k: "pid = length (procs w)" "take pid (procs w4) = procs w" "length (procs w4) = Suc pid"
        by simp_all
      from preserves_apply [OF ptail [of pid "procs w"], of w4] k
      have "take pid (procs (snd (tail pid w4))) = procs w \<and> length (procs (snd (tail pid w4))) = Suc pid"
        by simp
      with Inr s4 a k(1) show ?thesis by (simp add: act_bind_def)
    qed
  qed
  then show ?thesis by simp
qed

section \<open>An interface name that is already taken\<close>

lemma prepare_tap_taken:
  assumes "taps w (tap_name net) \<noteq> None"
  shows "\<exists>p. fst (prepare_tap net w) = Inl p \<and> taps (snd (prepare_tap net w)) = taps w \<and>
             procs (snd (prepare_tap net w)) = procs w"
proof (cases "tools w ''bash'' = ToolMissing")
  case True
  then show ?thesis by (simp add: prepare_tap_def act_bind_def run_ip_no_bash)
next
  case False
  with assms show ?thesis by (simp add: prepare_tap_def act_bind_def run_ip_fails)
qed

lemma boot_stages_taken:
  assumes "taps w (tap_name net) \<noteq> None"
  shows "\<exists>p. fst (boot_stages image_name cinit sp net tmp w) = Inl p \<and>
           taps (snd (boot_stages image_name cinit sp net tmp w)) = taps w \<and>
           procs (snd (boot_stages image_name cinit sp net tmp w)) = procs w"
proof -
  obtain r1 w1 where p1: "prepare cinit tmp net w = (r1, w1)" by (cases "prepare cinit tmp net w")
  have f1: "taps w1 = taps w" "procs w1 = procs w"
    by (rule keeps_step [OF keeps_taps_prepare p1], rule keeps_step [OF keeps_procs_steps(1) p1])
  show ?thesis
  proof (cases r1)
    case Inl
    with p1 f1 show ?thesis by (simp add: boot_stages_def act_bind_def)
  next
    case (Inr ci)
    obtain r2 w2 where p2: "prepare_os_disk tmp image_name w1 = (r2, w2)"
      by (cases "prepare_os_disk tmp image_name w1")
    have f2: "taps w2 = taps w" "procs w2 = procs w"
      using keeps_step [OF keeps_taps_components(3) p2] keeps_step [OF keeps_procs_steps(2) p2] f1 by simp_all
    show ?thesis
    proof (cases r2)
      case Inl
      with Inr p1 p2 f2 show ?thesis by (simp add: boot_stages_def act_bind_def)
    next
      case (Inr os)
      from prepare_tap_taken [of w2 net] assms f2
      obtain p where "fst (prepare_tap net w2) = Inl p" "taps (snd (prepare_tap net w2)) = taps w"
          "procs (snd (prepare_tap net w2)) = procs w" by auto
      with \<open>r1 = Inr ci\<close> Inr p1 p2 show ?thesis
        by (cases "prepare_tap net w2") (simp add: boot_stages_def act_bind_def)
    qed
  qed
qed

section \<open>Properties of a test case\<close>

text \<open>C16: a test case, on every path, panics included, appends at most one
  process to the host's process table and changes no process that was there
  before it: it kills and reaps only the VMM it spawned itself, never the VMM of
  a test case running beside it.\<close>

theorem test_boot_own_child_only:
  assumes "sp \<in> {spawn_ch, spawn_qemu}"
  shows "take (length (procs w)) (procs (snd (test_boot image_name cinit sp rnd w))) = procs w \<and>
         length (procs (snd (test_boot image_name cinit sp rnd w))) \<le> Suc (length (procs w))"
proof (cases "tempdir_new ''rhfw'' w")
  case (Pair r w0)
  have frame: "procs w0 = procs w"
    using tempdir_new_home [of "''rhfw''" w] Pair by simp
  show ?thesis
  proof (cases r)
    case (Inl e)
    with Pair frame show ?thesis
      by (simp add: test_boot_def with_tempdir_def act_bind_def expect_def)
  next
    case (Inr tmp)
    let ?net = "guest_network_config_new (counter_as_u8 (counter w0)) rnd"
    let ?w1 = "w0\<lparr>counter := counter w0 + 1\<rparr>"
    obtain r' w' where bs: "boot_stages image_name cinit sp ?net tmp ?w1 = (r', w')"
      by (cases "boot_stages image_name cinit sp ?net tmp ?w1")
    from boot_stages_procs [OF assms, of ?w1 image_name cinit ?net tmp] bs frame
    have "take (length (procs w)) (procs w') = procs w \<and> length (procs w') \<le> Suc (length (procs w))"
      by simp
    with Pair Inr bs show ?thesis
      by (simp add: test_boot_run)
  qed
qed

theorem test_boot_own_child_only_witness:
  "spawn_qemu \<in> {spawn_ch, spawn_qemu} \<and>
   take 1 (procs (snd (test_boot clear_image_name ClearCloudInit spawn_qemu [1, 2, 3, 4, 5, 6]
       (host0\<lparr>procs := [\<lparr>proc_argv = [''./cloud-hypervisor''], proc_state = Running\<rparr>]\<rparr>)))) =
     [\<lparr>proc_argv = [''./cloud-hypervisor''], proc_state = Running\<rparr>]"
  using test_boot_own_child_only [of spawn_qemu "host0\<lparr>procs := [\<lparr>proc_argv = [''./cloud-hypervisor''], proc_state = Running\<rparr>]\<rparr>"
      clear_image_name ClearCloudInit "[1, 2, 3, 4, 5, 6]"]
  by simp

text \<open>C17: a test case whose counter value names an interface that is already
  on the host, such as one leaked by the test case 256 calls earlier, panics
  before it spawns a VMM, whatever its seeder, image and adapter, and leaves the
  interface and process tables as they were.\<close>

theorem test_boot_name_collision:
  assumes "taps w (''fwtap'' @ fmt_u8 (counter_as_u8 (counter w))) \<noteq> None"
  shows "\<exists>p. fst (test_boot image_name cinit sp rnd w) = Inl p \<and>
           taps (snd (test_boot image_name cinit sp rnd w)) = taps w \<and>
           procs (snd (test_boot image_name cinit sp rnd w)) = procs w"
proof (cases "tempdir_new ''rhfw'' w")
  case (Pair r w0)
  have frame: "procs w0 = procs w" "taps w0 = taps w" "counter w0 = counter w"
    using tempdir_new_home [of "''rhfw''" w] tempdir_new_frame [of "''rhfw''" w] Pair by simp_all
  show ?thesis
  proof (cases r)
    case (Inl e)
    with Pair frame show ?thesis
      by (simp add: test_boot_def with_tempdir_def act_bind_def expect_def)
  next
    case (Inr tmp)
    let ?net = "guest_network_config_new (counter_as_u8 (counter w0)) rnd"
    let ?w1 = "w0\<lparr>counter := counter w0 + 1\<rparr>"
    have "taps ?w1 (tap_name ?net) \<noteq> None"
      using assms frame by (simp add: tap_name_new fmt_u8_def)
    obtain r' w' where bs: "boot_stages image_name cinit sp ?net tmp ?w1 = (r', w')"
      by (cases "boot_stages image_name cinit sp ?net tmp ?w1")
    from boot_stages_taken [OF \<open>taps ?w1 (tap_name ?net) \<noteq> None\<close>, of image_name cinit sp tmp] frame bs
    obtain p where "r' = Inl p" "taps w' = taps w" "procs w' = procs w" by auto
    with Pair Inr bs show ?thesis
      by (simp add: test_boot_run)
  qed
qed

theorem test_boot_name_collision_witness:
  "taps (host0\<lparr>taps := [''fwtap6'' \<mapsto> \<lparr>tap_addrs = [''192.168.6.1''], tap_up = True\<rparr>]\<rparr>)
     (''fwtap'' @ fmt_u8 (counter_as_u8 (counter (host0\<lparr>taps := [''fwtap6'' \<mapsto> \<lparr>tap_addrs = [''192.168.6.1''], tap_up = True\<rparr>]\<rparr>)))) \<noteq> None \<and>
   (\<exists>p. fst (test_boot focal_image_name UbuntuCloudInit spawn_ch [1, 2, 3, 4, 5, 6]
           (host0\<lparr>taps := [''fwtap6'' \<mapsto> \<lparr>tap_addrs = [''192.168.6.1''], tap_up = True\<rparr>]\<rparr>)) = Inl p)"
proof -
  have h: "taps (host0\<lparr>taps := [''fwtap6'' \<mapsto> \<lparr>tap_addrs = [''192.168.6.1''], tap_up = True\<rparr>]\<rparr>)
     (''fwtap'' @ fmt_u8 (counter_as_u8 (counter (host0\<lparr>taps := [''fwtap6'' \<mapsto> \<lparr>tap_addrs = [''192.168.6.1''], tap_up = True\<rparr>]\<rparr>)))) \<noteq> None"
    by (simp add: host0_def counter_as_u8_def fmt_u8_def fmt_simps)
  from test_boot_name_collision [OF h, of focal_image_name UbuntuCloudInit spawn_ch "[1, 2, 3, 4, 5, 6]"] h
  show ?thesis by blast
qed

end
