(* ===== verification/Spec2Isabelle.thy ===== *)
theory Spec2Isabelle
  imports ReplaceStd NetWf Ssh CloudInit UbuntuSeed Tap Vmm Boot HostInv BootErrors ProcFrame
begin

text \<open>
  Verification development of the integration-test harness of
  rust-hypervisor-firmware, \<open>src/src/integration.rs\<close>. The harness boots a
  cloud image under the firmware in a VMM (Cloud Hypervisor or QEMU), with a
  cloud-init seed image giving the guest its network identity, reaches the guest
  over SSH to shut it down, and tears the host resources down again.

  \<^bold>\<open>Parts of the program and the theories that model them.\<close>

  \<^item> \<open>Prelude\<close> and \<open>Fmt\<close>: the machine types (\<open>u8\<close> as \<open>8 word\<close>, \<open>usize\<close>
    as \<open>64 word\<close>), \<open>str::split\<close>, and the two \<open>format!\<close> renderings the source
    uses, \<open>{}\<close> and \<open>{:02x}\<close> on a \<open>u8\<close>, each with its parser and round trip.
  \<^item> \<open>NetConfig\<close>: \<open>GuestNetworkConfig\<close> and \<open>GuestNetworkConfig::new\<close>
    (lines 33--59) as \<open>guest_network_config_new\<close>, the random MAC array being
    a parameter; \<open>COUNTER\<close> with \<open>fetch_add\<close> and the \<open>as u8\<close> cast of
    \<open>test_boot\<close> (lines 31, 345) as \<open>counter_after\<close> and \<open>test_counter\<close>.
    \<open>NetWf\<close> states the well-formedness of the values \<open>new\<close> builds, as
    \<open>ip\<close>, the VMMs and the kernel read them.
  \<^item> \<open>Replace\<close> and \<open>ReplaceStd\<close>: \<open>str::replace\<close>, which both seeders call
    three times (lines 95--98, 148--151): a recursive \<open>str_replace\<close> the
    template lemmas use, and the standard library's loop over
    \<open>match_indices\<close> (\<open>replace_std\<close>), proved equal to it.
  \<^item> \<open>Ssh\<close>: \<open>SSHCommandError\<close> and \<open>ssh_command\<close> (lines 228--281). One
    attempt (\<open>ssh_attempt\<close>) is the closure's phases over an \<open>ssh_server\<close>
    that says how the guest's login service answers at a given second; the retry
    loop is \<open>ssh_loop\<close>, a terminating function, and \<open>ssh_loop_pf\<close>, the
    unbounded \<open>loop\<close> of the source in the option monad.
  \<^item> \<open>World\<close>: the host as an explicit state, the record \<open>world\<close> (files,
    directories, FAT images, installed tools, tap interfaces and the \<open>sudo\<close>
    privilege, child processes, clock, guests, temporary directories, the trace
    of commands run, the counter). An action is
    \<open>world \<Rightarrow> (panic_msg + 'a) \<times> world\<close>: a panic keeps the world it
    happened in. The std and tool operations the harness calls
    (\<open>fs::create_dir_all\<close>, \<open>fs::copy\<close>, \<open>File::open/create\<close>,
    \<open>Command::output/status/spawn\<close>, \<open>Child::kill/wait\<close> (a child is
    running, killed, or reaped with an exit status that records whether it was
    killed), \<open>thread::sleep\<close>,
    \<open>TempDir\<close>, \<open>mkdosfs\<close>, \<open>mcopy\<close>, \<open>ip\<close>) are modelled from the
    specification at their interface. \<open>Frame\<close> gives the frame rules: an action
    that keeps a part of the world (\<open>keeps\<close>) or preserves a property of it
    (\<open>preserves\<close>), closed under sequencing, \<open>expect\<close>, loops and case
    distinctions.
  \<^item> \<open>CloudInit\<close>: the \<open>CloudInit\<close> trait, \<open>ClearCloudInit::prepare\<close> (lines
    67--116) and \<open>UbuntuCloudInit::prepare\<close> (lines 120--177) step by step as
    actions, and the dispatch on the trait object; \<open>UbuntuSeed\<close> runs the
    Ubuntu seeder through its success path.
  \<^item> \<open>Tap\<close>: \<open>prepare_tap\<close> and \<open>cleanup_tap\<close> (lines 191--226), each \<open>ip\<close>
    command an \<open>expect\<close> on spawning bash and an \<open>assert!\<close> on its status.
  \<^item> \<open>Vmm\<close>: \<open>spawn_ch\<close> and \<open>spawn_qemu\<close> (lines 283--339), their argument
    vectors, and each VMM's reading of its command line (\<open>ch_view\<close>,
    \<open>qemu_view\<close>, which resolves each QEMU \<open>-device\<close>'s \<open>drive=\<close> and
    \<open>netdev=\<close> to the back end with that \<open>id=\<close>) to state the adapters'
    common contract.
  \<^item> \<open>Boot\<close>: \<open>prepare_os_disk\<close>, \<open>test_boot\<close> (lines 180--189, 341--360)
    as the sequence seed, disk, tap, spawn, sleep, SSH shutdown, kill, wait,
    tear-down, inside the \<open>TempDir\<close> whose drop is the only clean-up on a
    panic; the \<open>#[test]\<close> cases (lines 362--395). \<open>BootErrors\<close> gives
    \<open>prepare_os_disk\<close> on each of its paths and the early failures of
    \<open>test_boot\<close>.
  \<^item> \<open>HostInv\<close>: the host's tap table over any number of test cases: the
    pairing invariant \<open>taps_consistent\<close>, kept by each test case and by a
    whole \<open>run_tests\<close>, and the step relation \<open>host_reach\<close> (test runs with
    either adapter, bring-ups, tear-downs, and steps of other programs that leave
    the table alone).
  \<^item> \<open>ProcFrame\<close>: the process table across one test case: the VMM spawned is
    the only process added, killed and reaped; and a test case whose interface
    name is taken (leaked earlier) panics before spawning.

  \<^bold>\<open>What the lemmas show.\<close> The identity generator gives locally
  administered unicast MACs that parse back to the random bytes, well-formed
  addresses and names, and disjoint subnets for distinct counters; the \<open>u8\<close>
  cast makes identities repeat every 256 test cases. \<open>ssh_command\<close> refines
  a retry-over-schedule specification with attempts at
  \<open>t, t+10, t+30, t+60, t+100, t+150\<close>; its loop terminates on every input,
  returns within 150 seconds with no \<open>u8\<close> overflow, and reports the last
  failure by phase; with the 10-second base the overflow-checked backoff allows
  at most 26 retries. The standard replacement loop equals \<open>str_replace\<close>, and
  the three replacements of a seeder render a template with delimited
  placeholders exactly. The Clear seeder builds a \<open>config-2\<close> image with
  \<open>openstack/latest\<close> in it, and returns its path even when \<open>mkdosfs\<close>
  fails; the Ubuntu seeder builds a \<open>cidata\<close> image with its three files at
  the root. A tap bring-up creates exactly the host address; tear-down restores the
  table; the refused cases panic. Both adapters spawn one process with the
  firmware, the two disks in order and the identity's tap and MAC. A
  successful \<open>test_boot\<close> kills the VMM (its reaped status records the
  kill) and deletes the tap; one whose
  guest never answers panics with the VMM running and the tap configured,
  while one that fails before the bring-up (no home directory) leaks nothing. Over
  every reachable host, each tap keeps the address of its own counter, so two
  taps never share a subnet; a test case and a whole run of the test binary keep
  that pairing, and a test case changes no interface and no process but its
  own.

  \<^bold>\<open>Bounds.\<close> \<open>u8\<close> counters and arithmetic are \<open>8 word\<close>, with the
  debug-build overflow panics of \<open>counter += 1\<close> and \<open>timeout * counter\<close>
  written out; \<open>COUNTER\<close> is a \<open>64 word\<close> and wraps. The loop needs no fuel:
  \<open>ssh_loop\<close> terminates by the measure \<open>255 - counter\<close>, since each round
  exits or increments the counter, whose overflow panics, and \<open>ssh_loop_pf\<close>
  is proved to return its value. With the constants of the source (6 retries,
  10 s base) the schedule has six attempts and ends 150 s after the first.

  \<^bold>\<open>Not modelled.\<close> The random generator (\<open>rand::thread_rng\<close>): its bytes
  are a parameter of every statement. Output only (\<open>eprintln!\<close>, the
  \<open>Debug\<close> text inside \<open>expect\<close> panics beyond the message). The SSH protocol
  and TCP (\<open>ssh2\<close>): an attempt's outcome per phase is given by the
  environment \<open>ssh_server\<close>. The parallel execution of test functions by the
  test runner: \<open>run_tests\<close> runs the cases one after the other, and
  \<open>host_reach\<close> admits interleaved foreign steps only as far as they leave
  the tap table alone. The VMMs and the guest themselves: a spawned VMM is a
  running process until it is killed (it does not exit on its own, so \<open>wait\<close>
  on a running child returns at once with a status that records no kill), and
  the guest's behaviour is the login service.
\<close>

end
